theory Spec2Isabelle
  imports Main "HOL-Library.Sublist"
begin

section \<open>Go values shared by the three packages\<close>

text \<open>
  \<open>Scope\<close> of \<open>pkg/gh\<close>: what a scope string such as \<open>owner\<close> or \<open>owner/repo\<close>
  names. It is declared here, before the errors, because an error message prints one.
\<close>

datatype Scope = Unknown | Repository | Organization

text \<open>
  The names of the environment variables that \<open>pkg/config\<close> reads are string constants
  of the package (\<open>EnvPort\<close>, \<open>EnvDebug\<close>, ...) whose values the loading code does not
  depend on. They are kept as the values of a datatype, one for each constant, so two
  constants name two variables.
\<close>

datatype envvar =
    EnvPort | EnvRunnerUser | EnvDebug | EnvStrict | EnvModeWebhookType
  | EnvProvideDockerHubMetrics | EnvDockerHubUsername | EnvDockerHubPassword
  | EnvMaxConnectionsToBackend | EnvMaxConcurrencyDeleting | EnvGitHubURL
  | EnvRunnerVersion | EnvShoesPluginOutputPath | EnvEnableRescueWorkflow
  | EnvShoesPluginPath

text \<open>
  A Go \<open>error\<close> built by \<open>fmt.Errorf\<close> is kept as its format string and its
  arguments, so that a wrapped cause (\<open>%w\<close>) stays visible. An error that comes from
  outside the repository (the provider's client library, the datastore, the operating
  system) is any value of this type.
\<close>

datatype error = Errorf string "fmtarg list"
  and fmtarg = ArgS string | ArgD int | ArgW error | ArgScope Scope | ArgEnv envvar

text \<open>
  A call either returns or panics. \<open>log.Panicf\<close> panics with its formatted message;
  dereferencing a nil pointer (\<open>*p\<close> with \<open>p == nil\<close>) panics at run time.
\<close>

datatype panic = Panicf string "fmtarg list" | NilPointerDereference

datatype 'a outcome = Return 'a | Panic panic

text \<open>
  The integers of the code (\<open>int\<close>, \<open>int64\<close>) are identifiers, counts, page numbers
  and settings: they are read, compared and passed on, and no arithmetic is done on them.
  They are modelled as integers; where the code parses one from a string, the range of
  the machine type is checked there, as \<open>strconv\<close> does.
\<close>

type_synonym int64 = int

text \<open>
  \<open>strings.EqualFold\<close> of the Go library. Strings are byte strings. The function
  walks both strings byte by byte as long as both bytes are below \<open>0x80\<close>
  (\<open>utf8.RuneSelf\<close>): two such bytes agree when they are equal, or when the smaller is
  an upper case letter and the larger its lower case form. When one string ends there,
  the result is whether both have ended. At the first position where one of the two
  bytes is \<open>0x80\<close> or more, the library goes on (at its label \<open>hasUnicode\<close>) with the
  two remaining strings: it decodes them as UTF-8 and compares the runes under the simple
  case folding of the tables of package \<open>unicode\<close>. That part is not modelled: its
  result on the two remaining strings is a parameter, \<open>hasUnicode\<close>, of which nothing
  is assumed. So whatever the library answers on strings that are not ASCII, the model
  answers the same, and on ASCII strings the model computes the answer.
\<close>

type_synonym unicode_part = "string \<Rightarrow> string \<Rightarrow> bool"

definition foldEq :: "char \<Rightarrow> char \<Rightarrow> bool" where
  "foldEq a b =
     (let sr = min (of_char a :: nat) (of_char b); tr = max (of_char a :: nat) (of_char b)
      in tr = sr \<or> (65 \<le> sr \<and> sr \<le> 90 \<and> tr = sr + 97 - 65))"

fun EqualFold :: "unicode_part \<Rightarrow> string \<Rightarrow> string \<Rightarrow> bool" where
  "EqualFold hasUnicode [] [] = True"
| "EqualFold hasUnicode (a # s) (b # t) =
     (if 128 \<le> (of_char a :: nat) \<or> 128 \<le> (of_char b :: nat) then hasUnicode (a # s) (b # t)
      else foldEq a b \<and> EqualFold hasUnicode s t)"
| "EqualFold hasUnicode _ _ = False"

text \<open>
  The strings of the examples below are ASCII, so the Unicode part is not reached in
  them. Where an example needs a value for it, it is this one, which tells two strings
  apart unless they are the same bytes.
\<close>

definition same_bytes :: unicode_part where
  "same_bytes s t = (s = t)"

section \<open>cmd/server: boot and the advisory lock\<close>

text \<open>
  The datastore is a state machine of an arbitrary state type \<open>'d\<close>: each call
  returns its Go result and the next state. \<open>IsNotLocked\<close> is the constant
  \<open>datastore.IsNotLocked\<close> of the datastore package, a parameter here.
\<close>

record 'd Datastore =
  IsLocked :: "'d \<Rightarrow> (error + string) \<times> 'd"
  GetLock :: "'d \<Rightarrow> error option \<times> 'd"
  IsNotLocked :: string

text \<open>
  What \<open>Run\<close> does besides calling the datastore: it sleeps, and it hands three
  functions to the error group. The duration is in nanoseconds, as \<open>time.Duration\<close>.
  The lines written by \<open>logger.Logf\<close> are left out.
\<close>

datatype service = WebServe | StarterLoop | RunnerLoop

datatype event = Sleep int | Go service

definition Second :: int where
  "Second = 1000000000"

text \<open>
  The \<open>for\<close> loop of \<open>Run\<close>. Its first argument \<open>U\<close> is the Unicode part of
  \<open>strings.EqualFold\<close>, as it is for every function below that compares strings with
  it. The loop has no bound: the result is \<open>None\<close> when the loop
  never ends. On leaving the loop the result carries the error \<open>Run\<close> returns from
  inside it (\<open>Some err\<close>), or \<open>None\<close> after \<open>break\<close>.
\<close>

partial_function (option) Run_loop ::
  "unicode_part \<Rightarrow> 'd Datastore \<Rightarrow> event list \<Rightarrow> 'd \<Rightarrow> (error option \<times> event list \<times> 'd) option" where
  "Run_loop U ds tr d =
     (case IsLocked ds d of
        (Inl err, d1) \<Rightarrow> Some (Some (Errorf ''failed to check lock: %w'' [ArgW err]), tr, d1)
      | (Inr isLocked, d1) \<Rightarrow>
          if EqualFold U isLocked (IsNotLocked ds) then
            (case GetLock ds d1 of
               (Some err, d2) \<Rightarrow> Some (Some (Errorf ''failed to get lock: %w'' [ArgW err]), tr, d2)
             | (None, d2) \<Rightarrow> Some (None, tr, d2))
          else Run_loop U ds (tr @ [Sleep Second]) d1)"

text \<open>
  \<open>eg.Wait()\<close> blocks until the three functions have returned and gives the first
  error among them. The loops themselves belong to other packages; what
  \<open>eg.Wait()\<close> does is a parameter: it never returns, or it returns an error or nil.
\<close>

datatype wait_result = WaitBlocks | WaitReturns "error option"

datatype run_result = RunBlocks | RunReturns "error option"

definition Run ::
  "unicode_part \<Rightarrow> 'd Datastore \<Rightarrow> ('d \<Rightarrow> wait_result) \<Rightarrow> 'd \<Rightarrow> (run_result \<times> event list \<times> 'd) option" where
  "Run U ds egWait d =
     (case Run_loop U ds [] d of
        None \<Rightarrow> None
      | Some (Some err, tr, d1) \<Rightarrow> Some (RunReturns (Some err), tr, d1)
      | Some (None, tr, d1) \<Rightarrow>
          (let tr1 = tr @ [Go WebServe, Go StarterLoop, Go RunnerLoop] in
           case egWait d1 of
             WaitBlocks \<Rightarrow> Some (RunBlocks, tr1, d1)
           | WaitReturns (Some err) \<Rightarrow>
               Some (RunReturns (Some (Errorf ''failed to wait errgroup: %w'' [ArgW err])), tr1, d1)
           | WaitReturns None \<Rightarrow> Some (RunReturns None, tr1, d1)))"

text \<open>
  \<open>held_polls U ds n d\<close> is the datastore state after \<open>n\<close> calls of \<open>IsLocked\<close> in a
  row, from state \<open>d\<close>, each of which returned without error a value that \<open>strings.EqualFold\<close> tells
  apart from \<open>IsNotLocked\<close>; it is \<open>None\<close> when one of these \<open>n\<close> calls returned an error or
  \<open>IsNotLocked\<close>.
\<close>

fun held_polls :: "unicode_part \<Rightarrow> 'd Datastore \<Rightarrow> nat \<Rightarrow> 'd \<Rightarrow> 'd option" where
  "held_polls U ds 0 d = Some d"
| "held_polls U ds (Suc n) d =
     (case IsLocked ds d of
        (Inl err, d1) \<Rightarrow> None
      | (Inr isLocked, d1) \<Rightarrow>
          if EqualFold U isLocked (IsNotLocked ds) then None else held_polls U ds n d1)"

text \<open>The three \<open>eg.Go\<close> calls of \<open>Run\<close>, in their order.\<close>

definition launches :: "event list" where
  "launches = [Go WebServe, Go StarterLoop, Go RunnerLoop]"

text \<open>
  Two datastores to run \<open>Run\<close> on. The first answers \<open>IsLocked\<close> from a script and
  \<open>GetLock\<close> with a fixed result; the second reports the lock as held for ever.
\<close>

definition scripted_ds :: "((error + string) list \<times> error option) Datastore" where
  "scripted_ds =
     \<lparr>IsLocked = (\<lambda>(as, g). case as of
                      [] \<Rightarrow> (Inl (Errorf ''connection lost'' []), ([], g))
                    | a # rest \<Rightarrow> (a, (rest, g))),
      GetLock = (\<lambda>(as, g). (g, (as, g))),
      IsNotLocked = ''is not locked''\<rparr>"

definition held_ds :: "unit Datastore" where
  "held_ds = \<lparr>IsLocked = (\<lambda>d. (Inr ''is locked'', d)), GetLock = (\<lambda>d. (None, d)),
     IsNotLocked = ''is not locked''\<rparr>"

section \<open>pkg/gh: installations and registration tokens\<close>

text \<open>
  The structures of the provider's client library, with the fields the code reads. A
  field of pointer type is an option: \<open>None\<close> is nil. The elements of the slices and
  the structures returned next to a nil error are taken to be non-nil, which is the
  library's contract.
\<close>

type_synonym Timestamp = int

type_synonym Rate = int

record User =
  Login :: "string option"

record Installation =
  ID :: "int64 option"
  Account :: "User option"
  RepositorySelection :: "string option"
  SuspendedAt :: "Timestamp option"

record Repo =
  FullName :: "string option"

record ListRepositories =
  TotalCount :: "int option"
  Repositories :: "Repo list"

record ListOptions =
  Page :: int
  PerPage :: int

record Response =
  NextPage :: int
  Rate :: Rate

record InstallationToken =
  it_Token :: "string option"
  it_ExpiresAt :: "Timestamp option"

record RegistrationToken =
  rt_Token :: "string option"
  rt_ExpiresAt :: "Timestamp option"

text \<open>\<open>config.Config.GitHub\<close>, as far as this package reads it.\<close>

record GitHubApp =
  AppID :: int64
  PEMByte :: string

text \<open>
  Everything this file calls and does not define: the client constructors of the
  package, \<open>storeRateLimit\<close>, and the methods of the client library that talk to the
  provider. The provider, the network and the package's caches form a world of an
  arbitrary type \<open>'w\<close>; a call takes the world and returns its Go result and the next
  world. \<open>'c\<close> is the type of clients.
\<close>

record ('w, 'c) github =
  NewClientGitHubApps :: "string \<Rightarrow> int64 \<Rightarrow> string \<Rightarrow> 'w \<Rightarrow> (error + 'c) \<times> 'w"
  NewClientInstallation :: "string \<Rightarrow> int64 \<Rightarrow> int64 \<Rightarrow> string \<Rightarrow> 'w \<Rightarrow> (error + 'c) \<times> 'w"
  NewClient :: "string \<Rightarrow> string \<Rightarrow> 'w \<Rightarrow> (error + 'c) \<times> 'w"
  storeRateLimit :: "string \<Rightarrow> Rate \<Rightarrow> 'w \<Rightarrow> 'w"
  Apps_ListInstallations ::
    "'c \<Rightarrow> ListOptions \<Rightarrow> 'w \<Rightarrow> (error + Installation list \<times> Response) \<times> 'w"
  Apps_CreateInstallationToken ::
    "'c \<Rightarrow> int64 \<Rightarrow> 'w \<Rightarrow> (error + InstallationToken \<times> Response) \<times> 'w"
  Apps_ListRepos :: "'c \<Rightarrow> 'w \<Rightarrow> (error + ListRepositories) \<times> 'w"
  Actions_CreateOrganizationRegistrationToken ::
    "'c \<Rightarrow> string \<Rightarrow> 'w \<Rightarrow> (error + RegistrationToken) \<times> 'w"
  Actions_CreateRegistrationToken ::
    "'c \<Rightarrow> string \<Rightarrow> string \<Rightarrow> 'w \<Rightarrow> (error + RegistrationToken) \<times> 'w"

text \<open>
  Modelled from the spec: \<open>DetectScope\<close>, whose source is missing. The glossary
  gives a scope as a string of the form \<open>owner\<close> (Organization) or \<open>owner/repo\<close>
  (Repository); a string with more than one \<open>/\<close> is neither.
\<close>

definition DetectScope :: "string \<Rightarrow> Scope" where
  "DetectScope scope =
     (case length (filter (\<lambda>c. c = CHR ''/'') scope) of
        0 \<Rightarrow> Organization
      | Suc 0 \<Rightarrow> Repository
      | Suc (Suc n) \<Rightarrow> Unknown)"

text \<open>
  Modelled from the spec: \<open>DivideScope\<close>, whose source is missing. For a Repository
  scope the spec has the scope split on the first \<open>/\<close> into owner and repo.
\<close>

definition DivideScope :: "string \<Rightarrow> string \<times> string" where
  "DivideScope scope =
     (takeWhile (\<lambda>c. c \<noteq> CHR ''/'') scope, drop 1 (dropWhile (\<lambda>c. c \<noteq> CHR ''/'') scope))"

definition GenerateGitHubAppsToken ::
  "('w, 'c) github \<Rightarrow> 'c \<Rightarrow> int64 \<Rightarrow> string \<Rightarrow> 'w \<Rightarrow>
   (string \<times> Timestamp option \<times> error option) outcome \<times> 'w" where
  "GenerateGitHubAppsToken gh clientApps installationID scope w =
     (case Apps_CreateInstallationToken gh clientApps installationID w of
        (Inl err, w1) \<Rightarrow>
          (Return ('''', None, Some (Errorf ''failed to generate token from API: %w'' [ArgW err])), w1)
      | (Inr (token, resp), w1) \<Rightarrow>
          (let w2 = storeRateLimit gh scope (Rate resp) w1 in
           case it_Token token of
             None \<Rightarrow> (Panic NilPointerDereference, w2)
           | Some t \<Rightarrow> (Return (t, it_ExpiresAt token, None), w2)))"

definition GenerateRunnerRegistrationToken ::
  "('w, 'c) github \<Rightarrow> GitHubApp \<Rightarrow> string \<Rightarrow> int64 \<Rightarrow> string \<Rightarrow> 'w \<Rightarrow>
   (string \<times> Timestamp option \<times> error option) outcome \<times> 'w" where
  "GenerateRunnerRegistrationToken gh cfg gheDomain installationID scope w =
     (case NewClientInstallation gh gheDomain installationID (AppID cfg) (PEMByte cfg) w of
        (Inl err, w1) \<Rightarrow>
          (Return ('''', None,
             Some (Errorf ''failed to create NewClientInstallation: %w'' [ArgW err])), w1)
      | (Inr client, w1) \<Rightarrow>
          (case DetectScope scope of
             Organization \<Rightarrow>
               (case Actions_CreateOrganizationRegistrationToken gh client scope w1 of
                  (Inl err, w2) \<Rightarrow>
                    (Return ('''', None,
                       Some (Errorf
                         ''failed to generate registration token for organization (scope: %s): %w''
                         [ArgS scope, ArgW err])), w2)
                | (Inr token, w2) \<Rightarrow>
                    (case rt_Token token of
                       None \<Rightarrow> (Panic NilPointerDereference, w2)
                     | Some t \<Rightarrow>
                         (case rt_ExpiresAt token of
                            None \<Rightarrow> (Panic NilPointerDereference, w2)
                          | Some e \<Rightarrow> (Return (t, Some e, None), w2))))
           | Repository \<Rightarrow>
               (case DivideScope scope of
                  (owner, repo) \<Rightarrow>
                    (case Actions_CreateRegistrationToken gh client owner repo w1 of
                       (Inl err, w2) \<Rightarrow>
                         (Return ('''', None,
                            Some (Errorf
                              ''failed to generate registration token for repository (scope: %s): %w''
                              [ArgS scope, ArgW err])), w2)
                     | (Inr token, w2) \<Rightarrow>
                         (case rt_Token token of
                            None \<Rightarrow> (Panic NilPointerDereference, w2)
                          | Some t \<Rightarrow>
                              (case rt_ExpiresAt token of
                                 None \<Rightarrow> (Panic NilPointerDereference, w2)
                               | Some e \<Rightarrow> (Return (t, Some e, None), w2)))))
           | Unknown \<Rightarrow>
               (Return ('''', None,
                  Some (Errorf ''failed to detect scope (scope: %s)'' [ArgS scope])), w1)))"

text \<open>
  What the statement \<open>return *token.Token, &token.ExpiresAt.Time, nil\<close> gives for a
  registration token, for use in the properties below.
\<close>

definition returnToken ::
  "RegistrationToken \<Rightarrow> (string \<times> Timestamp option \<times> error option) outcome" where
  "returnToken token =
     (case rt_Token token of
        None \<Rightarrow> Panic NilPointerDereference
      | Some t \<Rightarrow>
          (case rt_ExpiresAt token of
             None \<Rightarrow> Panic NilPointerDereference
           | Some e \<Rightarrow> Return (t, Some e, None)))"

text \<open>
  The loop of \<open>listInstallations\<close>. It ends when the provider reports no next page or
  fails; the result is \<open>None\<close> when it never ends.
\<close>

partial_function (option) listInstallations_loop ::
  "('w, 'c) github \<Rightarrow> 'c \<Rightarrow> ListOptions \<Rightarrow> Installation list \<Rightarrow> 'w \<Rightarrow>
   ((error + Installation list) \<times> 'w) option" where
  "listInstallations_loop gh clientApps opts installations w =
     (case Apps_ListInstallations gh clientApps opts w of
        (Inl err, w1) \<Rightarrow> Some (Inl (Errorf ''failed to list installations: %w'' [ArgW err]), w1)
      | (Inr (is, resp), w1) \<Rightarrow>
          if NextPage resp = 0 then Some (Inr (installations @ is), w1)
          else listInstallations_loop gh clientApps (opts\<lparr>Page := NextPage resp\<rparr>)
                 (installations @ is) w1)"

definition listInstallations ::
  "('w, 'c) github \<Rightarrow> 'c \<Rightarrow> 'w \<Rightarrow> ((error + Installation list) \<times> 'w) option" where
  "listInstallations gh clientApps w =
     listInstallations_loop gh clientApps \<lparr>Page = 0, PerPage = 10\<rparr> [] w"

definition listAppsInstalledRepo ::
  "('w, 'c) github \<Rightarrow> GitHubApp \<Rightarrow> string \<Rightarrow> int64 \<Rightarrow> string \<Rightarrow> 'w \<Rightarrow>
   (error + ListRepositories) outcome \<times> 'w" where
  "listAppsInstalledRepo gh cfg gheDomain installationID inputScope w =
     (case NewClientGitHubApps gh gheDomain (AppID cfg) (PEMByte cfg) w of
        (Inl err, w1) \<Rightarrow>
          (Return (Inl (Errorf ''failed to create github.Client from installationID: %w''
                          [ArgW err])), w1)
      | (Inr clientApps, w1) \<Rightarrow>
          (case GenerateGitHubAppsToken gh clientApps installationID inputScope w1 of
             (Panic p, w2) \<Rightarrow> (Panic p, w2)
           | (Return (token, expiresAt, Some err), w2) \<Rightarrow>
               (Return (Inl (Errorf ''failed to generate GitHub Apps Token: %w'' [ArgW err])), w2)
           | (Return (token, expiresAt, None), w2) \<Rightarrow>
               (case NewClient gh token gheDomain w2 of
                  (Inl err, w3) \<Rightarrow>
                    (Return (Inl (Errorf ''failed to NewClient: %w'' [ArgW err])), w3)
                | (Inr client, w3) \<Rightarrow>
                    (case Apps_ListRepos gh client w3 of
                       (Inl err, w4) \<Rightarrow>
                         (Return (Inl (Errorf ''failed to get installed repositories: %w''
                                         [ArgW err])), w4)
                     | (Inr lr, w4) \<Rightarrow> (Return (Inr lr), w4)))))"

text \<open>
  The three function variables \<open>GHlistInstallations\<close>, \<open>GHlistAppsInstalledRepo\<close> and
  \<open>GHNewClientGitHubApps\<close>, through which \<open>IsInstalledGitHubApp\<close> makes its calls, and
  the values the \<open>var\<close> block gives them.
\<close>

record ('w, 'c) seams =
  GHlistInstallations :: "'c \<Rightarrow> 'w \<Rightarrow> ((error + Installation list) \<times> 'w) option"
  GHlistAppsInstalledRepo ::
    "string \<Rightarrow> int64 \<Rightarrow> string \<Rightarrow> 'w \<Rightarrow> (error + ListRepositories) outcome \<times> 'w"
  GHNewClientGitHubApps :: "string \<Rightarrow> int64 \<Rightarrow> string \<Rightarrow> 'w \<Rightarrow> (error + 'c) \<times> 'w"

definition package_seams :: "('w, 'c) github \<Rightarrow> GitHubApp \<Rightarrow> ('w, 'c) seams" where
  "package_seams gh cfg =
     \<lparr>GHlistInstallations = listInstallations gh,
      GHlistAppsInstalledRepo = listAppsInstalledRepo gh cfg,
      GHNewClientGitHubApps = NewClientGitHubApps gh\<rparr>"

text \<open>The \<open>for\<close> loop of \<open>isInstalledGitHubAppSelected\<close> and the return after it.\<close>

fun isInstalledGitHubAppSelected_range ::
  "unicode_part \<Rightarrow> Repo list \<Rightarrow> string \<Rightarrow> error option outcome" where
  "isInstalledGitHubAppSelected_range U [] inputScope = Return (Some (Errorf ''not found'' []))"
| "isInstalledGitHubAppSelected_range U (repo # rest) inputScope =
     (case FullName repo of
        None \<Rightarrow> Panic NilPointerDereference
      | Some fullName \<Rightarrow>
          if EqualFold U fullName inputScope then Return None
          else isInstalledGitHubAppSelected_range U rest inputScope)"

definition isInstalledGitHubAppSelected ::
  "unicode_part \<Rightarrow> ('w, 'c) seams \<Rightarrow> string \<Rightarrow> string \<Rightarrow> int64 \<Rightarrow> 'w \<Rightarrow> error option outcome \<times> 'w" where
  "isInstalledGitHubAppSelected U S gheDomain inputScope installationID w =
     (case GHlistAppsInstalledRepo S gheDomain installationID inputScope w of
        (Panic p, w1) \<Rightarrow> (Panic p, w1)
      | (Return (Inl err), w1) \<Rightarrow>
          (Return (Some (Errorf ''failed to get list of installed repositories: %w''
                           [ArgW err])), w1)
      | (Return (Inr lr), w1) \<Rightarrow>
          (let s = DetectScope inputScope in
           case TotalCount lr of
             None \<Rightarrow> (Panic NilPointerDereference, w1)
           | Some totalCount \<Rightarrow>
               if totalCount \<le> 0 then
                 (Return (Some (Errorf ''installed repository is not found'' [])), w1)
               else if s = Organization then (Return None, w1)
               else if s \<noteq> Repository then
                 (Return (Some (Errorf ''scope is unknown: %s'' [ArgScope s])), w1)
               else (isInstalledGitHubAppSelected_range U (Repositories lr) inputScope, w1)))"

text \<open>
  The \<open>for\<close> loop of \<open>IsInstalledGitHubApp\<close> over the installations, and the return
  after it.
\<close>

fun IsInstalledGitHubApp_range ::
  "unicode_part \<Rightarrow> ('w, 'c) seams \<Rightarrow> string \<Rightarrow> string \<Rightarrow> Installation list \<Rightarrow> 'w \<Rightarrow>
   (int64 \<times> error option) outcome \<times> 'w" where
  "IsInstalledGitHubApp_range U S gheDomain inputScope [] w =
     (Return (- 1, Some (Errorf ''%s/%s is not installed configured GitHub Apps''
                           [ArgS gheDomain, ArgS inputScope])), w)"
| "IsInstalledGitHubApp_range U S gheDomain inputScope (i # rest) w =
     (if SuspendedAt i \<noteq> None then IsInstalledGitHubApp_range U S gheDomain inputScope rest w
      else
        (case Account i of
           None \<Rightarrow> (Panic NilPointerDereference, w)
         | Some account \<Rightarrow>
             (case Login account of
                None \<Rightarrow> (Panic NilPointerDereference, w)
              | Some login \<Rightarrow>
                  if prefix login inputScope then
                    (case RepositorySelection i of
                       None \<Rightarrow> (Panic NilPointerDereference, w)
                     | Some selection \<Rightarrow>
                         if EqualFold U selection ''all'' then
                           (case ID i of
                              None \<Rightarrow> (Panic NilPointerDereference, w)
                            | Some iid \<Rightarrow> (Return (iid, None), w))
                         else if EqualFold U selection ''selected'' then
                           (case ID i of
                              None \<Rightarrow> (Panic NilPointerDereference, w)
                            | Some iid \<Rightarrow>
                                (case isInstalledGitHubAppSelected U S gheDomain inputScope iid w of
                                   (Panic p, w1) \<Rightarrow> (Panic p, w1)
                                 | (Return None, w1) \<Rightarrow> (Return (iid, None), w1)
                                 | (Return (Some err), w1) \<Rightarrow>
                                     IsInstalledGitHubApp_range U S gheDomain inputScope rest w1))
                         else IsInstalledGitHubApp_range U S gheDomain inputScope rest w)
                  else IsInstalledGitHubApp_range U S gheDomain inputScope rest w)))"

definition IsInstalledGitHubApp ::
  "unicode_part \<Rightarrow> ('w, 'c) seams \<Rightarrow> GitHubApp \<Rightarrow> string \<Rightarrow> string \<Rightarrow> 'w \<Rightarrow>
   ((int64 \<times> error option) outcome \<times> 'w) option" where
  "IsInstalledGitHubApp U S cfg gheDomain inputScope w =
     (case GHNewClientGitHubApps S gheDomain (AppID cfg) (PEMByte cfg) w of
        (Inl err, w1) \<Rightarrow>
          Some (Return (- 1, Some (Errorf ''failed to create client from GitHub Apps: %w''
                                     [ArgW err])), w1)
      | (Inr clientApps, w1) \<Rightarrow>
          (case GHlistInstallations S clientApps w1 of
             None \<Rightarrow> None
           | Some (Inl err, w2) \<Rightarrow>
               Some (Return (- 1, Some (Errorf ''failed to get list of installations: %w''
                                          [ArgW err])), w2)
           | Some (Inr installations, w2) \<Rightarrow>
               Some (IsInstalledGitHubApp_range U S gheDomain inputScope installations w2)))"

text \<open>
  \<open>next_pages gh c n page w\<close> follows \<open>n\<close> pages of the listing from page \<open>page\<close> in
  world \<open>w\<close>, each asked for with page size 10 and each answered without error and with
  a next page. It gives the installations of these pages in order, the page to ask for
  next and the world; it is \<open>None\<close> when one of the \<open>n\<close> answers is an error or reports
  no next page.
\<close>

fun next_pages ::
  "('w, 'c) github \<Rightarrow> 'c \<Rightarrow> nat \<Rightarrow> int \<Rightarrow> 'w \<Rightarrow> (Installation list \<times> int \<times> 'w) option" where
  "next_pages gh c 0 page w = Some ([], page, w)"
| "next_pages gh c (Suc n) page w =
     (case Apps_ListInstallations gh c \<lparr>Page = page, PerPage = 10\<rparr> w of
        (Inl err, w1) \<Rightarrow> None
      | (Inr (is, resp), w1) \<Rightarrow>
          if NextPage resp = 0 then None
          else (case next_pages gh c n (NextPage resp) w1 of
                  None \<Rightarrow> None
                | Some (js, p, w2) \<Rightarrow> Some (is @ js, p, w2)))"

text \<open>
  A provider to run the functions on. Its world is the list of the calls made so far;
  a client is a string (the token it was made from, or the kind of client); the answers
  to the listing of installations, to the minting of an installation token and to the
  listing of repositories are given by three tables.
\<close>

datatype call =
    CallNewClientGitHubApps string
  | CallNewClientInstallation string int64
  | CallNewClient string string
  | CallStoreRateLimit string
  | CallListInstallations int int
  | CallCreateInstallationToken int64
  | CallListRepos string
  | CallCreateOrganizationRegistrationToken string
  | CallCreateRegistrationToken string string

record answers =
  pages :: "int \<Rightarrow> error + Installation list \<times> Response"
  tokens :: "int64 \<Rightarrow> error + InstallationToken \<times> Response"
  repos :: "string \<Rightarrow> error + ListRepositories"

definition recording_github :: "answers \<Rightarrow> (call list, string) github" where
  "recording_github ans =
     \<lparr>NewClientGitHubApps = (\<lambda>dom appID pem w. (Inr ''app'', w @ [CallNewClientGitHubApps dom])),
      NewClientInstallation =
        (\<lambda>dom inst appID pem w. (Inr ''installation'', w @ [CallNewClientInstallation dom inst])),
      NewClient = (\<lambda>token dom w. (Inr token, w @ [CallNewClient token dom])),
      storeRateLimit = (\<lambda>scope rate w. w @ [CallStoreRateLimit scope]),
      Apps_ListInstallations =
        (\<lambda>c opts w. (pages ans (Page opts), w @ [CallListInstallations (Page opts) (PerPage opts)])),
      Apps_CreateInstallationToken =
        (\<lambda>c inst w. (tokens ans inst, w @ [CallCreateInstallationToken inst])),
      Apps_ListRepos = (\<lambda>c w. (repos ans c, w @ [CallListRepos c])),
      Actions_CreateOrganizationRegistrationToken =
        (\<lambda>c org w. (Inr \<lparr>rt_Token = Some ''REG-ORG'', rt_ExpiresAt = Some 3600\<rparr>,
                     w @ [CallCreateOrganizationRegistrationToken org])),
      Actions_CreateRegistrationToken =
        (\<lambda>c owner repo w. (Inr \<lparr>rt_Token = Some ''REG-REPO'', rt_ExpiresAt = Some 3600\<rparr>,
                            w @ [CallCreateRegistrationToken owner repo]))\<rparr>"

definition no_answers :: answers where
  "no_answers =
     \<lparr>pages = (\<lambda>p. Inl (Errorf ''no such page'' [])),
      tokens = (\<lambda>i. Inl (Errorf ''no such installation'' [])),
      repos = (\<lambda>c. Inl (Errorf ''bad credentials'' []))\<rparr>"

definition demo_app :: GitHubApp where
  "demo_app = \<lparr>AppID = 7, PEMByte = ''PEM''\<rparr>"

text \<open>
  Five installations on three pages. The first is suspended, the second belongs to
  another account, the third and the fourth are limited to selected repositories and
  the fifth covers all repositories. No token can be minted for the third; the fourth
  has one repository.
\<close>

definition inst :: "int64 \<Rightarrow> string \<Rightarrow> string \<Rightarrow> Timestamp option \<Rightarrow> Installation" where
  "inst n login selection suspended =
     \<lparr>ID = Some n, Account = Some \<lparr>Login = Some login\<rparr>,
      RepositorySelection = Some selection, SuspendedAt = suspended\<rparr>"

definition demo_answers :: answers where
  "demo_answers =
     \<lparr>pages = (\<lambda>p.
        if p = 0 then
          Inr ([inst 11 ''octo-org'' ''all'' (Some 5), inst 12 ''other'' ''all'' None],
               \<lparr>NextPage = 2, Rate = 100\<rparr>)
        else if p = 2 then
          Inr ([inst 13 ''octo-org'' ''selected'' None, inst 14 ''octo-org'' ''selected'' None],
               \<lparr>NextPage = 3, Rate = 99\<rparr>)
        else if p = 3 then
          Inr ([inst 15 ''octo-org'' ''all'' None], \<lparr>NextPage = 0, Rate = 98\<rparr>)
        else Inl (Errorf ''no such page'' [])),
      tokens = (\<lambda>i.
        if i = 14 then Inr (\<lparr>it_Token = Some ''T14'', it_ExpiresAt = Some 3600\<rparr>,
                            \<lparr>NextPage = 0, Rate = 97\<rparr>)
        else Inl (Errorf ''service unavailable'' [])),
      repos = (\<lambda>c.
        if c = ''T14'' then
          Inr \<lparr>TotalCount = Some 1, Repositories = [\<lparr>FullName = Some ''Octo-Org/Widget''\<rparr>]\<rparr>
        else Inl (Errorf ''bad credentials'' []))\<rparr>"

text \<open>A provider whose every page of installations names a next page.\<close>

definition endless_answers :: answers where
  "endless_answers =
     \<lparr>pages = (\<lambda>p. Inr ([], \<lparr>NextPage = \<bar>p\<bar> + 1, Rate = 0\<rparr>)),
      tokens = (\<lambda>i. Inl (Errorf ''service unavailable'' [])),
      repos = (\<lambda>c. Inl (Errorf ''bad credentials'' []))\<rparr>"

section \<open>pkg/config: loading the configuration\<close>

text \<open>
  The environment maps a variable to its value, \<open>None\<close> when it is unset.
  \<open>os.Getenv\<close> gives the empty string for an unset variable. The lines that
  \<open>log.Println\<close> and \<open>log.Printf\<close> write are left out; \<open>log.Panicf\<close> is a panic.
\<close>

type_synonym environ = "envvar \<Rightarrow> string option"

definition Getenv :: "environ \<Rightarrow> envvar \<Rightarrow> string" where
  "Getenv env k = (case env k of None \<Rightarrow> [] | Some v \<Rightarrow> v)"

text \<open>
  \<open>strconv.ParseUint\<close> in base 10 for 64 bits: the digits are read from the left; a
  byte that is not a digit is a syntax error, a value that leaves 64 bits is a range
  error, whichever comes first.
\<close>

datatype NumErr = ErrSyntax | ErrRange

definition digit :: "char \<Rightarrow> nat option" where
  "digit c = (if 48 \<le> (of_char c :: nat) \<and> (of_char c :: nat) \<le> 57
              then Some (of_char c - 48) else None)"

fun ParseUint_loop :: "string \<Rightarrow> nat \<Rightarrow> NumErr + nat" where
  "ParseUint_loop [] n = Inr n"
| "ParseUint_loop (c # cs) n =
     (case digit c of
        None \<Rightarrow> Inl ErrSyntax
      | Some d \<Rightarrow>
          if n \<ge> (2 ^ 64 - 1) div 10 + 1 then Inl ErrRange
          else if n * 10 + d > 2 ^ 64 - 1 then Inl ErrRange
          else ParseUint_loop cs (n * 10 + d))"

definition ParseUint :: "string \<Rightarrow> NumErr + nat" where
  "ParseUint s = (if s = [] then Inl ErrSyntax else ParseUint_loop s 0)"

text \<open>
  \<open>strconv.ParseInt(s, 10, 64)\<close>: an optional sign, then \<open>ParseUint\<close>, then the range
  of \<open>int64\<close>. \<open>fn\<close> is the function name the error carries.
\<close>

definition NumError :: "string \<Rightarrow> string \<Rightarrow> NumErr \<Rightarrow> error" where
  "NumError fn s e =
     Errorf ''strconv.%s: parsing %q: %v''
       [ArgS fn, ArgS s,
        ArgW (case e of ErrSyntax \<Rightarrow> Errorf ''invalid syntax'' []
                      | ErrRange \<Rightarrow> Errorf ''value out of range'' [])]"

definition ParseInt_named :: "string \<Rightarrow> string \<Rightarrow> error + int" where
  "ParseInt_named fn s =
     (if s = [] then Inl (NumError fn s ErrSyntax)
      else
        (let neg = (hd s = CHR ''-'');
             s1 = (if hd s = CHR ''+'' \<or> hd s = CHR ''-'' then tl s else s)
         in case ParseUint s1 of
              Inl ErrSyntax \<Rightarrow> Inl (NumError fn s ErrSyntax)
            | Inl ErrRange \<Rightarrow> Inl (NumError fn s ErrRange)
            | Inr un \<Rightarrow>
                if \<not> neg \<and> un \<ge> 2 ^ 63 then Inl (NumError fn s ErrRange)
                else if neg \<and> un > 2 ^ 63 then Inl (NumError fn s ErrRange)
                else Inr (if neg then - int un else int un)))"

definition ParseInt :: "string \<Rightarrow> error + int" where
  "ParseInt s = ParseInt_named ''ParseInt'' s"

text \<open>
  \<open>strconv.Atoi\<close>, for an \<open>int\<close> of 64 bits: its short-string path reads the same
  syntax and cannot overflow, its other path is \<open>ParseInt\<close> under the name \<open>Atoi\<close>.
\<close>

definition Atoi :: "string \<Rightarrow> error + int" where
  "Atoi s = ParseInt_named ''Atoi'' s"

text \<open>
  The configuration, with the fields \<open>LoadWithDefault\<close> writes. The other fields of
  \<open>Conf\<close> keep their zero value there and are left out. \<open>ModeWebhookType\<close> and its three
  constants are declared elsewhere in the package.
\<close>

datatype ModeWebhookType =
  ModeWebhookTypeUnknown | ModeWebhookTypeCheckRun | ModeWebhookTypeWorkflowJob

record DockerHubCredential =
  Username :: string
  Password :: string

record Conf =
  Port :: int
  RunnerUser :: string
  Debug :: bool
  Strict :: bool
  ModeWebhookType :: ModeWebhookType
  ProvideDockerHubMetrics :: bool
  DockerHubCredential :: DockerHubCredential
  MaxConnectionsToBackend :: int64
  MaxConcurrencyDeleting :: int64
  GitHubURL :: string
  RunnerVersion :: string
  ShoesPluginOutputPath :: string
  EnableRescueWorkflow :: bool

text \<open>The zero value of \<open>Conf\<close>, which \<open>var c Conf\<close> gives.\<close>

definition zero_Conf :: Conf where
  "zero_Conf =
     \<lparr>Port = 0, RunnerUser = [], Debug = False, Strict = False,
      ModeWebhookType = ModeWebhookTypeUnknown, ProvideDockerHubMetrics = False,
      DockerHubCredential = \<lparr>Username = [], Password = []\<rparr>,
      MaxConnectionsToBackend = 0, MaxConcurrencyDeleting = 0, GitHubURL = [],
      RunnerVersion = [], ShoesPluginOutputPath = [], EnableRescueWorkflow = False\<rparr>"

text \<open>
  A parsed URL with the fields the code reads; \<open>String\<close> is the result of the method
  \<open>u.String()\<close>.
\<close>

record URL =
  Scheme :: string
  Host :: string
  Path :: string
  String :: string

text \<open>
  What the package calls and does not define: \<open>url.Parse\<close>, \<open>version.NewVersion\<close> (of
  which only the error is used), \<open>marshalModeWebhookType\<close>, \<open>http.DetectContentType\<close>,
  \<open>filepath.IsAbs\<close>, \<open>filepath.Join\<close>, and the Unicode part of
  \<open>strings.EqualFold\<close>.
\<close>

record library =
  url_Parse :: "string \<Rightarrow> error + URL"
  version_NewVersion :: "string \<Rightarrow> error option"
  marshalModeWebhookType :: "string \<Rightarrow> ModeWebhookType"
  http_DetectContentType :: "string \<Rightarrow> string"
  filepath_IsAbs :: "string \<Rightarrow> bool"
  filepath_Join :: "string \<Rightarrow> string \<Rightarrow> string"
  strings_hasUnicode :: unicode_part

text \<open>Sequencing of steps that may panic.\<close>

definition and_then :: "'a outcome \<Rightarrow> ('a \<Rightarrow> 'b outcome) \<Rightarrow> 'b outcome" where
  "and_then m f = (case m of Return x \<Rightarrow> f x | Panic p \<Rightarrow> Panic p)"

text \<open>
  \<open>LoadWithDefault\<close> is a sequence of blocks, one for each setting. Each block is a
  function from the configuration so far to the next one, in the order of the source.
\<close>

definition load_Port :: "environ \<Rightarrow> Conf \<Rightarrow> Conf outcome" where
  "load_Port env c =
     (let p = (if Getenv env EnvPort \<noteq> [] then Getenv env EnvPort else ''8080'') in
      case Atoi p of
        Inl err \<Rightarrow> Panic (Panicf ''failed to parse PORT: %+v'' [ArgW err])
      | Inr pp \<Rightarrow> Return (c\<lparr>Port := pp\<rparr>))"

definition load_RunnerUser :: "environ \<Rightarrow> Conf \<Rightarrow> Conf" where
  "load_RunnerUser env c =
     (let runnerUser =
        (if Getenv env EnvRunnerUser \<noteq> [] then Getenv env EnvRunnerUser else ''runner'')
      in c\<lparr>RunnerUser := runnerUser\<rparr>)"

definition load_Debug :: "environ \<Rightarrow> Conf \<Rightarrow> Conf" where
  "load_Debug env c =
     (let c1 = c\<lparr>Debug := False\<rparr> in
      if Getenv env EnvDebug = ''true'' then c1\<lparr>Debug := True\<rparr> else c1)"

definition load_Strict :: "environ \<Rightarrow> Conf \<Rightarrow> Conf" where
  "load_Strict env c =
     (let c1 = c\<lparr>Strict := True\<rparr> in
      if Getenv env EnvStrict = ''false'' then c1\<lparr>Strict := False\<rparr> else c1)"

definition load_ModeWebhookType :: "library \<Rightarrow> environ \<Rightarrow> Conf \<Rightarrow> Conf outcome" where
  "load_ModeWebhookType L env c =
     (let c1 = c\<lparr>ModeWebhookType := ModeWebhookTypeWorkflowJob\<rparr> in
      if Getenv env EnvModeWebhookType \<noteq> [] then
        (let mwt = marshalModeWebhookType L (Getenv env EnvModeWebhookType) in
         if mwt = ModeWebhookTypeUnknown then
           Panic (Panicf ''%s is invalid webhook type'' [ArgS (Getenv env EnvModeWebhookType)])
         else Return (c1\<lparr>ModeWebhookType := mwt\<rparr>))
      else Return c1)"

definition load_DockerHub :: "environ \<Rightarrow> Conf \<Rightarrow> Conf" where
  "load_DockerHub env c =
     (let c1 = c\<lparr>ProvideDockerHubMetrics := False\<rparr>;
          c2 = (if Getenv env EnvProvideDockerHubMetrics = ''true''
                then c1\<lparr>ProvideDockerHubMetrics := True\<rparr> else c1);
          c3 = c2\<lparr>DockerHubCredential := \<lparr>Username = [], Password = []\<rparr>\<rparr>
      in if ProvideDockerHubMetrics c3 then
           (if Getenv env EnvDockerHubUsername \<noteq> [] \<and> Getenv env EnvDockerHubPassword \<noteq> []
            then c3\<lparr>DockerHubCredential :=
                      \<lparr>Username = Getenv env EnvDockerHubUsername,
                       Password = Getenv env EnvDockerHubPassword\<rparr>\<rparr>
            else c3)
         else c3)"

definition load_MaxConnectionsToBackend :: "environ \<Rightarrow> Conf \<Rightarrow> Conf outcome" where
  "load_MaxConnectionsToBackend env c =
     (let c1 = c\<lparr>MaxConnectionsToBackend := 50\<rparr> in
      if Getenv env EnvMaxConnectionsToBackend \<noteq> [] then
        (case ParseInt (Getenv env EnvMaxConnectionsToBackend) of
           Inl err \<Rightarrow>
             Panic (Panicf ''failed to convert int64 %s: %+v''
                      [ArgEnv EnvMaxConnectionsToBackend, ArgW err])
         | Inr numberPB \<Rightarrow> Return (c1\<lparr>MaxConnectionsToBackend := numberPB\<rparr>))
      else Return c1)"

definition load_MaxConcurrencyDeleting :: "environ \<Rightarrow> Conf \<Rightarrow> Conf outcome" where
  "load_MaxConcurrencyDeleting env c =
     (let c1 = c\<lparr>MaxConcurrencyDeleting := 1\<rparr> in
      if Getenv env EnvMaxConcurrencyDeleting \<noteq> [] then
        (case ParseInt (Getenv env EnvMaxConcurrencyDeleting) of
           Inl err \<Rightarrow>
             Panic (Panicf ''failed to convert int64 %s: %+v''
                      [ArgEnv EnvMaxConcurrencyDeleting, ArgW err])
         | Inr numberCD \<Rightarrow> Return (c1\<lparr>MaxConcurrencyDeleting := numberCD\<rparr>))
      else Return c1)"

definition load_GitHubURL :: "library \<Rightarrow> environ \<Rightarrow> Conf \<Rightarrow> Conf outcome" where
  "load_GitHubURL L env c =
     (let c1 = c\<lparr>GitHubURL := ''https://github.com''\<rparr> in
      if Getenv env EnvGitHubURL \<noteq> [] then
        (case url_Parse L (Getenv env EnvGitHubURL) of
           Inl err \<Rightarrow>
             Panic (Panicf ''failed to parse URL %s: %+v'' [ArgS (Getenv env EnvGitHubURL), ArgW err])
         | Inr u \<Rightarrow>
             if EqualFold (strings_hasUnicode L) (Scheme u) [] then
               Panic (Panicf ''%s must has scheme (value: %s)''
                        [ArgEnv EnvGitHubURL, ArgS (Getenv env EnvGitHubURL)])
             else if EqualFold (strings_hasUnicode L) (Host u) [] then
               Panic (Panicf ''%s must has host (value: %s)''
                        [ArgEnv EnvGitHubURL, ArgS (Getenv env EnvGitHubURL)])
             else Return (c1\<lparr>GitHubURL := Getenv env EnvGitHubURL\<rparr>))
      else Return c1)"

definition load_RunnerVersion :: "library \<Rightarrow> environ \<Rightarrow> Conf \<Rightarrow> Conf outcome" where
  "load_RunnerVersion L env c =
     (if Getenv env EnvRunnerVersion = [] then Return (c\<lparr>RunnerVersion := ''latest''\<rparr>)
      else if Getenv env EnvRunnerVersion = ''latest'' then Return (c\<lparr>RunnerVersion := ''latest''\<rparr>)
      else
        (case version_NewVersion L (Getenv env EnvRunnerVersion) of
           Some err \<Rightarrow> Panic (Panicf ''failed to parse input runner version: %+v'' [ArgW err])
         | None \<Rightarrow> Return (c\<lparr>RunnerVersion := Getenv env EnvRunnerVersion\<rparr>)))"

definition load_ShoesPluginOutputPath :: "environ \<Rightarrow> Conf \<Rightarrow> Conf" where
  "load_ShoesPluginOutputPath env c =
     (let c1 = c\<lparr>ShoesPluginOutputPath := ''.''\<rparr> in
      if Getenv env EnvShoesPluginOutputPath \<noteq> []
      then c1\<lparr>ShoesPluginOutputPath := Getenv env EnvShoesPluginOutputPath\<rparr> else c1)"

definition load_EnableRescueWorkflow :: "environ \<Rightarrow> Conf \<Rightarrow> Conf" where
  "load_EnableRescueWorkflow env c =
     (let c1 = c\<lparr>EnableRescueWorkflow := False\<rparr> in
      if Getenv env EnvEnableRescueWorkflow = ''true''
      then c1\<lparr>EnableRescueWorkflow := True\<rparr> else c1)"

text \<open>
  \<open>LoadWithDefault\<close>. The value it returns is also the value it stores in the package
  variable \<open>Config\<close>.
\<close>

definition LoadWithDefault :: "library \<Rightarrow> environ \<Rightarrow> Conf outcome" where
  "LoadWithDefault L env =
     and_then (load_Port env zero_Conf) (\<lambda>c.
     and_then (load_ModeWebhookType L env (load_Strict env (load_Debug env (load_RunnerUser env c)))) (\<lambda>c.
     and_then (load_MaxConnectionsToBackend env (load_DockerHub env c)) (\<lambda>c.
     and_then (load_MaxConcurrencyDeleting env c) (\<lambda>c.
     and_then (load_GitHubURL L env c) (\<lambda>c.
     and_then (load_RunnerVersion L env c) (\<lambda>c.
     Return (load_EnableRescueWorkflow env (load_ShoesPluginOutputPath env c))))))))"








text \<open>
  A library to run the loading on: it knows two version strings, two webhook types and
  two URLs, detects every content as a binary, and joins paths with a slash.
\<close>

definition demo_library :: library where
  "demo_library =
     \<lparr>url_Parse =
        (\<lambda>s. if s = ''https://example.com/dl/shoes-lxd'' then
                Inr \<lparr>Scheme = ''https'', Host = ''example.com'', Path = ''/dl/shoes-lxd'',
                     String = s\<rparr>
              else if s = ''ftp://example.com/shoes-lxd'' then
                Inr \<lparr>Scheme = ''ftp'', Host = ''example.com'', Path = ''/shoes-lxd'',
                     String = s\<rparr>
              else Inl (Errorf ''parse %q: invalid URI'' [ArgS s])),
      version_NewVersion =
        (\<lambda>s. if s = ''2.311.0'' \<or> s = ''v2.311.0'' then None
              else Some (Errorf ''Malformed version: %s'' [ArgS s])),
      marshalModeWebhookType =
        (\<lambda>s. if s = ''workflow_job'' then ModeWebhookTypeWorkflowJob
              else if s = ''check_run'' then ModeWebhookTypeCheckRun
              else ModeWebhookTypeUnknown),
      http_DetectContentType = (\<lambda>b. ''application/octet-stream''),
      filepath_IsAbs = (\<lambda>p. take 1 p = ''/''),
      filepath_Join = (\<lambda>d f. d @ ''/'' @ f),
      strings_hasUnicode = same_bytes\<rparr>"

definition default_Conf :: Conf where
  "default_Conf =
     \<lparr>Port = 8080, RunnerUser = ''runner'', Debug = False, Strict = True,
      ModeWebhookType = ModeWebhookTypeWorkflowJob, ProvideDockerHubMetrics = False,
      DockerHubCredential = \<lparr>Username = [], Password = []\<rparr>,
      MaxConnectionsToBackend = 50, MaxConcurrencyDeleting = 1,
      GitHubURL = ''https://github.com'', RunnerVersion = ''latest'',
      ShoesPluginOutputPath = ''.'', EnableRescueWorkflow = False\<rparr>"








section \<open>cmd/server: newShoes and the enqueue-notify channel\<close>

text \<open>
  A channel of \<open>struct{}\<close> values is its capacity and the number of values in its
  buffer. Channels are shared by reference: they live in a store, and a channel value is
  an index into it. \<open>make\<close> adds a channel to the store.
\<close>

record chan =
  cap :: nat
  len :: nat

type_synonym chan_ref = nat

type_synonym chan_store = "chan list"

definition make_chan :: "nat \<Rightarrow> chan_store \<Rightarrow> chan_ref \<times> chan_store" where
  "make_chan n h = (length h, h @ [\<lparr>cap = n, len = 0\<rparr>])"

text \<open>
  Modelled from the spec: \<open>mysql.New\<close>, \<open>starter.New\<close> and \<open>runner.New\<close>, whose
  sources are missing. The datastore and the starter keep the channel they are given as
  their enqueue-notify channel; \<open>mysql.New\<close> can fail, which \<open>connect\<close> decides.
\<close>

record MySQL =
  my_dsn :: string
  my_notifyEnqueueCh :: chan_ref

record Starter =
  st_ds :: MySQL
  st_runnerVersion :: string
  st_enableRescueWorkflow :: bool
  st_notifyEnqueueCh :: chan_ref

record Manager =
  mg_ds :: MySQL
  mg_runnerVersion :: string

definition mysql_New :: "(string \<Rightarrow> error option) \<Rightarrow> string \<Rightarrow> chan_ref \<Rightarrow> error + MySQL" where
  "mysql_New connect dsn notifyEnqueueCh =
     (case connect dsn of
        Some err \<Rightarrow> Inl err
      | None \<Rightarrow> Inr \<lparr>my_dsn = dsn, my_notifyEnqueueCh = notifyEnqueueCh\<rparr>)"

definition starter_New :: "MySQL \<Rightarrow> string \<Rightarrow> bool \<Rightarrow> chan_ref \<Rightarrow> Starter" where
  "starter_New ds runnerVersion enableRescueWorkflow notifyEnqueueCh =
     \<lparr>st_ds = ds, st_runnerVersion = runnerVersion,
      st_enableRescueWorkflow = enableRescueWorkflow,
      st_notifyEnqueueCh = notifyEnqueueCh\<rparr>"

definition runner_New :: "MySQL \<Rightarrow> string \<Rightarrow> Manager" where
  "runner_New ds runnerVersion = \<lparr>mg_ds = ds, mg_runnerVersion = runnerVersion\<rparr>"

record myShoes =
  sh_ds :: MySQL
  sh_start :: Starter
  sh_run :: Manager

text \<open>
  \<open>newShoes\<close>. \<open>dsn\<close> is \<open>config.Config.MySQLDSN\<close>; the admission policy
  \<open>unlimited.Unlimited\<close> has no state and is left out.
\<close>

definition newShoes ::
  "(string \<Rightarrow> error option) \<Rightarrow> string \<Rightarrow> Conf \<Rightarrow> chan_store \<Rightarrow>
   (error + myShoes) \<times> chan_store" where
  "newShoes connect dsn cfg h =
     (case make_chan 1 h of
        (notifyEnqueueCh, h1) \<Rightarrow>
          (case mysql_New connect dsn notifyEnqueueCh of
             Inl err \<Rightarrow> (Inl (Errorf ''failed to mysql.New: %w'' [ArgW err]), h1)
           | Inr ds \<Rightarrow>
               (let s = starter_New ds (RunnerVersion cfg) (EnableRescueWorkflow cfg)
                          notifyEnqueueCh;
                    manager = runner_New ds (RunnerVersion cfg)
                in (Inr \<lparr>sh_ds = ds, sh_start = s, sh_run = manager\<rparr>, h1))))"

text \<open>
  Modelled from the spec: the posting side and the observing side of the channel, whose
  sources are missing. The datastore posts after \<open>EnqueueJob\<close>; a post while the buffer is full is
  dropped. The starter, at the head of a tick, takes a value if there is one; \<open>observe\<close>
  tells whether it took one.
\<close>

definition post :: "chan_ref \<Rightarrow> chan_store \<Rightarrow> chan_store" where
  "post c h =
     (if c < length h \<and> len (h ! c) < cap (h ! c)
      then h[c := (h ! c)\<lparr>len := len (h ! c) + 1\<rparr>] else h)"

definition observe :: "chan_ref \<Rightarrow> chan_store \<Rightarrow> bool \<times> chan_store" where
  "observe c h =
     (if c < length h \<and> 0 < len (h ! c)
      then (True, h[c := (h ! c)\<lparr>len := len (h ! c) - 1\<rparr>]) else (False, h))"

section \<open>Properties of the shared functions\<close>

text \<open>
  On two ASCII strings the result of \<open>EqualFold\<close> does not depend on the Unicode part,
  and the two constants that the installation lookup compares a repository selection with
  are told apart.
\<close>

lemma EqualFold_ascii:
  "\<forall>c \<in> set s. (of_char c :: nat) < 128 \<Longrightarrow> \<forall>c \<in> set t. (of_char c :: nat) < 128 \<Longrightarrow>
   EqualFold U s t = EqualFold V s t"
  by (induction U s t rule: EqualFold.induct) simp_all

lemma EqualFold_selected: "EqualFold U ''selected'' ''selected''"
  by (simp add: foldEq_def)

lemma EqualFold_selected_all: "\<not> EqualFold U ''selected'' ''all''"
  by (simp add: foldEq_def)


text \<open>
  Past a common ASCII prefix, from the first byte of \<open>0x80\<close> or more on, the answer is
  the one of the Unicode part on the two remaining strings. So for a name written with
  the Kelvin sign (the bytes \<open>E2 84 AA\<close>) against the same name written with \<open>k\<close>,
  the answer is what the library's Unicode part says of the two.
\<close>

lemma EqualFold_hasUnicode:
  "\<forall>c \<in> set p. (of_char c :: nat) < 128 \<Longrightarrow>
   128 \<le> (of_char a :: nat) \<or> 128 \<le> (of_char b :: nat) \<Longrightarrow>
   EqualFold U (p @ a # s) (p @ b # t) = U (a # s) (b # t)"
  by (induction p) (simp_all add: foldEq_def)

lemma EqualFold_Kelvin:
  "EqualFold U ''octo-org/kit'' (''octo-org/'' @ [CHR 0xE2, CHR 0x84, CHR 0xAA] @ ''it'') =
   U ''kit'' ([CHR 0xE2, CHR 0x84, CHR 0xAA] @ ''it'')"
  by (simp add: foldEq_def)

section \<open>Properties of the boot sequence\<close>

lemma Run_loop_held:
  "held_polls U ds n d = Some d1 \<Longrightarrow>
   Run_loop U ds tr d = Run_loop U ds (tr @ replicate n (Sleep Second)) d1"
proof (induction n arbitrary: tr d)
  case 0
  then show ?case by simp
next
  case (Suc n)
  obtain r d0 where il: "IsLocked ds d = (r, d0)" by (cases "IsLocked ds d")
  from Suc.prems il obtain s where r: "r = Inr s" and nl: "\<not> EqualFold U s (IsNotLocked ds)"
    and h: "held_polls U ds n d0 = Some d1"
    by (cases r) (auto split: if_splits)
  have "Run_loop U ds tr d = Run_loop U ds (tr @ [Sleep Second]) d0"
    using il r nl by (subst Run_loop.simps) simp
  also have "\<dots> = Run_loop U ds ((tr @ [Sleep Second]) @ replicate n (Sleep Second)) d1"
    by (rule Suc.IH [OF h])
  finally show ?case by (simp add: replicate_app_Cons_same)
qed

lemma Run_loop_Some:
  "Run_loop U ds tr d = Some res \<Longrightarrow>
   \<exists>n d1. held_polls U ds n d = Some d1 \<and>
     ((\<exists>e d2. IsLocked ds d1 = (Inl e, d2) \<and>
         res = (Some (Errorf ''failed to check lock: %w'' [ArgW e]), tr @ replicate n (Sleep Second), d2)) \<or>
      (\<exists>s d2 e d3. IsLocked ds d1 = (Inr s, d2) \<and> EqualFold U s (IsNotLocked ds) \<and>
         GetLock ds d2 = (Some e, d3) \<and>
         res = (Some (Errorf ''failed to get lock: %w'' [ArgW e]), tr @ replicate n (Sleep Second), d3)) \<or>
      (\<exists>s d2 d3. IsLocked ds d1 = (Inr s, d2) \<and> EqualFold U s (IsNotLocked ds) \<and>
         GetLock ds d2 = (None, d3) \<and>
         res = (None, tr @ replicate n (Sleep Second), d3)))"
proof (induction rule: Run_loop.raw_induct [rotated 1, consumes 1])
  case (1 loop U ds tr d res)
  obtain r d0 where il: "IsLocked ds d = (r, d0)" by (cases "IsLocked ds d")
  show ?case
  proof (cases r)
    case (Inl e)
    with 1(2) il have "res = (Some (Errorf ''failed to check lock: %w'' [ArgW e]), tr, d0)" by simp
    with il Inl have "held_polls U ds 0 d = Some d \<and> IsLocked ds d = (Inl e, d0) \<and>
      res = (Some (Errorf ''failed to check lock: %w'' [ArgW e]), tr @ replicate 0 (Sleep Second), d0)"
      by simp
    then show ?thesis by blast
  next
    case (Inr s)
    show ?thesis
    proof (cases "EqualFold U s (IsNotLocked ds)")
      case True
      obtain g d3 where gl: "GetLock ds d0 = (g, d3)" by (cases "GetLock ds d0")
      show ?thesis
      proof (cases g)
        case None
        with 1(2) il Inr True gl have "res = (None, tr @ replicate 0 (Sleep Second), d3)" by simp
        with il Inr True gl None have "held_polls U ds 0 d = Some d \<and> IsLocked ds d = (Inr s, d0) \<and> EqualFold U s (IsNotLocked ds) \<and>
         GetLock ds d0 = (None, d3) \<and> res = (None, tr @ replicate 0 (Sleep Second), d3)" by simp
        then show ?thesis by blast
      next
        case (Some e)
        with 1(2) il Inr True gl have "res = (Some (Errorf ''failed to get lock: %w'' [ArgW e]), tr @ replicate 0 (Sleep Second), d3)" by simp
        with il Inr True gl Some have "held_polls U ds 0 d = Some d \<and> IsLocked ds d = (Inr s, d0) \<and> EqualFold U s (IsNotLocked ds) \<and>
         GetLock ds d0 = (Some e, d3) \<and> res = (Some (Errorf ''failed to get lock: %w'' [ArgW e]), tr @ replicate 0 (Sleep Second), d3)" by simp
        then show ?thesis by blast
      qed
    next
      case False
      with 1(2) il Inr have "loop U ds (tr @ [Sleep Second]) d0 = Some res" by simp
      from 1(1) [OF this] obtain n d1 where
        h: "held_polls U ds n d0 = Some d1" and
        c: "(\<exists>e d2. IsLocked ds d1 = (Inl e, d2) \<and>
         res = (Some (Errorf ''failed to check lock: %w'' [ArgW e]), (tr @ [Sleep Second]) @ replicate n (Sleep Second), d2)) \<or>
      (\<exists>s d2 e d3. IsLocked ds d1 = (Inr s, d2) \<and> EqualFold U s (IsNotLocked ds) \<and>
         GetLock ds d2 = (Some e, d3) \<and>
         res = (Some (Errorf ''failed to get lock: %w'' [ArgW e]), (tr @ [Sleep Second]) @ replicate n (Sleep Second), d3)) \<or>
      (\<exists>s d2 d3. IsLocked ds d1 = (Inr s, d2) \<and> EqualFold U s (IsNotLocked ds) \<and>
         GetLock ds d2 = (None, d3) \<and>
         res = (None, (tr @ [Sleep Second]) @ replicate n (Sleep Second), d3))" by blast
      have h': "held_polls U ds (Suc n) d = Some d1" using il Inr False h by simp
      have t: "(tr @ [Sleep Second]) @ replicate n (Sleep Second) = tr @ replicate (Suc n) (Sleep Second)"
        by simp
      show ?thesis using h' c unfolding t by blast
    qed
  qed
qed

lemma Run_cases:
  assumes "Run U ds egWait d = Some (r, tr, d')"
  shows "\<exists>n d1. held_polls U ds n d = Some d1 \<and>
     ((\<exists>e. IsLocked ds d1 = (Inl e, d') \<and> tr = replicate n (Sleep Second) \<and>
         r = RunReturns (Some (Errorf ''failed to check lock: %w'' [ArgW e]))) \<or>
      (\<exists>s d2 e. IsLocked ds d1 = (Inr s, d2) \<and> EqualFold U s (IsNotLocked ds) \<and>
         GetLock ds d2 = (Some e, d') \<and> tr = replicate n (Sleep Second) \<and>
         r = RunReturns (Some (Errorf ''failed to get lock: %w'' [ArgW e]))) \<or>
      (\<exists>s d2. IsLocked ds d1 = (Inr s, d2) \<and> EqualFold U s (IsNotLocked ds) \<and>
         GetLock ds d2 = (None, d') \<and> tr = replicate n (Sleep Second) @ launches))"
proof -
  from assms obtain res where l: "Run_loop U ds [] d = Some res"
    by (cases "Run_loop U ds [] d") (auto simp: Run_def)
  from Run_loop_Some [OF l] obtain n d1 where h: "held_polls U ds n d = Some d1" and
    c: "(\<exists>e d2. IsLocked ds d1 = (Inl e, d2) \<and>
         res = (Some (Errorf ''failed to check lock: %w'' [ArgW e]), [] @ replicate n (Sleep Second), d2)) \<or>
      (\<exists>s d2 e d3. IsLocked ds d1 = (Inr s, d2) \<and> EqualFold U s (IsNotLocked ds) \<and>
         GetLock ds d2 = (Some e, d3) \<and>
         res = (Some (Errorf ''failed to get lock: %w'' [ArgW e]), [] @ replicate n (Sleep Second), d3)) \<or>
      (\<exists>s d2 d3. IsLocked ds d1 = (Inr s, d2) \<and> EqualFold U s (IsNotLocked ds) \<and>
         GetLock ds d2 = (None, d3) \<and>
         res = (None, [] @ replicate n (Sleep Second), d3))"
    by blast
  from c show ?thesis
  proof (elim disjE exE conjE)
    fix e d2
    assume a: "IsLocked ds d1 = (Inl e, d2)"
      "res = (Some (Errorf ''failed to check lock: %w'' [ArgW e]), [] @ replicate n (Sleep Second), d2)"
    with assms l have "d' = d2 \<and> tr = replicate n (Sleep Second) \<and>
         r = RunReturns (Some (Errorf ''failed to check lock: %w'' [ArgW e]))"
      by (auto simp: Run_def)
    with h a show ?thesis by blast
  next
    fix s d2 e d3
    assume a: "IsLocked ds d1 = (Inr s, d2)" "EqualFold U s (IsNotLocked ds)"
      "GetLock ds d2 = (Some e, d3)"
      "res = (Some (Errorf ''failed to get lock: %w'' [ArgW e]), [] @ replicate n (Sleep Second), d3)"
    with assms l have "d' = d3 \<and> tr = replicate n (Sleep Second) \<and>
         r = RunReturns (Some (Errorf ''failed to get lock: %w'' [ArgW e]))"
      by (auto simp: Run_def)
    with h a show ?thesis by blast
  next
    fix s d2 d3
    assume a: "IsLocked ds d1 = (Inr s, d2)" "EqualFold U s (IsNotLocked ds)"
      "GetLock ds d2 = (None, d3)"
      "res = (None, [] @ replicate n (Sleep Second), d3)"
    with assms l have "d' = d3 \<and> tr = replicate n (Sleep Second) @ launches"
      by (auto simp: Run_def launches_def Let_def split: wait_result.splits option.splits)
    with h a show ?thesis by blast
  qed
qed

lemma Run_loop_final_check_error:
  "IsLocked ds d1 = (Inl e, d2) \<Longrightarrow>
   Run_loop U ds tr d1 = Some (Some (Errorf ''failed to check lock: %w'' [ArgW e]), tr, d2)"
  by (subst Run_loop.simps) simp

lemma Run_loop_final_get_error:
  "IsLocked ds d1 = (Inr s, d2) \<Longrightarrow> EqualFold U s (IsNotLocked ds) \<Longrightarrow>
   GetLock ds d2 = (Some e, d3) \<Longrightarrow>
   Run_loop U ds tr d1 = Some (Some (Errorf ''failed to get lock: %w'' [ArgW e]), tr, d3)"
  by (subst Run_loop.simps) simp

lemma Run_loop_final_locked:
  "IsLocked ds d1 = (Inr s, d2) \<Longrightarrow> EqualFold U s (IsNotLocked ds) \<Longrightarrow>
   GetLock ds d2 = (None, d3) \<Longrightarrow>
   Run_loop U ds tr d1 = Some (None, tr, d3)"
  by (subst Run_loop.simps) simp

lemma held_polls_Suc_None:
  "held_polls U ds n d = Some d1 \<Longrightarrow>
   (\<exists>e d2. IsLocked ds d1 = (Inl e, d2)) \<or> (\<exists>s d2. IsLocked ds d1 = (Inr s, d2) \<and> EqualFold U s (IsNotLocked ds)) \<Longrightarrow>
   held_polls U ds (Suc n) d = None"
proof (induction n arbitrary: d)
  case 0
  then show ?case by auto
next
  case (Suc n)
  obtain r d0 where il: "IsLocked ds d = (r, d0)" by (cases "IsLocked ds d")
  from Suc.prems(1) il obtain s where r: "r = Inr s" and nl: "\<not> EqualFold U s (IsNotLocked ds)"
    and h: "held_polls U ds n d0 = Some d1"
    by (cases r) (auto split: if_splits)
  have "held_polls U ds (Suc n) d0 = None" by (rule Suc.IH [OF h Suc.prems(2)])
  then show ?case using il r nl by (simp del: held_polls.simps(2) add: held_polls.simps(2) [of U ds "Suc n" d])
qed

lemma held_ds_polls: "held_polls U held_ds n () = Some ()"
  by (induction n) (simp_all add: held_ds_def foldEq_def)

text \<open>
  Claim C4. At boot \<open>Run\<close> polls the advisory lock, sleeping one second after every
  poll that reports the lock as held, and launches the web server, the starter loop and
  the runner loop only after \<open>IsLocked\<close> has reported not-locked and \<open>GetLock\<close> has
  succeeded. Whenever a service was launched, the events before the launch are exactly
  the sleeps of the polls that reported the lock as held, the last \<open>IsLocked\<close> reported
  not-locked and \<open>GetLock\<close> returned nil; conversely such a datastore makes \<open>Run\<close>
  launch the three services, in this order; and while the lock is reported as held for
  ever, \<open>Run\<close> never leaves the loop, so nothing is launched.
\<close>

theorem Run_services_only_after_lock:
  "(Run U ds egWait d = Some (r, tr, d') \<and> Go sv \<in> set tr \<longrightarrow>
      (\<exists>n d1 s d2. held_polls U ds n d = Some d1 \<and> IsLocked ds d1 = (Inr s, d2) \<and>
         EqualFold U s (IsNotLocked ds) \<and> GetLock ds d2 = (None, d') \<and>
         tr = replicate n (Sleep Second) @ [Go WebServe, Go StarterLoop, Go RunnerLoop])) \<and>
   (held_polls U ds k d = Some c1 \<and> IsLocked ds c1 = (Inr t, c2) \<and>
      EqualFold U t (IsNotLocked ds) \<and> GetLock ds c2 = (None, c3) \<longrightarrow>
      Run U ds egWait d =
        Some (case egWait c3 of
                WaitBlocks \<Rightarrow> RunBlocks
              | WaitReturns None \<Rightarrow> RunReturns None
              | WaitReturns (Some err) \<Rightarrow>
                  RunReturns (Some (Errorf ''failed to wait errgroup: %w'' [ArgW err])),
              replicate k (Sleep Second) @ [Go WebServe, Go StarterLoop, Go RunnerLoop], c3)) \<and>
   ((\<forall>n. held_polls U ds n d \<noteq> None) \<longrightarrow> Run U ds egWait d = None)"
proof (intro conjI impI)
  assume a: "Run U ds egWait d = Some (r, tr, d') \<and> Go sv \<in> set tr"
  then have run: "Run U ds egWait d = Some (r, tr, d')" and go: "Go sv \<in> set tr" by simp_all
  from Run_cases [OF run] go
  show "\<exists>n d1 s d2. held_polls U ds n d = Some d1 \<and> IsLocked ds d1 = (Inr s, d2) \<and>
         EqualFold U s (IsNotLocked ds) \<and> GetLock ds d2 = (None, d') \<and>
         tr = replicate n (Sleep Second) @ [Go WebServe, Go StarterLoop, Go RunnerLoop]"
  proof (elim exE conjE disjE)
    fix n d1 e
    assume "tr = replicate n (Sleep Second)"
    with go show ?thesis by simp
  next
    fix n d1 s d2 e
    assume "tr = replicate n (Sleep Second)"
    with go show ?thesis by simp
  next
    fix n d1 s d2
    assume "held_polls U ds n d = Some d1" "IsLocked ds d1 = (Inr s, d2)"
      "EqualFold U s (IsNotLocked ds)" "GetLock ds d2 = (None, d')"
      "tr = replicate n (Sleep Second) @ launches"
    then show ?thesis unfolding launches_def by blast
  qed
next
  assume a: "held_polls U ds k d = Some c1 \<and> IsLocked ds c1 = (Inr t, c2) \<and>
      EqualFold U t (IsNotLocked ds) \<and> GetLock ds c2 = (None, c3)"
  then have "Run_loop U ds [] d = Run_loop U ds ([] @ replicate k (Sleep Second)) c1"
    by (intro Run_loop_held) simp
  also have "\<dots> = Some (None, [] @ replicate k (Sleep Second), c3)"
    using a by (intro Run_loop_final_locked [of ds c1 t c2 U c3]) simp_all
  finally show "Run U ds egWait d =
        Some (case egWait c3 of
                WaitBlocks \<Rightarrow> RunBlocks
              | WaitReturns None \<Rightarrow> RunReturns None
              | WaitReturns (Some err) \<Rightarrow>
                  RunReturns (Some (Errorf ''failed to wait errgroup: %w'' [ArgW err])),
              replicate k (Sleep Second) @ [Go WebServe, Go StarterLoop, Go RunnerLoop], c3)"
    by (simp add: Run_def Let_def split: wait_result.splits option.splits)
next
  assume a: "\<forall>n. held_polls U ds n d \<noteq> None"
  show "Run U ds egWait d = None"
  proof (rule ccontr)
    assume "Run U ds egWait d \<noteq> None"
    then obtain r tr d' where "Run U ds egWait d = Some (r, tr, d')" by (cases "Run U ds egWait d") auto
    from Run_cases [OF this] obtain n d1 where h: "held_polls U ds n d = Some d1" and
      c: "(\<exists>e d2. IsLocked ds d1 = (Inl e, d2)) \<or> (\<exists>s d2. IsLocked ds d1 = (Inr s, d2) \<and> EqualFold U s (IsNotLocked ds))"
      by blast
    from held_polls_Suc_None [OF h c] a show False by blast
  qed
qed

theorem Run_services_only_after_lock_witness:
  "Run same_bytes scripted_ds (\<lambda>_. WaitBlocks)
       ([Inr ''is locked'', Inr ''is locked'', Inr ''is not locked''], None) =
     Some (RunBlocks, [Sleep Second, Sleep Second, Go WebServe, Go StarterLoop, Go RunnerLoop],
           ([], None)) \<and>
   (\<exists>n d1 s d2.
      held_polls same_bytes scripted_ds n
        ([Inr ''is locked'', Inr ''is locked'', Inr ''is not locked''], None) = Some d1 \<and>
      IsLocked scripted_ds d1 = (Inr s, d2) \<and> EqualFold same_bytes s (IsNotLocked scripted_ds) \<and>
      GetLock scripted_ds d2 = (None, ([], None)) \<and>
      [Sleep Second, Sleep Second, Go WebServe, Go StarterLoop, Go RunnerLoop] =
        replicate n (Sleep Second) @ [Go WebServe, Go StarterLoop, Go RunnerLoop]) \<and>
   Run same_bytes held_ds (\<lambda>_. WaitBlocks) () = None"
proof -
  let ?d = "([Inr ''is locked'', Inr ''is locked'', Inr ''is not locked''], None) :: (error + string) list \<times> error option"
  have h: "held_polls same_bytes scripted_ds (Suc (Suc 0)) ?d = Some ([Inr ''is not locked''], None)"
    by (simp add: scripted_ds_def foldEq_def)
  have i: "IsLocked scripted_ds ([Inr ''is not locked''], None) = (Inr ''is not locked'', ([], None))"
    by (simp add: scripted_ds_def)
  have e: "EqualFold same_bytes ''is not locked'' (IsNotLocked scripted_ds)"
    by (simp add: scripted_ds_def foldEq_def)
  have g: "GetLock scripted_ds ([], None) = (None, ([], None))"
    by (simp add: scripted_ds_def)
  from Run_services_only_after_lock [of same_bytes scripted_ds "\<lambda>_. WaitBlocks" ?d _ _ _ _ "Suc (Suc 0)"
      "([Inr ''is not locked''], None)" "''is not locked''" "([], None)" "([], None)"] h i e g
  have 1: "Run same_bytes scripted_ds (\<lambda>_. WaitBlocks) ?d =
     Some (RunBlocks, [Sleep Second, Sleep Second, Go WebServe, Go StarterLoop, Go RunnerLoop],
           ([], None))" by simp
  have "\<forall>n. held_polls same_bytes held_ds n () \<noteq> None" by (simp add: held_ds_polls)
  with Run_services_only_after_lock [of same_bytes held_ds "\<lambda>_. WaitBlocks" "()"]
  have 2: "Run same_bytes held_ds (\<lambda>_. WaitBlocks) () = None" by blast
  from Run_services_only_after_lock [of same_bytes scripted_ds "\<lambda>_. WaitBlocks" ?d RunBlocks
      "[Sleep Second, Sleep Second, Go WebServe, Go StarterLoop, Go RunnerLoop]" "([], None)"
      StarterLoop] 1
  have 3: "\<exists>n d1 s d2.
      held_polls same_bytes scripted_ds n ?d = Some d1 \<and>
      IsLocked scripted_ds d1 = (Inr s, d2) \<and> EqualFold same_bytes s (IsNotLocked scripted_ds) \<and>
      GetLock scripted_ds d2 = (None, ([], None)) \<and>
      [Sleep Second, Sleep Second, Go WebServe, Go StarterLoop, Go RunnerLoop] =
        replicate n (Sleep Second) @ [Go WebServe, Go StarterLoop, Go RunnerLoop]"
    by simp
  from 1 2 3 show ?thesis by simp
qed

text \<open>
  Claim C10. An error of \<open>IsLocked\<close> or of \<open>GetLock\<close> is not retried: \<open>Run\<close> returns
  it, wrapped, right after the failing call, and the events of the run hold no launch.
  Every sleep of a run belongs to a poll that reported the lock as held.
\<close>

theorem Run_lock_errors_not_retried:
  "(held_polls U ds n d = Some d1 \<and> IsLocked ds d1 = (Inl e, d2) \<longrightarrow>
      Run U ds egWait d =
        Some (RunReturns (Some (Errorf ''failed to check lock: %w'' [ArgW e])),
              replicate n (Sleep Second), d2)) \<and>
   (held_polls U ds k d = Some c1 \<and> IsLocked ds c1 = (Inr s, c2) \<and>
      EqualFold U s (IsNotLocked ds) \<and> GetLock ds c2 = (Some g, c3) \<longrightarrow>
      Run U ds egWait d =
        Some (RunReturns (Some (Errorf ''failed to get lock: %w'' [ArgW g])),
              replicate k (Sleep Second), c3)) \<and>
   (Run U ds egWait d = Some (r, tr, d') \<longrightarrow>
      (\<exists>m b rest. held_polls U ds m d = Some b \<and> tr = replicate m (Sleep Second) @ rest \<and>
         (rest = [] \<or> rest = [Go WebServe, Go StarterLoop, Go RunnerLoop])))"
proof (intro conjI impI)
  assume a: "held_polls U ds n d = Some d1 \<and> IsLocked ds d1 = (Inl e, d2)"
  then have "Run_loop U ds [] d = Run_loop U ds ([] @ replicate n (Sleep Second)) d1"
    by (intro Run_loop_held) simp
  also have "\<dots> = Some (Some (Errorf ''failed to check lock: %w'' [ArgW e]), [] @ replicate n (Sleep Second), d2)"
    using a by (intro Run_loop_final_check_error) simp
  finally show "Run U ds egWait d =
        Some (RunReturns (Some (Errorf ''failed to check lock: %w'' [ArgW e])),
              replicate n (Sleep Second), d2)"
    by (simp add: Run_def)
next
  assume a: "held_polls U ds k d = Some c1 \<and> IsLocked ds c1 = (Inr s, c2) \<and>
      EqualFold U s (IsNotLocked ds) \<and> GetLock ds c2 = (Some g, c3)"
  then have "Run_loop U ds [] d = Run_loop U ds ([] @ replicate k (Sleep Second)) c1"
    by (intro Run_loop_held) simp
  also have "\<dots> = Some (Some (Errorf ''failed to get lock: %w'' [ArgW g]), [] @ replicate k (Sleep Second), c3)"
    using a by (intro Run_loop_final_get_error [of ds c1 s c2 U g c3]) simp_all
  finally show "Run U ds egWait d =
        Some (RunReturns (Some (Errorf ''failed to get lock: %w'' [ArgW g])),
              replicate k (Sleep Second), c3)"
    by (simp add: Run_def)
next
  assume "Run U ds egWait d = Some (r, tr, d')"
  from Run_cases [OF this]
  show "\<exists>m b rest. held_polls U ds m d = Some b \<and> tr = replicate m (Sleep Second) @ rest \<and>
         (rest = [] \<or> rest = [Go WebServe, Go StarterLoop, Go RunnerLoop])"
  proof (elim exE conjE disjE)
    fix n d1 e
    assume "held_polls U ds n d = Some d1" "tr = replicate n (Sleep Second)"
    then have "held_polls U ds n d = Some d1 \<and> tr = replicate n (Sleep Second) @ [] \<and>
      ([] = ([] :: event list) \<or> [] = [Go WebServe, Go StarterLoop, Go RunnerLoop])" by simp
    then show ?thesis by blast
  next
    fix n d1 s d2 e
    assume "held_polls U ds n d = Some d1" "tr = replicate n (Sleep Second)"
    then have "held_polls U ds n d = Some d1 \<and> tr = replicate n (Sleep Second) @ [] \<and>
      ([] = ([] :: event list) \<or> [] = [Go WebServe, Go StarterLoop, Go RunnerLoop])" by simp
    then show ?thesis by blast
  next
    fix n d1 s d2
    assume "held_polls U ds n d = Some d1" "tr = replicate n (Sleep Second) @ launches"
    then show ?thesis unfolding launches_def by blast
  qed
qed

theorem Run_lock_errors_not_retried_witness:
  "Run same_bytes scripted_ds (\<lambda>_. WaitReturns None) ([Inr ''is locked''], None) =
     Some (RunReturns (Some (Errorf ''failed to check lock: %w''
                               [ArgW (Errorf ''connection lost'' [])])),
           [Sleep Second], ([], None)) \<and>
   Run same_bytes scripted_ds (\<lambda>_. WaitReturns None)
       ([Inr ''is not locked''], Some (Errorf ''lock wait timeout'' [])) =
     Some (RunReturns (Some (Errorf ''failed to get lock: %w''
                               [ArgW (Errorf ''lock wait timeout'' [])])),
           [], ([], Some (Errorf ''lock wait timeout'' []))) \<and>
   (\<exists>m b rest. held_polls same_bytes scripted_ds m ([Inr ''is locked''], None) = Some b \<and>
      [Sleep Second] = replicate m (Sleep Second) @ rest \<and>
      (rest = [] \<or> rest = [Go WebServe, Go StarterLoop, Go RunnerLoop]))"
proof -
  let ?w = "\<lambda>_ :: (error + string) list \<times> error option. WaitReturns None"
  let ?d = "([Inr ''is locked''], None) :: (error + string) list \<times> error option"
  let ?c = "([Inr ''is not locked''], Some (Errorf ''lock wait timeout'' [])) ::
    (error + string) list \<times> error option"
  have h: "held_polls same_bytes scripted_ds (Suc 0) ?d = Some ([], None)"
    by (simp add: scripted_ds_def foldEq_def)
  have i: "IsLocked scripted_ds ([], None) = (Inl (Errorf ''connection lost'' []), ([], None))"
    by (simp add: scripted_ds_def)
  from Run_lock_errors_not_retried [of same_bytes scripted_ds "Suc 0" ?d "([], None)"
      "Errorf ''connection lost'' []" "([], None)" ?w] h i
  have 1: "Run same_bytes scripted_ds ?w ?d =
     Some (RunReturns (Some (Errorf ''failed to check lock: %w''
                               [ArgW (Errorf ''connection lost'' [])])),
           [Sleep Second], ([], None))"
    by simp
  have k: "held_polls same_bytes scripted_ds 0 ?c = Some ?c" by simp
  have j: "IsLocked scripted_ds ?c =
    (Inr ''is not locked'', ([], Some (Errorf ''lock wait timeout'' [])))"
    by (simp add: scripted_ds_def)
  have e: "EqualFold same_bytes ''is not locked'' (IsNotLocked scripted_ds)"
    by (simp add: scripted_ds_def foldEq_def)
  have g: "GetLock scripted_ds ([], Some (Errorf ''lock wait timeout'' [])) =
    (Some (Errorf ''lock wait timeout'' []), ([], Some (Errorf ''lock wait timeout'' [])))"
    by (simp add: scripted_ds_def)
  from Run_lock_errors_not_retried [of same_bytes scripted_ds _ ?c _ _ _ ?w 0 ?c "''is not locked''"
      "([], Some (Errorf ''lock wait timeout'' []))" "Errorf ''lock wait timeout'' []"
      "([], Some (Errorf ''lock wait timeout'' []))"] k j e g
  have 2: "Run same_bytes scripted_ds ?w ?c =
     Some (RunReturns (Some (Errorf ''failed to get lock: %w''
                               [ArgW (Errorf ''lock wait timeout'' [])])),
           [], ([], Some (Errorf ''lock wait timeout'' [])))"
    by simp
  from Run_lock_errors_not_retried [of same_bytes scripted_ds _ ?d _ _ _ ?w _ _ _ _ _ _
      "RunReturns (Some (Errorf ''failed to check lock: %w''
                               [ArgW (Errorf ''connection lost'' [])]))"
      "[Sleep Second]" "([], None)"] 1
  have 3: "\<exists>m b rest. held_polls same_bytes scripted_ds m ?d = Some b \<and>
      [Sleep Second] = replicate m (Sleep Second) @ rest \<and>
      (rest = [] \<or> rest = [Go WebServe, Go StarterLoop, Go RunnerLoop])"
    by simp
  from 1 2 3 show ?thesis by simp
qed

section \<open>Properties of the registration token\<close>

lemma DetectScope_Repository_split:
  assumes "DetectScope scope = Repository"
  shows "scope = fst (DivideScope scope) @ ''/'' @ snd (DivideScope scope) \<and>
         CHR ''/'' \<notin> set (fst (DivideScope scope)) \<and> CHR ''/'' \<notin> set (snd (DivideScope scope))"
proof -
  let ?P = "\<lambda>c. c \<noteq> CHR ''/''"
  from assms have len: "length (filter (\<lambda>c. c = CHR ''/'') scope) = Suc 0"
    by (auto simp: DetectScope_def split: nat.splits)
  have ne: "dropWhile ?P scope \<noteq> []"
  proof
    assume "dropWhile ?P scope = []"
    then have "\<forall>c\<in>set scope. ?P c" by (simp add: dropWhile_eq_Nil_conv)
    then have "filter (\<lambda>c. c = CHR ''/'') scope = []" by (simp add: filter_empty_conv)
    with len show False by simp
  qed
  then have "\<not> ?P (hd (dropWhile ?P scope))" by (rule hd_dropWhile)
  with ne obtain rest where d: "dropWhile ?P scope = CHR ''/'' # rest"
    by (cases "dropWhile ?P scope") auto
  have s: "scope = takeWhile ?P scope @ CHR ''/'' # rest"
    using takeWhile_dropWhile_id [of ?P scope] d by simp
  have t: "filter (\<lambda>c. c = CHR ''/'') (takeWhile ?P scope) = []"
    by (auto simp: filter_empty_conv dest: set_takeWhileD)
  have "length (filter (\<lambda>c. c = CHR ''/'') scope) =
        length (filter (\<lambda>c. c = CHR ''/'') (takeWhile ?P scope @ CHR ''/'' # rest))"
    using s by simp
  with len t have "filter (\<lambda>c. c = CHR ''/'') rest = []" by simp
  then have r: "CHR ''/'' \<notin> set rest" by (auto simp: filter_empty_conv)
  have o: "CHR ''/'' \<notin> set (takeWhile ?P scope)" by (auto dest: set_takeWhileD)
  show ?thesis using s d r o by (simp add: DivideScope_def)
qed

text \<open>
  Claim C3. Once the installation client is made, \<open>GenerateRunnerRegistrationToken\<close>
  chooses the endpoint by \<open>DetectScope\<close>. For an Organization scope its result is the
  result of the organization endpoint called with the whole scope, and it does not depend
  on the repository endpoint. For a Repository scope its result is the result of the
  repository endpoint called with the part of the scope before the first \<open>/\<close> as owner
  and the part after it as repo, and it does not depend on the organization endpoint. For
  a scope that is neither it returns the error \<open>failed to detect scope\<close> in the world
  left by the making of the client, and depends on neither endpoint.
\<close>

theorem GenerateRunnerRegistrationToken_endpoint:
  assumes "NewClientInstallation gh gheDomain installationID (AppID cfg) (PEMByte cfg) w =
             (Inr client, w1)"
  shows
  "(DetectScope scope = Organization \<and>
      Actions_CreateOrganizationRegistrationToken gh client scope w1 = (res, w2) \<longrightarrow>
      GenerateRunnerRegistrationToken gh cfg gheDomain installationID scope w =
        (case res of
           Inl err \<Rightarrow>
             Return ('''', None,
               Some (Errorf
                 ''failed to generate registration token for organization (scope: %s): %w''
                 [ArgS scope, ArgW err]))
         | Inr token \<Rightarrow> returnToken token, w2) \<and>
      (\<forall>f. GenerateRunnerRegistrationToken (gh\<lparr>Actions_CreateRegistrationToken := f\<rparr>)
             cfg gheDomain installationID scope w =
           GenerateRunnerRegistrationToken gh cfg gheDomain installationID scope w)) \<and>
   (DetectScope scope = Repository \<and>
      Actions_CreateRegistrationToken gh client (takeWhile (\<lambda>c. c \<noteq> CHR ''/'') scope)
        (drop 1 (dropWhile (\<lambda>c. c \<noteq> CHR ''/'') scope)) w1 = (res', w2') \<longrightarrow>
      GenerateRunnerRegistrationToken gh cfg gheDomain installationID scope w =
        (case res' of
           Inl err \<Rightarrow>
             Return ('''', None,
               Some (Errorf
                 ''failed to generate registration token for repository (scope: %s): %w''
                 [ArgS scope, ArgW err]))
         | Inr token \<Rightarrow> returnToken token, w2') \<and>
      scope = takeWhile (\<lambda>c. c \<noteq> CHR ''/'') scope @ ''/'' @
              drop 1 (dropWhile (\<lambda>c. c \<noteq> CHR ''/'') scope) \<and>
      (\<forall>f. GenerateRunnerRegistrationToken
             (gh\<lparr>Actions_CreateOrganizationRegistrationToken := f\<rparr>)
             cfg gheDomain installationID scope w =
           GenerateRunnerRegistrationToken gh cfg gheDomain installationID scope w)) \<and>
   (DetectScope scope = Unknown \<longrightarrow>
      GenerateRunnerRegistrationToken gh cfg gheDomain installationID scope w =
        (Return ('''', None,
           Some (Errorf ''failed to detect scope (scope: %s)'' [ArgS scope])), w1) \<and>
      (\<forall>f g. GenerateRunnerRegistrationToken
             (gh\<lparr>Actions_CreateOrganizationRegistrationToken := f,
                 Actions_CreateRegistrationToken := g\<rparr>)
             cfg gheDomain installationID scope w =
           GenerateRunnerRegistrationToken gh cfg gheDomain installationID scope w))"
proof (intro conjI impI allI)
  assume a: "DetectScope scope = Organization \<and>
      Actions_CreateOrganizationRegistrationToken gh client scope w1 = (res, w2)"
  with assms show "GenerateRunnerRegistrationToken gh cfg gheDomain installationID scope w =
        (case res of
           Inl err \<Rightarrow>
             Return ('''', None,
               Some (Errorf
                 ''failed to generate registration token for organization (scope: %s): %w''
                 [ArgS scope, ArgW err]))
         | Inr token \<Rightarrow> returnToken token, w2)"
    by (simp add: GenerateRunnerRegistrationToken_def returnToken_def
        split: sum.splits option.splits)
  fix f
  from a assms show "GenerateRunnerRegistrationToken (gh\<lparr>Actions_CreateRegistrationToken := f\<rparr>)
             cfg gheDomain installationID scope w =
           GenerateRunnerRegistrationToken gh cfg gheDomain installationID scope w"
    by (simp add: GenerateRunnerRegistrationToken_def)
next
  assume a: "DetectScope scope = Repository \<and>
      Actions_CreateRegistrationToken gh client (takeWhile (\<lambda>c. c \<noteq> CHR ''/'') scope)
        (drop 1 (dropWhile (\<lambda>c. c \<noteq> CHR ''/'') scope)) w1 = (res', w2')"
  with assms show "GenerateRunnerRegistrationToken gh cfg gheDomain installationID scope w =
        (case res' of
           Inl err \<Rightarrow>
             Return ('''', None,
               Some (Errorf
                 ''failed to generate registration token for repository (scope: %s): %w''
                 [ArgS scope, ArgW err]))
         | Inr token \<Rightarrow> returnToken token, w2')"
    by (simp add: GenerateRunnerRegistrationToken_def returnToken_def DivideScope_def
        split: sum.splits option.splits)
  from a DetectScope_Repository_split [of scope]
  show "scope = takeWhile (\<lambda>c. c \<noteq> CHR ''/'') scope @ ''/'' @
              drop 1 (dropWhile (\<lambda>c. c \<noteq> CHR ''/'') scope)"
    by (simp add: DivideScope_def)
  fix f
  from a assms show "GenerateRunnerRegistrationToken
             (gh\<lparr>Actions_CreateOrganizationRegistrationToken := f\<rparr>)
             cfg gheDomain installationID scope w =
           GenerateRunnerRegistrationToken gh cfg gheDomain installationID scope w"
    by (simp add: GenerateRunnerRegistrationToken_def)
next
  assume a: "DetectScope scope = Unknown"
  with assms show "GenerateRunnerRegistrationToken gh cfg gheDomain installationID scope w =
        (Return ('''', None,
           Some (Errorf ''failed to detect scope (scope: %s)'' [ArgS scope])), w1)"
    by (simp add: GenerateRunnerRegistrationToken_def)
  fix f g
  from a assms show "GenerateRunnerRegistrationToken
             (gh\<lparr>Actions_CreateOrganizationRegistrationToken := f,
                 Actions_CreateRegistrationToken := g\<rparr>)
             cfg gheDomain installationID scope w =
           GenerateRunnerRegistrationToken gh cfg gheDomain installationID scope w"
    by (simp add: GenerateRunnerRegistrationToken_def)
qed

theorem GenerateRunnerRegistrationToken_endpoint_witness:
  "GenerateRunnerRegistrationToken (recording_github no_answers) demo_app ''github.example'' 42
     ''octo-org'' [] =
     (Return (''REG-ORG'', Some 3600, None),
      [CallNewClientInstallation ''github.example'' 42,
       CallCreateOrganizationRegistrationToken ''octo-org'']) \<and>
   GenerateRunnerRegistrationToken (recording_github no_answers) demo_app ''github.example'' 42
     ''octo/widget'' [] =
     (Return (''REG-REPO'', Some 3600, None),
      [CallNewClientInstallation ''github.example'' 42,
       CallCreateRegistrationToken ''octo'' ''widget'']) \<and>
   GenerateRunnerRegistrationToken (recording_github no_answers) demo_app ''github.example'' 42
     ''a/b/c'' [] =
     (Return ('''', None, Some (Errorf ''failed to detect scope (scope: %s)'' [ArgS ''a/b/c''])),
      [CallNewClientInstallation ''github.example'' 42])"
proof -
  let ?gh = "recording_github no_answers"
  let ?w1 = "[CallNewClientInstallation ''github.example'' 42]"
  have c: "NewClientInstallation ?gh ''github.example'' 42 (AppID demo_app) (PEMByte demo_app) [] =
    (Inr ''installation'', ?w1)"
    by (simp add: recording_github_def)
  have o: "DetectScope ''octo-org'' = Organization"
    and r: "DetectScope ''octo/widget'' = Repository"
    and u: "DetectScope ''a/b/c'' = Unknown"
    by (simp_all add: DetectScope_def)
  have co: "Actions_CreateOrganizationRegistrationToken ?gh ''installation'' ''octo-org'' ?w1 =
    (Inr \<lparr>rt_Token = Some ''REG-ORG'', rt_ExpiresAt = Some 3600\<rparr>,
     ?w1 @ [CallCreateOrganizationRegistrationToken ''octo-org''])"
    by (simp add: recording_github_def)
  have cr: "Actions_CreateRegistrationToken ?gh ''installation''
      (takeWhile (\<lambda>c. c \<noteq> CHR ''/'') ''octo/widget'')
      (drop 1 (dropWhile (\<lambda>c. c \<noteq> CHR ''/'') ''octo/widget'')) ?w1 =
    (Inr \<lparr>rt_Token = Some ''REG-REPO'', rt_ExpiresAt = Some 3600\<rparr>,
     ?w1 @ [CallCreateRegistrationToken ''octo'' ''widget''])"
    by (simp add: recording_github_def)
  from GenerateRunnerRegistrationToken_endpoint [OF c, where scope = "''octo-org''"] o co
  have 1: "GenerateRunnerRegistrationToken ?gh demo_app ''github.example'' 42 ''octo-org'' [] =
     (Return (''REG-ORG'', Some 3600, None),
      [CallNewClientInstallation ''github.example'' 42,
       CallCreateOrganizationRegistrationToken ''octo-org''])"
    by (simp add: returnToken_def)
  from GenerateRunnerRegistrationToken_endpoint [OF c, where scope = "''octo/widget''"] r cr
  have 2: "GenerateRunnerRegistrationToken ?gh demo_app ''github.example'' 42 ''octo/widget'' [] =
     (Return (''REG-REPO'', Some 3600, None),
      [CallNewClientInstallation ''github.example'' 42,
       CallCreateRegistrationToken ''octo'' ''widget''])"
    by (simp add: returnToken_def)
  from GenerateRunnerRegistrationToken_endpoint [OF c, where scope = "''a/b/c''"] u
  have 3: "GenerateRunnerRegistrationToken ?gh demo_app ''github.example'' 42 ''a/b/c'' [] =
     (Return ('''', None, Some (Errorf ''failed to detect scope (scope: %s)'' [ArgS ''a/b/c''])),
      [CallNewClientInstallation ''github.example'' 42])"
    by simp
  from 1 2 3 show ?thesis by simp
qed

section \<open>Properties of the installation lookup\<close>

lemma listInstallations_loop_next_pages:
  "next_pages gh c n page w = Some (js, p, w1) \<Longrightarrow>
   listInstallations_loop gh c \<lparr>Page = page, PerPage = 10\<rparr> acc w =
   listInstallations_loop gh c \<lparr>Page = p, PerPage = 10\<rparr> (acc @ js) w1"
proof (induction n arbitrary: page w js acc)
  case 0
  then show ?case by simp
next
  case (Suc n)
  obtain r w0 where a: "Apps_ListInstallations gh c \<lparr>Page = page, PerPage = 10\<rparr> w = (r, w0)"
    by (cases "Apps_ListInstallations gh c \<lparr>Page = page, PerPage = 10\<rparr> w")
  from Suc.prems a obtain "is" resp ks where r: "r = Inr (is, resp)" and np: "NextPage resp \<noteq> 0"
    and h: "next_pages gh c n (NextPage resp) w0 = Some (ks, p, w1)" and js: "js = is @ ks"
    by (cases r) (auto split: if_splits option.splits)
  have "listInstallations_loop gh c \<lparr>Page = page, PerPage = 10\<rparr> acc w =
        listInstallations_loop gh c \<lparr>Page = NextPage resp, PerPage = 10\<rparr> (acc @ is) w0"
    using a r np by (subst listInstallations_loop.simps) simp
  also have "\<dots> = listInstallations_loop gh c \<lparr>Page = p, PerPage = 10\<rparr> ((acc @ is) @ ks) w1"
    by (rule Suc.IH [OF h])
  finally show ?case using js by simp
qed

lemma listInstallations_loop_last_page:
  "Apps_ListInstallations gh c opts w = (Inr (is, resp), w1) \<Longrightarrow> NextPage resp = 0 \<Longrightarrow>
   listInstallations_loop gh c opts acc w = Some (Inr (acc @ is), w1)"
  by (subst listInstallations_loop.simps) simp

lemma listInstallations_loop_Some:
  "listInstallations_loop gh c opts acc w = Some res \<Longrightarrow> PerPage opts = 10 \<Longrightarrow>
   \<exists>n js p w1. next_pages gh c n (Page opts) w = Some (js, p, w1) \<and>
     ((\<exists>err w2. Apps_ListInstallations gh c \<lparr>Page = p, PerPage = 10\<rparr> w1 = (Inl err, w2) \<and>
         res = (Inl (Errorf ''failed to list installations: %w'' [ArgW err]), w2)) \<or>
      (\<exists>is resp w2. Apps_ListInstallations gh c \<lparr>Page = p, PerPage = 10\<rparr> w1 =
           (Inr (is, resp), w2) \<and> NextPage resp = 0 \<and> res = (Inr (acc @ js @ is), w2)))"
proof (induction rule: listInstallations_loop.raw_induct [rotated 1, consumes 1])
  case (1 loop gh c opts acc w res)
  have o: "opts = \<lparr>Page = Page opts, PerPage = 10\<rparr>" using 1(3) by simp
  obtain r w0 where a: "Apps_ListInstallations gh c opts w = (r, w0)"
    by (cases "Apps_ListInstallations gh c opts w")
  show ?case
  proof (cases r)
    case (Inl err)
    with 1(2) a have "res = (Inl (Errorf ''failed to list installations: %w'' [ArgW err]), w0)"
      by simp
    with a Inl o have "next_pages gh c 0 (Page opts) w = Some ([], Page opts, w) \<and>
      Apps_ListInstallations gh c \<lparr>Page = Page opts, PerPage = 10\<rparr> w = (Inl err, w0) \<and>
      res = (Inl (Errorf ''failed to list installations: %w'' [ArgW err]), w0)"
      by simp
    then show ?thesis by blast
  next
    case (Inr b)
    obtain "is" resp where b: "b = (is, resp)" by (cases b)
    show ?thesis
    proof (cases "NextPage resp = 0")
      case True
      with 1(2) a Inr b have "res = (Inr (acc @ is), w0)" by simp
      with a Inr b o True have "next_pages gh c 0 (Page opts) w = Some ([], Page opts, w) \<and>
        Apps_ListInstallations gh c \<lparr>Page = Page opts, PerPage = 10\<rparr> w = (Inr (is, resp), w0) \<and>
        NextPage resp = 0 \<and> res = (Inr (acc @ [] @ is), w0)"
        by simp
      then show ?thesis by blast
    next
      case False
      with 1(2) a Inr b have l: "loop gh c (opts\<lparr>Page := NextPage resp\<rparr>) (acc @ is) w0 = Some res"
        by simp
      have pp: "PerPage (opts\<lparr>Page := NextPage resp\<rparr>) = 10" using 1(3) by simp
      from 1(1) [OF l pp] obtain n js p w1 where
        h: "next_pages gh c n (NextPage resp) w0 = Some (js, p, w1)" and
        d: "(\<exists>err w2. Apps_ListInstallations gh c \<lparr>Page = p, PerPage = 10\<rparr> w1 = (Inl err, w2) \<and>
         res = (Inl (Errorf ''failed to list installations: %w'' [ArgW err]), w2)) \<or>
      (\<exists>ks resp w2. Apps_ListInstallations gh c \<lparr>Page = p, PerPage = 10\<rparr> w1 =
           (Inr (ks, resp), w2) \<and> NextPage resp = 0 \<and> res = (Inr ((acc @ is) @ js @ ks), w2))"
        by auto
      have a': "Apps_ListInstallations gh c \<lparr>Page = Page opts, PerPage = 10\<rparr> w = (Inr (is, resp), w0)"
        using a Inr b o by simp
      have h': "next_pages gh c (Suc n) (Page opts) w = Some (is @ js, p, w1)"
        using a' False h by simp
      from d have "(\<exists>err w2. Apps_ListInstallations gh c \<lparr>Page = p, PerPage = 10\<rparr> w1 = (Inl err, w2) \<and>
         res = (Inl (Errorf ''failed to list installations: %w'' [ArgW err]), w2)) \<or>
      (\<exists>ks resp w2. Apps_ListInstallations gh c \<lparr>Page = p, PerPage = 10\<rparr> w1 =
           (Inr (ks, resp), w2) \<and> NextPage resp = 0 \<and> res = (Inr (acc @ (is @ js) @ ks), w2))"
        by simp
      with h' show ?thesis by blast
    qed
  qed
qed

lemma next_pages_Suc_None:
  "next_pages gh c n page w = Some (js, p, w1) \<Longrightarrow>
   (\<exists>err w2. Apps_ListInstallations gh c \<lparr>Page = p, PerPage = 10\<rparr> w1 = (Inl err, w2)) \<or>
   (\<exists>is resp w2. Apps_ListInstallations gh c \<lparr>Page = p, PerPage = 10\<rparr> w1 = (Inr (is, resp), w2) \<and>
      NextPage resp = 0) \<Longrightarrow>
   next_pages gh c (Suc n) page w = None"
proof (induction n arbitrary: page w js)
  case 0
  then show ?case by auto
next
  case (Suc n)
  obtain r w0 where a: "Apps_ListInstallations gh c \<lparr>Page = page, PerPage = 10\<rparr> w = (r, w0)"
    by (cases "Apps_ListInstallations gh c \<lparr>Page = page, PerPage = 10\<rparr> w")
  from Suc.prems(1) a obtain "is" resp ks where r: "r = Inr (is, resp)" and np: "NextPage resp \<noteq> 0"
    and h: "next_pages gh c n (NextPage resp) w0 = Some (ks, p, w1)"
    by (cases r) (auto split: if_splits option.splits)
  have "next_pages gh c (Suc n) (NextPage resp) w0 = None" by (rule Suc.IH [OF h Suc.prems(2)])
  then show ?case using a r np
    by (simp del: next_pages.simps(2) add: next_pages.simps(2) [of gh c "Suc n" page w])
qed

lemma range_suspended:
  "SuspendedAt i \<noteq> None \<Longrightarrow>
   IsInstalledGitHubApp_range U S gheDomain inputScope (i # rest) w =
   IsInstalledGitHubApp_range U S gheDomain inputScope rest w"
  by simp

lemma range_selected:
  "SuspendedAt i = None \<Longrightarrow> Account i = Some a \<Longrightarrow> Login a = Some l \<Longrightarrow>
   prefix l inputScope \<Longrightarrow> RepositorySelection i = Some sel \<Longrightarrow>
   \<not> EqualFold U sel ''all'' \<Longrightarrow> EqualFold U sel ''selected'' \<Longrightarrow> ID i = Some n \<Longrightarrow>
   IsInstalledGitHubApp_range U S gheDomain inputScope (i # rest) w =
     (case isInstalledGitHubAppSelected U S gheDomain inputScope n w of
        (Panic p, w1) \<Rightarrow> (Panic p, w1)
      | (Return None, w1) \<Rightarrow> (Return (n, None), w1)
      | (Return (Some err), w1) \<Rightarrow> IsInstalledGitHubApp_range U S gheDomain inputScope rest w1)"
  by simp

lemma range_error_generic:
  "IsInstalledGitHubApp_range U S gheDomain inputScope installations w = (Return (n, Some e), w') \<Longrightarrow>
   n = - 1 \<and> e = Errorf ''%s/%s is not installed configured GitHub Apps''
                    [ArgS gheDomain, ArgS inputScope]"
proof (induction U S gheDomain inputScope installations w rule: IsInstalledGitHubApp_range.induct)
  case (1 U S gheDomain inputScope w)
  then show ?case by simp
next
  case (2 U S gheDomain inputScope i rest w)
  show ?case
  proof (cases "SuspendedAt i \<noteq> None")
    case True
    with 2 show ?thesis by auto
  next
    case False
    then have su: "SuspendedAt i = None" by simp
    from 2(5) su obtain a l where a: "Account i = Some a" and l: "Login a = Some l"
      by (auto split: option.splits)
    show ?thesis
    proof (cases "prefix l inputScope")
      case False
      with 2(4) [OF _ a l False] 2(5) su a l show ?thesis by auto
    next
      case True
      from 2(5) su a l True obtain sel where sel: "RepositorySelection i = Some sel"
        by (auto split: option.splits)
      show ?thesis
      proof (cases "EqualFold U sel ''all''")
        case all: True
        with 2(5) su a l True sel show ?thesis by (auto split: option.splits)
      next
        case nall: False
        show ?thesis
        proof (cases "EqualFold U sel ''selected''")
          case nsel: False
          with 2(3) [OF _ a l True sel nall nsel] 2(5) su a l True sel nall show ?thesis by auto
        next
          case selected: True
          from 2(5) su a l True sel nall selected obtain m where m: "ID i = Some m"
            by (auto split: option.splits)
          obtain r w1 where c: "isInstalledGitHubAppSelected U S gheDomain inputScope m w = (r, w1)"
            by (cases "isInstalledGitHubAppSelected U S gheDomain inputScope m w")
          show ?thesis
          proof (cases r)
            case (Panic p)
            with 2(5) su a l True sel nall selected m c show ?thesis by simp
          next
            case (Return eo)
            show ?thesis
            proof (cases eo)
              case None
              with 2(5) su a l True sel nall selected m c Return show ?thesis by simp
            next
              case (Some err)
              from 2(5) su a l True sel nall selected m c Return Some
              have "IsInstalledGitHubApp_range U S gheDomain inputScope rest w1 = (Return (n, Some e), w')"
                by simp
              from 2(2) [OF _ a l True sel nall selected m c [symmetric] Return Some this]
              show ?thesis using su by auto
            qed
          qed
        qed
      qed
    qed
  qed
qed

lemma range_id_matches:
  "IsInstalledGitHubApp_range U S gheDomain inputScope installations w = (Return (n, None), w') \<Longrightarrow>
   \<exists>i\<in>set installations. \<exists>a l sel.
     SuspendedAt i = None \<and> Account i = Some a \<and> Login a = Some l \<and> prefix l inputScope \<and>
     RepositorySelection i = Some sel \<and> ID i = Some n \<and>
     (EqualFold U sel ''all'' \<or>
      (EqualFold U sel ''selected'' \<and>
       (\<exists>w0. isInstalledGitHubAppSelected U S gheDomain inputScope n w0 = (Return None, w'))))"
proof (induction U S gheDomain inputScope installations w rule: IsInstalledGitHubApp_range.induct)
  case (1 U S gheDomain inputScope w)
  then show ?case by simp
next
  case (2 U S gheDomain inputScope i rest w)
  show ?case
  proof (cases "SuspendedAt i \<noteq> None")
    case True
    with 2 show ?thesis by auto
  next
    case False
    then have su: "SuspendedAt i = None" by simp
    from 2(5) su obtain a l where a: "Account i = Some a" and l: "Login a = Some l"
      by (auto split: option.splits)
    show ?thesis
    proof (cases "prefix l inputScope")
      case False
      with 2(4) [OF _ a l False] 2(5) su a l show ?thesis by auto
    next
      case True
      from 2(5) su a l True obtain sel where sel: "RepositorySelection i = Some sel"
        by (auto split: option.splits)
      show ?thesis
      proof (cases "EqualFold U sel ''all''")
        case all: True
        with 2(5) su a l True sel have "ID i = Some n" by (auto split: option.splits)
        with su a l True sel all show ?thesis by auto
      next
        case nall: False
        show ?thesis
        proof (cases "EqualFold U sel ''selected''")
          case nsel: False
          with 2(3) [OF _ a l True sel nall nsel] 2(5) su a l True sel nall show ?thesis by auto
        next
          case selected: True
          from 2(5) su a l True sel nall selected obtain m where m: "ID i = Some m"
            by (auto split: option.splits)
          obtain r w1 where c: "isInstalledGitHubAppSelected U S gheDomain inputScope m w = (r, w1)"
            by (cases "isInstalledGitHubAppSelected U S gheDomain inputScope m w")
          show ?thesis
          proof (cases r)
            case (Panic p)
            with 2(5) su a l True sel nall selected m c show ?thesis by simp
          next
            case (Return eo)
            show ?thesis
            proof (cases eo)
              case None
              with 2(5) su a l True sel nall selected m c Return have "n = m" "w' = w1" by simp_all
              with su a l True sel selected m c Return None show ?thesis by auto
            next
              case (Some err)
              from 2(5) su a l True sel nall selected m c Return Some
              have "IsInstalledGitHubApp_range U S gheDomain inputScope rest w1 = (Return (n, None), w')"
                by simp
              from 2(2) [OF _ a l True sel nall selected m c [symmetric] Return Some this]
              show ?thesis using su by auto
            qed
          qed
        qed
      qed
    qed
  qed
qed

lemma range_none:
  "\<forall>i\<in>set installations. SuspendedAt i \<noteq> None \<or>
      (\<exists>a l. Account i = Some a \<and> Login a = Some l \<and>
         (\<not> prefix l inputScope \<or>
          (\<exists>sel. RepositorySelection i = Some sel \<and> \<not> EqualFold U sel ''all'' \<and>
             (\<not> EqualFold U sel ''selected'' \<or>
              (\<exists>n. ID i = Some n \<and>
                 (\<forall>v. \<exists>e v'. isInstalledGitHubAppSelected U S gheDomain inputScope n v =
                                 (Return (Some e), v'))))))) \<Longrightarrow>
   \<exists>w'. IsInstalledGitHubApp_range U S gheDomain inputScope installations w =
     (Return (- 1, Some (Errorf ''%s/%s is not installed configured GitHub Apps''
                           [ArgS gheDomain, ArgS inputScope])), w')"
proof (induction installations arbitrary: w)
  case Nil
  then show ?case by simp
next
  case (Cons i rest)
  let ?R = "\<lambda>xs w. IsInstalledGitHubApp_range U S gheDomain inputScope xs w"
  have rest: "\<And>v. \<exists>w'. ?R rest v =
     (Return (- 1, Some (Errorf ''%s/%s is not installed configured GitHub Apps''
                           [ArgS gheDomain, ArgS inputScope])), w')"
    using Cons.IH Cons.prems by simp
  from Cons.prems have
    "SuspendedAt i \<noteq> None \<or>
      (\<exists>a l. Account i = Some a \<and> Login a = Some l \<and>
         (\<not> prefix l inputScope \<or>
          (\<exists>sel. RepositorySelection i = Some sel \<and> \<not> EqualFold U sel ''all'' \<and>
             (\<not> EqualFold U sel ''selected'' \<or>
              (\<exists>n. ID i = Some n \<and>
                 (\<forall>v. \<exists>e v'. isInstalledGitHubAppSelected U S gheDomain inputScope n v =
                                 (Return (Some e), v')))))))"
    by simp
  then consider
      (susp) "SuspendedAt i \<noteq> None"
    | (nopre) a l where "SuspendedAt i = None" "Account i = Some a" "Login a = Some l"
        "\<not> prefix l inputScope"
    | (other) a l sel where "SuspendedAt i = None" "Account i = Some a" "Login a = Some l"
        "prefix l inputScope" "RepositorySelection i = Some sel" "\<not> EqualFold U sel ''all''"
        "\<not> EqualFold U sel ''selected''"
    | (fails) a l sel n where "SuspendedAt i = None" "Account i = Some a" "Login a = Some l"
        "prefix l inputScope" "RepositorySelection i = Some sel" "\<not> EqualFold U sel ''all''"
        "EqualFold U sel ''selected''" "ID i = Some n"
        "\<forall>v. \<exists>e v'. isInstalledGitHubAppSelected U S gheDomain inputScope n v =
                                 (Return (Some e), v')"
    by blast
  then show ?case
  proof cases
    case susp
    then have "?R (i # rest) w = ?R rest w" by simp
    with rest [of w] show ?thesis by simp
  next
    case nopre
    then have "?R (i # rest) w = ?R rest w" by simp
    with rest [of w] show ?thesis by simp
  next
    case other
    then have "?R (i # rest) w = ?R rest w" by simp
    with rest [of w] show ?thesis by simp
  next
    case fails
    from fails(9) obtain e v' where
      "isInstalledGitHubAppSelected U S gheDomain inputScope n w = (Return (Some e), v')" by blast
    with fails have "?R (i # rest) w = ?R rest v'" by simp
    with rest [of v'] show ?thesis by simp
  qed
qed

lemma IsInstalledGitHubApp_package:
  "NewClientGitHubApps gh gheDomain (AppID cfg) (PEMByte cfg) v = (Inr c, w) \<Longrightarrow>
   listInstallations gh c w = Some (Inr installations, w3) \<Longrightarrow>
   IsInstalledGitHubApp U (package_seams gh cfg) cfg gheDomain inputScope v =
     Some (IsInstalledGitHubApp_range U (package_seams gh cfg) gheDomain inputScope installations w3)"
  by (simp add: IsInstalledGitHubApp_def package_seams_def)

lemma selected_range_iff:
  "\<forall>repo\<in>set rs. FullName repo \<noteq> None \<Longrightarrow>
   \<exists>r. isInstalledGitHubAppSelected_range U rs inputScope = Return r \<and>
       ((r = None) = (\<exists>repo\<in>set rs. \<exists>f. FullName repo = Some f \<and> EqualFold U f inputScope))"
  by (induction rs) auto

lemma selected_check:
  assumes "GHlistAppsInstalledRepo S gheDomain n inputScope w = (Return (Inr lr), w1)"
    and "TotalCount lr = Some t"
    and "\<forall>repo\<in>set (Repositories lr). FullName repo \<noteq> None"
  shows "\<exists>r. isInstalledGitHubAppSelected U S gheDomain inputScope n w = (Return r, w1) \<and>
     ((r = None) =
      (0 < t \<and> (DetectScope inputScope = Organization \<or>
                (DetectScope inputScope = Repository \<and>
                 (\<exists>repo\<in>set (Repositories lr). \<exists>f. FullName repo = Some f \<and>
                    EqualFold U f inputScope)))))"
proof -
  from selected_range_iff [OF assms(3), of U inputScope] obtain r where
    r: "isInstalledGitHubAppSelected_range U (Repositories lr) inputScope = Return r"
    and i: "(r = None) = (\<exists>repo\<in>set (Repositories lr). \<exists>f. FullName repo = Some f \<and>
                    EqualFold U f inputScope)"
    by blast
  show ?thesis
  proof (cases "t \<le> 0")
    case True
    with assms(1,2) show ?thesis by (simp add: isInstalledGitHubAppSelected_def)
  next
    case pos: False
    show ?thesis
    proof (cases "DetectScope inputScope")
      case Unknown
      with assms(1,2) pos show ?thesis by (simp add: isInstalledGitHubAppSelected_def)
    next
      case Organization
      with assms(1,2) pos show ?thesis by (simp add: isInstalledGitHubAppSelected_def)
    next
      case Repository
      with assms(1,2) pos r i show ?thesis by (simp add: isInstalledGitHubAppSelected_def)
    qed
  qed
qed

lemma selected_fetch_error:
  "GHlistAppsInstalledRepo S gheDomain n inputScope w = (Return (Inl err), w1) \<Longrightarrow>
   isInstalledGitHubAppSelected U S gheDomain inputScope n w =
     (Return (Some (Errorf ''failed to get list of installed repositories: %w'' [ArgW err])), w1)"
  by (simp add: isInstalledGitHubAppSelected_def)

lemma listAppsInstalledRepo_token_client:
  "NewClientGitHubApps gh gheDomain (AppID cfg) (PEMByte cfg) w = (Inr ca, w1) \<Longrightarrow>
   Apps_CreateInstallationToken gh ca n w1 = (Inr (tok, resp), w2) \<Longrightarrow>
   it_Token tok = Some t \<Longrightarrow>
   NewClient gh t gheDomain (storeRateLimit gh inputScope (Rate resp) w2) = (Inr client, w3) \<Longrightarrow>
   Apps_ListRepos gh client w3 = (res, w4) \<Longrightarrow>
   listAppsInstalledRepo gh cfg gheDomain n inputScope w =
     (Return (case res of
                Inl err \<Rightarrow> Inl (Errorf ''failed to get installed repositories: %w'' [ArgW err])
              | Inr lr \<Rightarrow> Inr lr), w4)"
  by (simp add: listAppsInstalledRepo_def GenerateGitHubAppsToken_def split: sum.splits)

lemma listAppsInstalledRepo_mint_error:
  "NewClientGitHubApps gh gheDomain (AppID cfg) (PEMByte cfg) w = (Inr ca, w1) \<Longrightarrow>
   Apps_CreateInstallationToken gh ca n w1 = (Inl err, w2) \<Longrightarrow>
   listAppsInstalledRepo gh cfg gheDomain n inputScope w =
     (Return (Inl (Errorf ''failed to generate GitHub Apps Token: %w''
                     [ArgW (Errorf ''failed to generate token from API: %w'' [ArgW err])])), w2)"
  by (simp add: listAppsInstalledRepo_def GenerateGitHubAppsToken_def)

lemma DetectScope_Organization: "(DetectScope scope = Organization) = (CHR ''/'' \<notin> set scope)"
proof -
  have "(length (filter (\<lambda>c. c = CHR ''/'') scope) = 0) = (CHR ''/'' \<notin> set scope)"
    by (auto simp: filter_empty_conv)
  then show ?thesis by (auto simp: DetectScope_def split: nat.splits)
qed

text \<open>
  Claim C1. \<open>listInstallations\<close> asks for page 0 with page size 10, then for the page
  each answer names as next, and returns the installations of all pages in order once an
  answer names no next page; \<open>IsInstalledGitHubApp\<close> then goes through this list. A
  suspended installation is skipped, and so is one whose account login is not a prefix of
  the input scope. An installation that is reached, whose login is a prefix of the scope
  and whose repository selection is \<open>all\<close>, ends the search with its id. An id is only
  ever returned for an installation that is not suspended, whose login is a prefix of the
  scope and whose selection is \<open>all\<close>, or \<open>selected\<close> with a check that succeeded. An
  error returned by the search is the not-installed error, with id \<open>-1\<close>; and it is
  what the search returns when every installation is suspended, has a login that is not a
  prefix of the scope, a selection that is neither \<open>all\<close> nor \<open>selected\<close>, or is
  \<open>selected\<close> with a check that returns an error. While every answer names a next
  page the listing does not end.
\<close>

theorem IsInstalledGitHubApp_discovery:
  "(next_pages gh c k 0 w = Some (js, p, w1) \<and>
    Apps_ListInstallations gh c \<lparr>Page = p, PerPage = 10\<rparr> w1 = (Inr (ks, resp), w2) \<and>
    NextPage resp = 0 \<longrightarrow>
      listInstallations gh c w = Some (Inr (js @ ks), w2)) \<and>
   (listInstallations gh c w = Some (Inr installations, w3) \<longrightarrow>
      (\<exists>k js p w1 ks resp. next_pages gh c k 0 w = Some (js, p, w1) \<and>
         Apps_ListInstallations gh c \<lparr>Page = p, PerPage = 10\<rparr> w1 = (Inr (ks, resp), w3) \<and>
         NextPage resp = 0 \<and> installations = js @ ks)) \<and>
   (NewClientGitHubApps gh gheDomain (AppID cfg) (PEMByte cfg) v = (Inr c, w) \<and>
    listInstallations gh c w = Some (Inr installations, w3) \<longrightarrow>
      IsInstalledGitHubApp U (package_seams gh cfg) cfg gheDomain inputScope v =
        Some (IsInstalledGitHubApp_range U (package_seams gh cfg) gheDomain inputScope
                installations w3)) \<and>
   (SuspendedAt i \<noteq> None \<longrightarrow>
      IsInstalledGitHubApp_range U S gheDomain inputScope (i # rest) u =
      IsInstalledGitHubApp_range U S gheDomain inputScope rest u) \<and>
   (SuspendedAt i = None \<and> Account i = Some a \<and> Login a = Some l \<and> \<not> prefix l inputScope \<longrightarrow>
      IsInstalledGitHubApp_range U S gheDomain inputScope (i # rest) u =
      IsInstalledGitHubApp_range U S gheDomain inputScope rest u) \<and>
   (SuspendedAt i = None \<and> Account i = Some a \<and> Login a = Some l \<and> prefix l inputScope \<and>
    RepositorySelection i = Some ''all'' \<and> ID i = Some n \<longrightarrow>
      IsInstalledGitHubApp_range U S gheDomain inputScope (i # rest) u = (Return (n, None), u)) \<and>
   (IsInstalledGitHubApp_range U S gheDomain inputScope xs u = (Return (m, None), u') \<longrightarrow>
      (\<exists>x\<in>set xs. \<exists>b login sel.
         SuspendedAt x = None \<and> Account x = Some b \<and> Login b = Some login \<and>
         prefix login inputScope \<and> RepositorySelection x = Some sel \<and> ID x = Some m \<and>
         (EqualFold U sel ''all'' \<or>
          (EqualFold U sel ''selected'' \<and>
           (\<exists>w0. isInstalledGitHubAppSelected U S gheDomain inputScope m w0 =
                   (Return None, u')))))) \<and>
   (IsInstalledGitHubApp_range U S gheDomain inputScope xs u = (Return (m, Some e), u') \<longrightarrow>
      m = - 1 \<and> e = Errorf ''%s/%s is not installed configured GitHub Apps''
                       [ArgS gheDomain, ArgS inputScope]) \<and>
   ((\<forall>x\<in>set xs. SuspendedAt x \<noteq> None \<or>
      (\<exists>b login. Account x = Some b \<and> Login b = Some login \<and>
         (\<not> prefix login inputScope \<or>
          (\<exists>sel. RepositorySelection x = Some sel \<and> \<not> EqualFold U sel ''all'' \<and>
             (\<not> EqualFold U sel ''selected'' \<or>
              (\<exists>iid. ID x = Some iid \<and>
                 (\<forall>v. \<exists>err v'. isInstalledGitHubAppSelected U S gheDomain inputScope iid v =
                                 (Return (Some err), v')))))))) \<longrightarrow>
      (\<exists>u'. IsInstalledGitHubApp_range U S gheDomain inputScope xs u =
         (Return (- 1, Some (Errorf ''%s/%s is not installed configured GitHub Apps''
                               [ArgS gheDomain, ArgS inputScope])), u'))) \<and>
   ((\<forall>k. next_pages gh c k 0 w \<noteq> None) \<longrightarrow> listInstallations gh c w = None)"
proof (intro conjI impI)
  assume a: "next_pages gh c k 0 w = Some (js, p, w1) \<and>
    Apps_ListInstallations gh c \<lparr>Page = p, PerPage = 10\<rparr> w1 = (Inr (ks, resp), w2) \<and>
    NextPage resp = 0"
  then have h: "next_pages gh c k 0 w = Some (js, p, w1)"
    and l: "Apps_ListInstallations gh c \<lparr>Page = p, PerPage = 10\<rparr> w1 = (Inr (ks, resp), w2)"
    and z: "NextPage resp = 0" by simp_all
  have "listInstallations gh c w =
    listInstallations_loop gh c \<lparr>Page = p, PerPage = 10\<rparr> ([] @ js) w1"
    unfolding listInstallations_def by (rule listInstallations_loop_next_pages [OF h])
  also have "\<dots> = Some (Inr (([] @ js) @ ks), w2)"
    by (rule listInstallations_loop_last_page [OF l z])
  finally show "listInstallations gh c w = Some (Inr (js @ ks), w2)" by simp
next
  assume "listInstallations gh c w = Some (Inr installations, w3)"
  then have "listInstallations_loop gh c \<lparr>Page = 0, PerPage = 10\<rparr> [] w =
    Some (Inr installations, w3)" by (simp add: listInstallations_def)
  from listInstallations_loop_Some [OF this]
  show "\<exists>k js p w1 ks resp. next_pages gh c k 0 w = Some (js, p, w1) \<and>
         Apps_ListInstallations gh c \<lparr>Page = p, PerPage = 10\<rparr> w1 = (Inr (ks, resp), w3) \<and>
         NextPage resp = 0 \<and> installations = js @ ks"
    by simp
next
  assume "NewClientGitHubApps gh gheDomain (AppID cfg) (PEMByte cfg) v = (Inr c, w) \<and>
    listInstallations gh c w = Some (Inr installations, w3)"
  then have n: "NewClientGitHubApps gh gheDomain (AppID cfg) (PEMByte cfg) v = (Inr c, w)"
    and l: "listInstallations gh c w = Some (Inr installations, w3)" by simp_all
  show "IsInstalledGitHubApp U (package_seams gh cfg) cfg gheDomain inputScope v =
        Some (IsInstalledGitHubApp_range U (package_seams gh cfg) gheDomain inputScope
                installations w3)"
    by (rule IsInstalledGitHubApp_package [OF n l])
next
  assume "SuspendedAt i \<noteq> None"
  then show "IsInstalledGitHubApp_range U S gheDomain inputScope (i # rest) u =
      IsInstalledGitHubApp_range U S gheDomain inputScope rest u"
    by (rule range_suspended)
next
  assume "SuspendedAt i = None \<and> Account i = Some a \<and> Login a = Some l \<and> \<not> prefix l inputScope"
  then show "IsInstalledGitHubApp_range U S gheDomain inputScope (i # rest) u =
      IsInstalledGitHubApp_range U S gheDomain inputScope rest u"
    by simp
next
  assume "SuspendedAt i = None \<and> Account i = Some a \<and> Login a = Some l \<and> prefix l inputScope \<and>
    RepositorySelection i = Some ''all'' \<and> ID i = Some n"
  then show "IsInstalledGitHubApp_range U S gheDomain inputScope (i # rest) u = (Return (n, None), u)"
    by (simp add: foldEq_def)
next
  assume "IsInstalledGitHubApp_range U S gheDomain inputScope xs u = (Return (m, None), u')"
  from range_id_matches [OF this]
  show "\<exists>x\<in>set xs. \<exists>b login sel.
         SuspendedAt x = None \<and> Account x = Some b \<and> Login b = Some login \<and>
         prefix login inputScope \<and> RepositorySelection x = Some sel \<and> ID x = Some m \<and>
         (EqualFold U sel ''all'' \<or>
          (EqualFold U sel ''selected'' \<and>
           (\<exists>w0. isInstalledGitHubAppSelected U S gheDomain inputScope m w0 =
                   (Return None, u'))))" .
next
  assume r: "IsInstalledGitHubApp_range U S gheDomain inputScope xs u = (Return (m, Some e), u')"
  from range_error_generic [OF r] show "m = - 1" by simp
  from range_error_generic [OF r] show "e = Errorf ''%s/%s is not installed configured GitHub Apps''
                       [ArgS gheDomain, ArgS inputScope]" by simp
next
  assume "\<forall>x\<in>set xs. SuspendedAt x \<noteq> None \<or>
      (\<exists>b login. Account x = Some b \<and> Login b = Some login \<and>
         (\<not> prefix login inputScope \<or>
          (\<exists>sel. RepositorySelection x = Some sel \<and> \<not> EqualFold U sel ''all'' \<and>
             (\<not> EqualFold U sel ''selected'' \<or>
              (\<exists>iid. ID x = Some iid \<and>
                 (\<forall>v. \<exists>err v'. isInstalledGitHubAppSelected U S gheDomain inputScope iid v =
                                 (Return (Some err), v')))))))"
  then show "\<exists>u'. IsInstalledGitHubApp_range U S gheDomain inputScope xs u =
         (Return (- 1, Some (Errorf ''%s/%s is not installed configured GitHub Apps''
                               [ArgS gheDomain, ArgS inputScope])), u')"
    by (rule range_none)
next
  assume a: "\<forall>k. next_pages gh c k 0 w \<noteq> None"
  show "listInstallations gh c w = None"
  proof (rule ccontr)
    assume "listInstallations gh c w \<noteq> None"
    then obtain res where "listInstallations_loop gh c \<lparr>Page = 0, PerPage = 10\<rparr> [] w = Some res"
      by (auto simp: listInstallations_def)
    from listInstallations_loop_Some [OF this] obtain k js p w1 where
      h: "next_pages gh c k 0 w = Some (js, p, w1)" and
      d: "(\<exists>err w2. Apps_ListInstallations gh c \<lparr>Page = p, PerPage = 10\<rparr> w1 = (Inl err, w2)) \<or>
   (\<exists>is resp w2. Apps_ListInstallations gh c \<lparr>Page = p, PerPage = 10\<rparr> w1 = (Inr (is, resp), w2) \<and>
      NextPage resp = 0)"
      by auto
    from next_pages_Suc_None [OF h d] a show False by blast
  qed
qed

lemma endless_next_pages:
  "next_pages (recording_github endless_answers) c k page w \<noteq> None"
proof (induction k arbitrary: page w)
  case 0
  then show ?case by simp
next
  case (Suc k)
  let ?w = "w @ [CallListInstallations page 10]"
  from Suc [of "\<bar>page\<bar> + 1" ?w] obtain r where
    "next_pages (recording_github endless_answers) c k (\<bar>page\<bar> + 1) ?w = Some r"
    by auto
  then show ?case
    by (cases r) (simp add: recording_github_def endless_answers_def)
qed

theorem IsInstalledGitHubApp_discovery_witness:
  "IsInstalledGitHubApp same_bytes (package_seams (recording_github demo_answers) demo_app) demo_app
     ''github.example'' ''octo-org/other'' [] =
     Some (Return (15, None),
       [CallNewClientGitHubApps ''github.example'',
        CallListInstallations 0 10, CallListInstallations 2 10, CallListInstallations 3 10,
        CallNewClientGitHubApps ''github.example'', CallCreateInstallationToken 13,
        CallNewClientGitHubApps ''github.example'', CallCreateInstallationToken 14,
        CallStoreRateLimit ''octo-org/other'', CallNewClient ''T14'' ''github.example'',
        CallListRepos ''T14'']) \<and>
   (\<exists>u'. IsInstalledGitHubApp_range same_bytes (package_seams (recording_github demo_answers) demo_app)
      ''github.example'' ''nobody''
      [inst 11 ''octo-org'' ''all'' (Some 5), inst 12 ''other'' ''all'' None] [] =
      (Return (- 1, Some (Errorf ''%s/%s is not installed configured GitHub Apps''
                            [ArgS ''github.example'', ArgS ''nobody''])), u')) \<and>
   listInstallations (recording_github endless_answers) ''app'' [] = None"
proof -
  let ?gh = "recording_github demo_answers"
  let ?S = "package_seams ?gh demo_app"
  let ?d = "''github.example''"
  let ?s = "''octo-org/other''"
  let ?i11 = "inst 11 ''octo-org'' ''all'' (Some 5)"
  let ?i12 = "inst 12 ''other'' ''all'' None"
  let ?i13 = "inst 13 ''octo-org'' ''selected'' None"
  let ?i14 = "inst 14 ''octo-org'' ''selected'' None"
  let ?i15 = "inst 15 ''octo-org'' ''all'' None"
  let ?w0 = "[CallNewClientGitHubApps ?d]"
  let ?w1 = "?w0 @ [CallListInstallations 0 10, CallListInstallations 2 10]"
  let ?w2 = "?w1 @ [CallListInstallations 3 10]"
  let ?w3 = "?w2 @ [CallNewClientGitHubApps ?d, CallCreateInstallationToken 13,
        CallNewClientGitHubApps ?d, CallCreateInstallationToken 14,
        CallStoreRateLimit ?s, CallNewClient ''T14'' ?d, CallListRepos ''T14'']"
  note T = IsInstalledGitHubApp_discovery
  note T1 = T [THEN conjunct1, rule_format]
  note T3 = T [THEN conjunct2, THEN conjunct2, THEN conjunct1, rule_format]
  note T4 = T [THEN conjunct2, THEN conjunct2, THEN conjunct2, THEN conjunct1, rule_format]
  note T5 = T [THEN conjunct2, THEN conjunct2, THEN conjunct2, THEN conjunct2, THEN conjunct1,
    rule_format]
  note T6 = T [THEN conjunct2, THEN conjunct2, THEN conjunct2, THEN conjunct2, THEN conjunct2,
    THEN conjunct1, rule_format]
  note T9 = T [THEN conjunct2, THEN conjunct2, THEN conjunct2, THEN conjunct2, THEN conjunct2,
    THEN conjunct2, THEN conjunct2, THEN conjunct2, THEN conjunct1, rule_format]
  note T10 = T [THEN conjunct2, THEN conjunct2, THEN conjunct2, THEN conjunct2, THEN conjunct2,
    THEN conjunct2, THEN conjunct2, THEN conjunct2, THEN conjunct2, rule_format]
  have n: "NewClientGitHubApps ?gh ?d (AppID demo_app) (PEMByte demo_app) [] = (Inr ''app'', ?w0)"
    by (simp add: recording_github_def)
  have h: "next_pages ?gh ''app'' (Suc (Suc 0)) 0 ?w0 = Some ([?i11, ?i12, ?i13, ?i14], 3, ?w1)"
    by (simp add: recording_github_def demo_answers_def)
  have l: "Apps_ListInstallations ?gh ''app'' \<lparr>Page = 3, PerPage = 10\<rparr> ?w1 =
    (Inr ([?i15], \<lparr>NextPage = 0, Rate = 98\<rparr>), ?w2)"
    by (simp add: recording_github_def demo_answers_def)
  have li: "listInstallations ?gh ''app'' ?w0 = Some (Inr ([?i11, ?i12, ?i13, ?i14, ?i15]), ?w2)"
    using T1 [of ?gh "''app''" "Suc (Suc 0)" ?w0 "[?i11, ?i12, ?i13, ?i14]" 3 ?w1 "[?i15]"
      "\<lparr>NextPage = 0, Rate = 98\<rparr>" ?w2] h l
    by simp
  have 0: "IsInstalledGitHubApp same_bytes ?S demo_app ?d ?s [] =
    Some (IsInstalledGitHubApp_range same_bytes ?S ?d ?s [?i11, ?i12, ?i13, ?i14, ?i15] ?w2)"
    using T3 [of ?gh ?d demo_app "[]" "''app''" ?w0 "[?i11, ?i12, ?i13, ?i14, ?i15]" ?w2 same_bytes ?s] n li
    by simp
  have 1: "IsInstalledGitHubApp_range same_bytes ?S ?d ?s [?i11, ?i12, ?i13, ?i14, ?i15] ?w2 =
    IsInstalledGitHubApp_range same_bytes ?S ?d ?s [?i12, ?i13, ?i14, ?i15] ?w2"
    by (rule T4) (simp add: inst_def)
  have 2: "IsInstalledGitHubApp_range same_bytes ?S ?d ?s [?i12, ?i13, ?i14, ?i15] ?w2 =
    IsInstalledGitHubApp_range same_bytes ?S ?d ?s [?i13, ?i14, ?i15] ?w2"
    by (rule T5 [of ?i12 "\<lparr>Login = Some ''other''\<rparr>" "''other''"]) (simp add: inst_def)
  have 3: "IsInstalledGitHubApp_range same_bytes ?S ?d ?s [?i13, ?i14, ?i15] ?w2 =
    IsInstalledGitHubApp_range same_bytes ?S ?d ?s [?i15] ?w3"
    by (simp add: inst_def foldEq_def isInstalledGitHubAppSelected_def package_seams_def
        listAppsInstalledRepo_def GenerateGitHubAppsToken_def recording_github_def
        demo_answers_def demo_app_def DetectScope_def)
  have 4: "IsInstalledGitHubApp_range same_bytes ?S ?d ?s [?i15] ?w3 = (Return (15, None), ?w3)"
    by (rule T6 [of ?i15 "\<lparr>Login = Some ''octo-org''\<rparr>" "''octo-org''"]) (simp add: inst_def)
  have 5: "\<exists>u'. IsInstalledGitHubApp_range same_bytes ?S ?d ''nobody'' [?i11, ?i12] [] =
      (Return (- 1, Some (Errorf ''%s/%s is not installed configured GitHub Apps''
                            [ArgS ?d, ArgS ''nobody''])), u')"
    by (rule T9) (auto simp add: inst_def)
  have 6: "listInstallations (recording_github endless_answers) ''app'' [] = None"
    by (rule T10) (intro allI endless_next_pages)
  from 0 1 2 3 4 5 6 show ?thesis by simp
qed

lemma DetectScope_Repository:
  "(DetectScope scope = Repository) =
   (\<exists>owner repo. scope = owner @ ''/'' @ repo \<and> CHR ''/'' \<notin> set owner \<and> CHR ''/'' \<notin> set repo)"
proof
  assume "DetectScope scope = Repository"
  from DetectScope_Repository_split [OF this]
  show "\<exists>owner repo. scope = owner @ ''/'' @ repo \<and> CHR ''/'' \<notin> set owner \<and> CHR ''/'' \<notin> set repo"
    by blast
next
  assume "\<exists>owner repo. scope = owner @ ''/'' @ repo \<and> CHR ''/'' \<notin> set owner \<and> CHR ''/'' \<notin> set repo"
  then obtain owner repo where s: "scope = owner @ ''/'' @ repo"
    and o: "CHR ''/'' \<notin> set owner" and r: "CHR ''/'' \<notin> set repo" by blast
  from o have fo: "filter (\<lambda>c. c = CHR ''/'') owner = []" by (auto simp: filter_empty_conv)
  from r have fr: "filter (\<lambda>c. c = CHR ''/'') repo = []" by (auto simp: filter_empty_conv)
  show "DetectScope scope = Repository" using s fo fr by (simp add: DetectScope_def)
qed

text \<open>
  Claim C2. When the search reaches an installation that is not suspended, whose login is
  a prefix of the scope and whose repository selection is \<open>selected\<close>, it runs the check
  of \<open>isInstalledGitHubAppSelected\<close> for the installation's id: it returns the id when
  the check returns nil, goes on with the next installation when the check returns an
  error, and panics when the check panics. Given the repository list, the check returns
  nil exactly when the total count is positive and either the scope is an Organization
  scope or it is a Repository scope and the full name of a listed repository equals the
  scope under \<open>EqualFold\<close>; a failure to get the list is an error of the check. The list
  is fetched by a client made from a freshly minted installation token. An Organization
  scope is one without \<open>/\<close>, a Repository scope one of the form \<open>owner/repo\<close>. The
  comparison is \<open>strings.EqualFold\<close> with the Unicode part \<open>U\<close> of the library, whatever
  that answers: the statement holds for names and scopes that are not ASCII as well.
\<close>

theorem IsInstalledGitHubApp_selected:
  "(SuspendedAt i = None \<and> Account i = Some a \<and> Login a = Some l \<and> prefix l inputScope \<and>
    RepositorySelection i = Some ''selected'' \<and> ID i = Some n \<longrightarrow>
      IsInstalledGitHubApp_range U S gheDomain inputScope (i # rest) w =
        (case isInstalledGitHubAppSelected U S gheDomain inputScope n w of
           (Panic p, w1) \<Rightarrow> (Panic p, w1)
         | (Return None, w1) \<Rightarrow> (Return (n, None), w1)
         | (Return (Some err), w1) \<Rightarrow>
             IsInstalledGitHubApp_range U S gheDomain inputScope rest w1)) \<and>
   (GHlistAppsInstalledRepo S gheDomain n inputScope w = (Return (Inr lr), w1) \<and>
    TotalCount lr = Some t \<and> (\<forall>repo\<in>set (Repositories lr). FullName repo \<noteq> None) \<longrightarrow>
      (\<exists>r. isInstalledGitHubAppSelected U S gheDomain inputScope n w = (Return r, w1) \<and>
         ((r = None) =
          (0 < t \<and>
           (DetectScope inputScope = Organization \<or>
            (DetectScope inputScope = Repository \<and>
             (\<exists>repo\<in>set (Repositories lr). \<exists>f. FullName repo = Some f \<and>
                EqualFold U f inputScope))))))) \<and>
   (GHlistAppsInstalledRepo S gheDomain n inputScope w = (Return (Inl err), w1) \<longrightarrow>
      isInstalledGitHubAppSelected U S gheDomain inputScope n w =
        (Return (Some (Errorf ''failed to get list of installed repositories: %w''
                         [ArgW err])), w1)) \<and>
   (NewClientGitHubApps gh gheDomain (AppID cfg) (PEMByte cfg) w = (Inr ca, v1) \<and>
    Apps_CreateInstallationToken gh ca n v1 = (Inr (tok, resp), v2) \<and> it_Token tok = Some tk \<and>
    NewClient gh tk gheDomain (storeRateLimit gh inputScope (Rate resp) v2) = (Inr client, v3) \<and>
    Apps_ListRepos gh client v3 = (res, v4) \<longrightarrow>
      GHlistAppsInstalledRepo (package_seams gh cfg) gheDomain n inputScope w =
        (Return (case res of
                   Inl err \<Rightarrow>
                     Inl (Errorf ''failed to get installed repositories: %w'' [ArgW err])
                 | Inr lr \<Rightarrow> Inr lr), v4)) \<and>
   (DetectScope inputScope = Organization) = (CHR ''/'' \<notin> set inputScope) \<and>
   (DetectScope inputScope = Repository) =
     (\<exists>owner repo. inputScope = owner @ ''/'' @ repo \<and> CHR ''/'' \<notin> set owner \<and>
        CHR ''/'' \<notin> set repo)"
proof (intro conjI impI)
  assume "SuspendedAt i = None \<and> Account i = Some a \<and> Login a = Some l \<and> prefix l inputScope \<and>
    RepositorySelection i = Some ''selected'' \<and> ID i = Some n"
  then have su: "SuspendedAt i = None" and a: "Account i = Some a" and l: "Login a = Some l"
    and p: "prefix l inputScope" and s: "RepositorySelection i = Some ''selected''"
    and n: "ID i = Some n" by simp_all
  show "IsInstalledGitHubApp_range U S gheDomain inputScope (i # rest) w =
        (case isInstalledGitHubAppSelected U S gheDomain inputScope n w of
           (Panic p, w1) \<Rightarrow> (Panic p, w1)
         | (Return None, w1) \<Rightarrow> (Return (n, None), w1)
         | (Return (Some err), w1) \<Rightarrow>
             IsInstalledGitHubApp_range U S gheDomain inputScope rest w1)"
    by (rule range_selected [OF su a l p s EqualFold_selected_all [of U] EqualFold_selected [of U] n])
next
  assume "GHlistAppsInstalledRepo S gheDomain n inputScope w = (Return (Inr lr), w1) \<and>
    TotalCount lr = Some t \<and> (\<forall>repo\<in>set (Repositories lr). FullName repo \<noteq> None)"
  then have g: "GHlistAppsInstalledRepo S gheDomain n inputScope w = (Return (Inr lr), w1)"
    and t: "TotalCount lr = Some t" and f: "\<forall>repo\<in>set (Repositories lr). FullName repo \<noteq> None"
    by simp_all
  show "\<exists>r. isInstalledGitHubAppSelected U S gheDomain inputScope n w = (Return r, w1) \<and>
         ((r = None) =
          (0 < t \<and>
           (DetectScope inputScope = Organization \<or>
            (DetectScope inputScope = Repository \<and>
             (\<exists>repo\<in>set (Repositories lr). \<exists>f. FullName repo = Some f \<and>
                EqualFold U f inputScope)))))"
    by (rule selected_check [OF g t f])
next
  assume "GHlistAppsInstalledRepo S gheDomain n inputScope w = (Return (Inl err), w1)"
  then show "isInstalledGitHubAppSelected U S gheDomain inputScope n w =
        (Return (Some (Errorf ''failed to get list of installed repositories: %w''
                         [ArgW err])), w1)"
    by (rule selected_fetch_error)
next
  assume "NewClientGitHubApps gh gheDomain (AppID cfg) (PEMByte cfg) w = (Inr ca, v1) \<and>
    Apps_CreateInstallationToken gh ca n v1 = (Inr (tok, resp), v2) \<and> it_Token tok = Some tk \<and>
    NewClient gh tk gheDomain (storeRateLimit gh inputScope (Rate resp) v2) = (Inr client, v3) \<and>
    Apps_ListRepos gh client v3 = (res, v4)"
  then have 1: "NewClientGitHubApps gh gheDomain (AppID cfg) (PEMByte cfg) w = (Inr ca, v1)"
    and 2: "Apps_CreateInstallationToken gh ca n v1 = (Inr (tok, resp), v2)"
    and 3: "it_Token tok = Some tk"
    and 4: "NewClient gh tk gheDomain (storeRateLimit gh inputScope (Rate resp) v2) =
            (Inr client, v3)"
    and 5: "Apps_ListRepos gh client v3 = (res, v4)" by simp_all
  show "GHlistAppsInstalledRepo (package_seams gh cfg) gheDomain n inputScope w =
        (Return (case res of
                   Inl err \<Rightarrow>
                     Inl (Errorf ''failed to get installed repositories: %w'' [ArgW err])
                 | Inr lr \<Rightarrow> Inr lr), v4)"
    using listAppsInstalledRepo_token_client [OF 1 2 3 4 5] by (simp add: package_seams_def)
next
  show "(DetectScope inputScope = Organization) = (CHR ''/'' \<notin> set inputScope)"
    by (rule DetectScope_Organization)
next
  show "(DetectScope inputScope = Repository) =
     (\<exists>owner repo. inputScope = owner @ ''/'' @ repo \<and> CHR ''/'' \<notin> set owner \<and>
        CHR ''/'' \<notin> set repo)"
    by (rule DetectScope_Repository)
qed

theorem IsInstalledGitHubApp_selected_witness:
  "IsInstalledGitHubApp_range same_bytes (package_seams (recording_github demo_answers) demo_app)
     ''github.example'' ''octo-org/widget'' [inst 14 ''octo-org'' ''selected'' None] [] =
     (Return (14, None),
      [CallNewClientGitHubApps ''github.example'', CallCreateInstallationToken 14,
       CallStoreRateLimit ''octo-org/widget'', CallNewClient ''T14'' ''github.example'',
       CallListRepos ''T14'']) \<and>
   IsInstalledGitHubApp_range same_bytes (package_seams (recording_github demo_answers) demo_app)
     ''github.example'' ''octo-org'' [inst 14 ''octo-org'' ''selected'' None] [] =
     (Return (14, None),
      [CallNewClientGitHubApps ''github.example'', CallCreateInstallationToken 14,
       CallStoreRateLimit ''octo-org'', CallNewClient ''T14'' ''github.example'',
       CallListRepos ''T14''])"
proof -
  let ?gh = "recording_github demo_answers"
  let ?S = "package_seams ?gh demo_app"
  let ?d = "''github.example''"
  let ?i14 = "inst 14 ''octo-org'' ''selected'' None"
  let ?lr = "\<lparr>TotalCount = Some 1, Repositories = [\<lparr>FullName = Some ''Octo-Org/Widget''\<rparr>]\<rparr>"
  let ?tok = "\<lparr>it_Token = Some ''T14'', it_ExpiresAt = Some 3600\<rparr>"
  let ?resp = "\<lparr>NextPage = 0, Rate = 97\<rparr>"
  let ?v1 = "[CallNewClientGitHubApps ?d]"
  let ?v2 = "?v1 @ [CallCreateInstallationToken 14]"
  note T = IsInstalledGitHubApp_selected
  note T1 = T [THEN conjunct1, rule_format]
  note T2 = T [THEN conjunct2, THEN conjunct1, rule_format]
  note T4 = T [THEN conjunct2, THEN conjunct2, THEN conjunct2, THEN conjunct1, rule_format]
  have run: "IsInstalledGitHubApp_range same_bytes ?S ?d s [?i14] [] =
     (Return (14, None),
      [CallNewClientGitHubApps ?d, CallCreateInstallationToken 14,
       CallStoreRateLimit s, CallNewClient ''T14'' ?d, CallListRepos ''T14''])"
    if ok: "DetectScope s = Organization \<or>
            (DetectScope s = Repository \<and> EqualFold same_bytes ''Octo-Org/Widget'' s)"
      and pre: "prefix ''octo-org'' s" for s
  proof -
    let ?v3 = "?v2 @ [CallStoreRateLimit s, CallNewClient ''T14'' ?d]"
    let ?v4 = "?v3 @ [CallListRepos ''T14'']"
    have g: "GHlistAppsInstalledRepo ?S ?d 14 s [] = (Return (Inr ?lr), ?v4)"
      using T4 [of ?gh ?d demo_app "[]" "''app''" ?v1 14 ?tok ?resp ?v2 "''T14''" s "''T14''" ?v3
          "Inr ?lr" ?v4]
      by (simp add: recording_github_def demo_answers_def)
    have "\<exists>r. isInstalledGitHubAppSelected same_bytes ?S ?d s 14 [] = (Return r, ?v4) \<and>
         ((r = None) =
          (0 < (1::int) \<and>
           (DetectScope s = Organization \<or>
            (DetectScope s = Repository \<and>
             (\<exists>repo\<in>set (Repositories ?lr). \<exists>f. FullName repo = Some f \<and>
                EqualFold same_bytes f s)))))"
      by (rule T2 [OF conjI [OF g]]) simp
    with ok have c: "isInstalledGitHubAppSelected same_bytes ?S ?d s 14 [] = (Return None, ?v4)"
      by auto
    have "IsInstalledGitHubApp_range same_bytes ?S ?d s [?i14] [] =
        (case isInstalledGitHubAppSelected same_bytes ?S ?d s 14 [] of
           (Panic p, w1) \<Rightarrow> (Panic p, w1)
         | (Return None, w1) \<Rightarrow> (Return (14, None), w1)
         | (Return (Some err), w1) \<Rightarrow> IsInstalledGitHubApp_range same_bytes ?S ?d s [] w1)"
      by (rule T1 [of ?i14 "\<lparr>Login = Some ''octo-org''\<rparr>" "''octo-org''"])
         (simp add: inst_def pre)
    with c show ?thesis by simp
  qed
  have 1: "DetectScope ''octo-org/widget'' = Repository \<and>
           EqualFold same_bytes ''Octo-Org/Widget'' ''octo-org/widget''"
    by (simp add: DetectScope_def foldEq_def)
  have 2: "DetectScope ''octo-org'' = Organization" by (simp add: DetectScope_def)
  from run [of "''octo-org/widget''"] run [of "''octo-org''"] 1 2 show ?thesis by simp
qed

lemma listAppsInstalledRepo_list_error:
  "NewClientGitHubApps gh gheDomain (AppID cfg) (PEMByte cfg) w = (Inr ca, w1) \<Longrightarrow>
   Apps_CreateInstallationToken gh ca n w1 = (Inr (tok, resp), w2) \<Longrightarrow>
   it_Token tok = Some t \<Longrightarrow>
   NewClient gh t gheDomain (storeRateLimit gh inputScope (Rate resp) w2) = (Inr client, w3) \<Longrightarrow>
   Apps_ListRepos gh client w3 = (Inl err, w4) \<Longrightarrow>
   listAppsInstalledRepo gh cfg gheDomain n inputScope w =
     (Return (Inl (Errorf ''failed to get installed repositories: %w'' [ArgW err])), w4)"
  by (simp add: listAppsInstalledRepo_def GenerateGitHubAppsToken_def)

text \<open>
  Claim C9. An error of the check of a \<open>selected\<close> installation is dropped: whatever the
  error, the search goes on with the next installation. With the functions of the package
  a failure to mint the installation token and a failure to list the repositories are
  such errors. An error returned by the search is always the not-installed error with id
  \<open>-1\<close> and carries no cause; and when every installation is suspended, has a login
  that is not a prefix of the scope, a selection that is neither \<open>all\<close> nor
  \<open>selected\<close>, or is \<open>selected\<close> with a check that returns an error, the search
  returns what it returns for no installation at all.
\<close>

theorem IsInstalledGitHubApp_swallows_errors:
  "(SuspendedAt i = None \<and> Account i = Some a \<and> Login a = Some l \<and> prefix l inputScope \<and>
    RepositorySelection i = Some ''selected'' \<and> ID i = Some n \<and>
    isInstalledGitHubAppSelected U S gheDomain inputScope n w = (Return (Some err), w1) \<longrightarrow>
      IsInstalledGitHubApp_range U S gheDomain inputScope (i # rest) w =
      IsInstalledGitHubApp_range U S gheDomain inputScope rest w1) \<and>
   (NewClientGitHubApps gh gheDomain (AppID cfg) (PEMByte cfg) w = (Inr ca, v1) \<and>
    Apps_CreateInstallationToken gh ca n v1 = (Inl err, v2) \<longrightarrow>
      isInstalledGitHubAppSelected U (package_seams gh cfg) gheDomain inputScope n w =
        (Return (Some (Errorf ''failed to get list of installed repositories: %w''
           [ArgW (Errorf ''failed to generate GitHub Apps Token: %w''
              [ArgW (Errorf ''failed to generate token from API: %w'' [ArgW err])])])), v2)) \<and>
   (NewClientGitHubApps gh gheDomain (AppID cfg) (PEMByte cfg) w = (Inr ca, v1) \<and>
    Apps_CreateInstallationToken gh ca n v1 = (Inr (tok, resp), v2) \<and> it_Token tok = Some tk \<and>
    NewClient gh tk gheDomain (storeRateLimit gh inputScope (Rate resp) v2) = (Inr client, v3) \<and>
    Apps_ListRepos gh client v3 = (Inl err, v4) \<longrightarrow>
      isInstalledGitHubAppSelected U (package_seams gh cfg) gheDomain inputScope n w =
        (Return (Some (Errorf ''failed to get list of installed repositories: %w''
           [ArgW (Errorf ''failed to get installed repositories: %w'' [ArgW err])])), v4)) \<and>
   (IsInstalledGitHubApp_range U S gheDomain inputScope xs u = (Return (m, Some e), u') \<longrightarrow>
      m = - 1 \<and> e = Errorf ''%s/%s is not installed configured GitHub Apps''
                       [ArgS gheDomain, ArgS inputScope]) \<and>
   ((\<forall>x\<in>set xs. SuspendedAt x \<noteq> None \<or>
      (\<exists>b login. Account x = Some b \<and> Login b = Some login \<and>
         (\<not> prefix login inputScope \<or>
          (\<exists>sel. RepositorySelection x = Some sel \<and> \<not> EqualFold U sel ''all'' \<and>
             (\<not> EqualFold U sel ''selected'' \<or>
              (\<exists>iid. ID x = Some iid \<and>
                 (\<forall>v. \<exists>err v'. isInstalledGitHubAppSelected U S gheDomain inputScope iid v =
                                 (Return (Some err), v')))))))) \<longrightarrow>
      fst (IsInstalledGitHubApp_range U S gheDomain inputScope xs u) =
      fst (IsInstalledGitHubApp_range U S gheDomain inputScope [] u))"
proof (intro conjI impI)
  assume "SuspendedAt i = None \<and> Account i = Some a \<and> Login a = Some l \<and> prefix l inputScope \<and>
    RepositorySelection i = Some ''selected'' \<and> ID i = Some n \<and>
    isInstalledGitHubAppSelected U S gheDomain inputScope n w = (Return (Some err), w1)"
  then have su: "SuspendedAt i = None" and a: "Account i = Some a" and l: "Login a = Some l"
    and p: "prefix l inputScope" and s: "RepositorySelection i = Some ''selected''"
    and n: "ID i = Some n"
    and c: "isInstalledGitHubAppSelected U S gheDomain inputScope n w = (Return (Some err), w1)"
    by simp_all
  show "IsInstalledGitHubApp_range U S gheDomain inputScope (i # rest) w =
      IsInstalledGitHubApp_range U S gheDomain inputScope rest w1"
    using range_selected [OF su a l p s EqualFold_selected_all [of U] EqualFold_selected [of U] n,
        of S gheDomain rest w] c
    by simp
next
  assume "NewClientGitHubApps gh gheDomain (AppID cfg) (PEMByte cfg) w = (Inr ca, v1) \<and>
    Apps_CreateInstallationToken gh ca n v1 = (Inl err, v2)"
  then have 1: "NewClientGitHubApps gh gheDomain (AppID cfg) (PEMByte cfg) w = (Inr ca, v1)"
    and 2: "Apps_CreateInstallationToken gh ca n v1 = (Inl err, v2)" by simp_all
  have "GHlistAppsInstalledRepo (package_seams gh cfg) gheDomain n inputScope w =
     (Return (Inl (Errorf ''failed to generate GitHub Apps Token: %w''
                     [ArgW (Errorf ''failed to generate token from API: %w'' [ArgW err])])), v2)"
    using listAppsInstalledRepo_mint_error [OF 1 2] by (simp add: package_seams_def)
  then show "isInstalledGitHubAppSelected U (package_seams gh cfg) gheDomain inputScope n w =
        (Return (Some (Errorf ''failed to get list of installed repositories: %w''
           [ArgW (Errorf ''failed to generate GitHub Apps Token: %w''
              [ArgW (Errorf ''failed to generate token from API: %w'' [ArgW err])])])), v2)"
    by (rule selected_fetch_error)
next
  assume "NewClientGitHubApps gh gheDomain (AppID cfg) (PEMByte cfg) w = (Inr ca, v1) \<and>
    Apps_CreateInstallationToken gh ca n v1 = (Inr (tok, resp), v2) \<and> it_Token tok = Some tk \<and>
    NewClient gh tk gheDomain (storeRateLimit gh inputScope (Rate resp) v2) = (Inr client, v3) \<and>
    Apps_ListRepos gh client v3 = (Inl err, v4)"
  then have 1: "NewClientGitHubApps gh gheDomain (AppID cfg) (PEMByte cfg) w = (Inr ca, v1)"
    and 2: "Apps_CreateInstallationToken gh ca n v1 = (Inr (tok, resp), v2)"
    and 3: "it_Token tok = Some tk"
    and 4: "NewClient gh tk gheDomain (storeRateLimit gh inputScope (Rate resp) v2) =
            (Inr client, v3)"
    and 5: "Apps_ListRepos gh client v3 = (Inl err, v4)" by simp_all
  have "GHlistAppsInstalledRepo (package_seams gh cfg) gheDomain n inputScope w =
     (Return (Inl (Errorf ''failed to get installed repositories: %w'' [ArgW err])), v4)"
    using listAppsInstalledRepo_list_error [OF 1 2 3 4 5] by (simp add: package_seams_def)
  then show "isInstalledGitHubAppSelected U (package_seams gh cfg) gheDomain inputScope n w =
        (Return (Some (Errorf ''failed to get list of installed repositories: %w''
           [ArgW (Errorf ''failed to get installed repositories: %w'' [ArgW err])])), v4)"
    by (rule selected_fetch_error)
next
  assume r: "IsInstalledGitHubApp_range U S gheDomain inputScope xs u = (Return (m, Some e), u')"
  from range_error_generic [OF r] show "m = - 1" by simp
  from range_error_generic [OF r] show "e = Errorf ''%s/%s is not installed configured GitHub Apps''
                       [ArgS gheDomain, ArgS inputScope]" by simp
next
  assume "\<forall>x\<in>set xs. SuspendedAt x \<noteq> None \<or>
      (\<exists>b login. Account x = Some b \<and> Login b = Some login \<and>
         (\<not> prefix login inputScope \<or>
          (\<exists>sel. RepositorySelection x = Some sel \<and> \<not> EqualFold U sel ''all'' \<and>
             (\<not> EqualFold U sel ''selected'' \<or>
              (\<exists>iid. ID x = Some iid \<and>
                 (\<forall>v. \<exists>err v'. isInstalledGitHubAppSelected U S gheDomain inputScope iid v =
                                 (Return (Some err), v')))))))"
  from range_none [OF this, of u]
  show "fst (IsInstalledGitHubApp_range U S gheDomain inputScope xs u) =
      fst (IsInstalledGitHubApp_range U S gheDomain inputScope [] u)"
    by auto
qed

theorem IsInstalledGitHubApp_swallows_errors_witness:
  "IsInstalledGitHubApp_range same_bytes (package_seams (recording_github demo_answers) demo_app)
     ''github.example'' ''octo-org/widget'' [inst 13 ''octo-org'' ''selected'' None] [] =
     (Return (- 1, Some (Errorf ''%s/%s is not installed configured GitHub Apps''
                           [ArgS ''github.example'', ArgS ''octo-org/widget''])),
      [CallNewClientGitHubApps ''github.example'', CallCreateInstallationToken 13]) \<and>
   fst (IsInstalledGitHubApp_range same_bytes (package_seams (recording_github demo_answers) demo_app)
     ''github.example'' ''octo-org/widget'' [inst 13 ''octo-org'' ''selected'' None] []) =
   fst (IsInstalledGitHubApp_range same_bytes (package_seams (recording_github demo_answers) demo_app)
     ''github.example'' ''octo-org/widget'' [] [])"
proof -
  let ?gh = "recording_github demo_answers"
  let ?S = "package_seams ?gh demo_app"
  let ?d = "''github.example''"
  let ?s = "''octo-org/widget''"
  let ?i13 = "inst 13 ''octo-org'' ''selected'' None"
  let ?v1 = "[CallNewClientGitHubApps ?d]"
  let ?v2 = "?v1 @ [CallCreateInstallationToken 13]"
  let ?e = "Errorf ''failed to get list of installed repositories: %w''
           [ArgW (Errorf ''failed to generate GitHub Apps Token: %w''
              [ArgW (Errorf ''failed to generate token from API: %w''
                 [ArgW (Errorf ''service unavailable'' [])])])]"
  note T = IsInstalledGitHubApp_swallows_errors
  note T1 = T [THEN conjunct1, rule_format]
  note T2 = T [THEN conjunct2, THEN conjunct1, rule_format]
  note T5 = T [THEN conjunct2, THEN conjunct2, THEN conjunct2, THEN conjunct2, rule_format]
  have c: "isInstalledGitHubAppSelected same_bytes ?S ?d ?s 13 w =
      (Return (Some ?e), w @ [CallNewClientGitHubApps ?d, CallCreateInstallationToken 13])" for w
    using T2 [of ?gh ?d demo_app w "''app''" "w @ [CallNewClientGitHubApps ?d]" 13
        "Errorf ''service unavailable'' []"
        "w @ [CallNewClientGitHubApps ?d, CallCreateInstallationToken 13]" same_bytes ?s]
    by (simp add: recording_github_def demo_answers_def)
  have 1: "IsInstalledGitHubApp_range same_bytes ?S ?d ?s [?i13] [] =
    IsInstalledGitHubApp_range same_bytes ?S ?d ?s [] ?v2"
    using T1 [of ?i13 "\<lparr>Login = Some ''octo-org''\<rparr>" "''octo-org''" ?s 13 same_bytes ?S ?d "[]" ?e ?v2 "[]"]
      c [of "[]"]
    by (simp add: inst_def)
  have 2: "IsInstalledGitHubApp_range same_bytes ?S ?d ?s [?i13] [] =
     (Return (- 1, Some (Errorf ''%s/%s is not installed configured GitHub Apps''
                           [ArgS ?d, ArgS ?s])), ?v2)"
    using 1 by simp
  have 4: "fst (IsInstalledGitHubApp_range same_bytes ?S ?d ?s [?i13] []) =
    fst (IsInstalledGitHubApp_range same_bytes ?S ?d ?s [] [])"
  proof -
    have ex: "\<forall>v. \<exists>err v'. isInstalledGitHubAppSelected same_bytes ?S ?d ?s 13 v = (Return (Some err), v')"
      by (intro allI exI) (rule c)
    show ?thesis
      by (rule T5) (simp add: inst_def foldEq_def ex)
  qed
  from 2 4 show ?thesis by simp
qed

section \<open>Properties of the configuration\<close>

lemma Atoi_8080: "Atoi ''8080'' = Inr 8080"
  by (simp add: Atoi_def ParseInt_named_def ParseUint_def digit_def)

lemma Getenv_unset: "env k = None \<Longrightarrow> Getenv env k = []"
  by (simp add: Getenv_def)

lemma and_then_Return: "(and_then m f = Return y) = (\<exists>x. m = Return x \<and> f x = Return y)"
  by (cases m) (simp_all add: and_then_def)

lemma load_Port_Return:
  "load_Port env c = Return c' \<Longrightarrow>
   \<exists>pp. c' = c\<lparr>Port := pp\<rparr> \<and> (Getenv env EnvPort = [] \<longrightarrow> pp = 8080)"
  by (auto simp: load_Port_def Atoi_8080 split: sum.splits)

lemma load_ModeWebhookType_Return:
  "load_ModeWebhookType L env c = Return c' \<Longrightarrow>
   \<exists>m. c' = c\<lparr>ModeWebhookType := m\<rparr> \<and>
       (Getenv env EnvModeWebhookType = [] \<longrightarrow> m = ModeWebhookTypeWorkflowJob)"
  by (auto simp: load_ModeWebhookType_def Let_def split: if_splits)

lemma load_MaxConnectionsToBackend_Return:
  "load_MaxConnectionsToBackend env c = Return c' \<Longrightarrow>
   \<exists>n. c' = c\<lparr>MaxConnectionsToBackend := n\<rparr> \<and>
       (Getenv env EnvMaxConnectionsToBackend = [] \<longrightarrow> n = 50)"
  by (auto simp: load_MaxConnectionsToBackend_def Let_def split: if_splits sum.splits)

lemma load_MaxConcurrencyDeleting_Return:
  "load_MaxConcurrencyDeleting env c = Return c' \<Longrightarrow>
   \<exists>n. c' = c\<lparr>MaxConcurrencyDeleting := n\<rparr> \<and>
       (Getenv env EnvMaxConcurrencyDeleting = [] \<longrightarrow> n = 1)"
  by (auto simp: load_MaxConcurrencyDeleting_def Let_def split: if_splits sum.splits)

lemma load_GitHubURL_Return:
  "load_GitHubURL L env c = Return c' \<Longrightarrow>
   \<exists>u. c' = c\<lparr>GitHubURL := u\<rparr> \<and> (Getenv env EnvGitHubURL = [] \<longrightarrow> u = ''https://github.com'')"
  by (auto simp: load_GitHubURL_def Let_def split: if_splits sum.splits)

lemma load_RunnerVersion_Return:
  "load_RunnerVersion L env c = Return c' \<Longrightarrow>
   \<exists>v. c' = c\<lparr>RunnerVersion := v\<rparr> \<and>
     (if Getenv env EnvRunnerVersion = [] \<or> Getenv env EnvRunnerVersion = ''latest''
      then v = ''latest''
      else v = Getenv env EnvRunnerVersion \<and>
           version_NewVersion L (Getenv env EnvRunnerVersion) = None)"
  by (auto simp: load_RunnerVersion_def split: if_splits option.splits)

lemma LoadWithDefault_Return:
  assumes "LoadWithDefault L env = Return c"
  shows "\<exists>pp m pb cd u v.
     c = \<lparr>Port = pp,
          RunnerUser = (if Getenv env EnvRunnerUser \<noteq> [] then Getenv env EnvRunnerUser
                        else ''runner''),
          Debug = (Getenv env EnvDebug = ''true''),
          Strict = (Getenv env EnvStrict \<noteq> ''false''),
          ModeWebhookType = m,
          ProvideDockerHubMetrics = (Getenv env EnvProvideDockerHubMetrics = ''true''),
          DockerHubCredential =
            (if Getenv env EnvProvideDockerHubMetrics = ''true'' \<and>
                Getenv env EnvDockerHubUsername \<noteq> [] \<and> Getenv env EnvDockerHubPassword \<noteq> []
             then \<lparr>Username = Getenv env EnvDockerHubUsername,
                   Password = Getenv env EnvDockerHubPassword\<rparr>
             else \<lparr>Username = [], Password = []\<rparr>),
          MaxConnectionsToBackend = pb,
          MaxConcurrencyDeleting = cd,
          GitHubURL = u,
          RunnerVersion = v,
          ShoesPluginOutputPath =
            (if Getenv env EnvShoesPluginOutputPath \<noteq> [] then Getenv env EnvShoesPluginOutputPath
             else ''.''),
          EnableRescueWorkflow = (Getenv env EnvEnableRescueWorkflow = ''true'')\<rparr> \<and>
     (Getenv env EnvPort = [] \<longrightarrow> pp = 8080) \<and>
     (Getenv env EnvModeWebhookType = [] \<longrightarrow> m = ModeWebhookTypeWorkflowJob) \<and>
     (Getenv env EnvMaxConnectionsToBackend = [] \<longrightarrow> pb = 50) \<and>
     (Getenv env EnvMaxConcurrencyDeleting = [] \<longrightarrow> cd = 1) \<and>
     (Getenv env EnvGitHubURL = [] \<longrightarrow> u = ''https://github.com'') \<and>
     (if Getenv env EnvRunnerVersion = [] \<or> Getenv env EnvRunnerVersion = ''latest''
      then v = ''latest''
      else v = Getenv env EnvRunnerVersion \<and>
           version_NewVersion L (Getenv env EnvRunnerVersion) = None)"
proof -
  from assms obtain c1 c2 c3 c4 c5 c6 where
    1: "load_Port env zero_Conf = Return c1" and
    2: "load_ModeWebhookType L env (load_Strict env (load_Debug env (load_RunnerUser env c1))) =
        Return c2" and
    3: "load_MaxConnectionsToBackend env (load_DockerHub env c2) = Return c3" and
    4: "load_MaxConcurrencyDeleting env c3 = Return c4" and
    5: "load_GitHubURL L env c4 = Return c5" and
    6: "load_RunnerVersion L env c5 = Return c6" and
    7: "c = load_EnableRescueWorkflow env (load_ShoesPluginOutputPath env c6)"
    unfolding LoadWithDefault_def and_then_Return by auto
  from load_Port_Return [OF 1] obtain pp where
    c1: "c1 = zero_Conf\<lparr>Port := pp\<rparr>" and pp: "Getenv env EnvPort = [] \<longrightarrow> pp = 8080" by blast
  from load_ModeWebhookType_Return [OF 2] obtain m where
    c2: "c2 = (load_Strict env (load_Debug env (load_RunnerUser env c1)))\<lparr>ModeWebhookType := m\<rparr>"
    and m: "Getenv env EnvModeWebhookType = [] \<longrightarrow> m = ModeWebhookTypeWorkflowJob" by blast
  from load_MaxConnectionsToBackend_Return [OF 3] obtain pb where
    c3: "c3 = (load_DockerHub env c2)\<lparr>MaxConnectionsToBackend := pb\<rparr>"
    and pb: "Getenv env EnvMaxConnectionsToBackend = [] \<longrightarrow> pb = 50" by blast
  from load_MaxConcurrencyDeleting_Return [OF 4] obtain cd where
    c4: "c4 = c3\<lparr>MaxConcurrencyDeleting := cd\<rparr>"
    and cd: "Getenv env EnvMaxConcurrencyDeleting = [] \<longrightarrow> cd = 1" by blast
  from load_GitHubURL_Return [OF 5] obtain u where
    c5: "c5 = c4\<lparr>GitHubURL := u\<rparr>"
    and u: "Getenv env EnvGitHubURL = [] \<longrightarrow> u = ''https://github.com''" by blast
  from load_RunnerVersion_Return [OF 6] obtain v where
    c6: "c6 = c5\<lparr>RunnerVersion := v\<rparr>"
    and v: "if Getenv env EnvRunnerVersion = [] \<or> Getenv env EnvRunnerVersion = ''latest''
      then v = ''latest''
      else v = Getenv env EnvRunnerVersion \<and>
           version_NewVersion L (Getenv env EnvRunnerVersion) = None" by blast
  have "c = \<lparr>Port = pp,
          RunnerUser = (if Getenv env EnvRunnerUser \<noteq> [] then Getenv env EnvRunnerUser
                        else ''runner''),
          Debug = (Getenv env EnvDebug = ''true''),
          Strict = (Getenv env EnvStrict \<noteq> ''false''),
          ModeWebhookType = m,
          ProvideDockerHubMetrics = (Getenv env EnvProvideDockerHubMetrics = ''true''),
          DockerHubCredential =
            (if Getenv env EnvProvideDockerHubMetrics = ''true'' \<and>
                Getenv env EnvDockerHubUsername \<noteq> [] \<and> Getenv env EnvDockerHubPassword \<noteq> []
             then \<lparr>Username = Getenv env EnvDockerHubUsername,
                   Password = Getenv env EnvDockerHubPassword\<rparr>
             else \<lparr>Username = [], Password = []\<rparr>),
          MaxConnectionsToBackend = pb,
          MaxConcurrencyDeleting = cd,
          GitHubURL = u,
          RunnerVersion = v,
          ShoesPluginOutputPath =
            (if Getenv env EnvShoesPluginOutputPath \<noteq> [] then Getenv env EnvShoesPluginOutputPath
             else ''.''),
          EnableRescueWorkflow = (Getenv env EnvEnableRescueWorkflow = ''true'')\<rparr>"
    unfolding 7 c6 c5 c4 c3 c2 c1
    by (simp add: zero_Conf_def load_EnableRescueWorkflow_def load_ShoesPluginOutputPath_def
        load_DockerHub_def load_Strict_def load_Debug_def load_RunnerUser_def Let_def)
  with pp m pb cd u v show ?thesis by blast
qed

lemma LoadWithDefault_empty: "LoadWithDefault L Map.empty = Return default_Conf"
  by (simp add: LoadWithDefault_def and_then_def load_Port_def Getenv_def Atoi_8080
      load_RunnerUser_def load_Debug_def load_Strict_def load_ModeWebhookType_def
      load_DockerHub_def load_MaxConnectionsToBackend_def load_MaxConcurrencyDeleting_def
      load_GitHubURL_def load_RunnerVersion_def load_ShoesPluginOutputPath_def
      load_EnableRescueWorkflow_def zero_Conf_def default_Conf_def)

text \<open>
  Claim C5. With no variable set \<open>LoadWithDefault\<close> returns the configuration of the
  defaults: port 8080, runner user \<open>runner\<close>, debug off, strict on, webhook mode
  \<open>workflow_job\<close>, Docker Hub metrics off, 50 connections to the backend, deleting
  concurrency 1, GitHub URL \<open>https://github.com\<close>, runner version \<open>latest\<close>, plugin
  output path \<open>.\<close> and the rescue workflow off. And whenever it returns, each of these
  settings has its default if its variable is unset.
\<close>

theorem LoadWithDefault_defaults:
  "LoadWithDefault L Map.empty =
     Return \<lparr>Port = 8080, RunnerUser = ''runner'', Debug = False, Strict = True,
             ModeWebhookType = ModeWebhookTypeWorkflowJob, ProvideDockerHubMetrics = False,
             DockerHubCredential = \<lparr>Username = [], Password = []\<rparr>,
             MaxConnectionsToBackend = 50, MaxConcurrencyDeleting = 1,
             GitHubURL = ''https://github.com'', RunnerVersion = ''latest'',
             ShoesPluginOutputPath = ''.'', EnableRescueWorkflow = False\<rparr> \<and>
   (LoadWithDefault L env = Return c \<longrightarrow>
      (env EnvPort = None \<longrightarrow> Port c = 8080) \<and>
      (env EnvRunnerUser = None \<longrightarrow> RunnerUser c = ''runner'') \<and>
      (env EnvDebug = None \<longrightarrow> Debug c = False) \<and>
      (env EnvStrict = None \<longrightarrow> Strict c = True) \<and>
      (env EnvModeWebhookType = None \<longrightarrow> ModeWebhookType c = ModeWebhookTypeWorkflowJob) \<and>
      (env EnvProvideDockerHubMetrics = None \<longrightarrow> ProvideDockerHubMetrics c = False) \<and>
      (env EnvMaxConnectionsToBackend = None \<longrightarrow> MaxConnectionsToBackend c = 50) \<and>
      (env EnvMaxConcurrencyDeleting = None \<longrightarrow> MaxConcurrencyDeleting c = 1) \<and>
      (env EnvGitHubURL = None \<longrightarrow> GitHubURL c = ''https://github.com'') \<and>
      (env EnvRunnerVersion = None \<longrightarrow> RunnerVersion c = ''latest'') \<and>
      (env EnvShoesPluginOutputPath = None \<longrightarrow> ShoesPluginOutputPath c = ''.'') \<and>
      (env EnvEnableRescueWorkflow = None \<longrightarrow> EnableRescueWorkflow c = False))"
proof (intro conjI impI)
  show "LoadWithDefault L Map.empty =
     Return \<lparr>Port = 8080, RunnerUser = ''runner'', Debug = False, Strict = True,
             ModeWebhookType = ModeWebhookTypeWorkflowJob, ProvideDockerHubMetrics = False,
             DockerHubCredential = \<lparr>Username = [], Password = []\<rparr>,
             MaxConnectionsToBackend = 50, MaxConcurrencyDeleting = 1,
             GitHubURL = ''https://github.com'', RunnerVersion = ''latest'',
             ShoesPluginOutputPath = ''.'', EnableRescueWorkflow = False\<rparr>"
    using LoadWithDefault_empty [of L] by (simp add: default_Conf_def)
next
  assume r: "LoadWithDefault L env = Return c"
  from LoadWithDefault_Return [OF r] obtain pp m pb cd u v where
    c: "c = \<lparr>Port = pp,
          RunnerUser = (if Getenv env EnvRunnerUser \<noteq> [] then Getenv env EnvRunnerUser
                        else ''runner''),
          Debug = (Getenv env EnvDebug = ''true''),
          Strict = (Getenv env EnvStrict \<noteq> ''false''),
          ModeWebhookType = m,
          ProvideDockerHubMetrics = (Getenv env EnvProvideDockerHubMetrics = ''true''),
          DockerHubCredential =
            (if Getenv env EnvProvideDockerHubMetrics = ''true'' \<and>
                Getenv env EnvDockerHubUsername \<noteq> [] \<and> Getenv env EnvDockerHubPassword \<noteq> []
             then \<lparr>Username = Getenv env EnvDockerHubUsername,
                   Password = Getenv env EnvDockerHubPassword\<rparr>
             else \<lparr>Username = [], Password = []\<rparr>),
          MaxConnectionsToBackend = pb,
          MaxConcurrencyDeleting = cd,
          GitHubURL = u,
          RunnerVersion = v,
          ShoesPluginOutputPath =
            (if Getenv env EnvShoesPluginOutputPath \<noteq> [] then Getenv env EnvShoesPluginOutputPath
             else ''.''),
          EnableRescueWorkflow = (Getenv env EnvEnableRescueWorkflow = ''true'')\<rparr>"
    and pp: "Getenv env EnvPort = [] \<longrightarrow> pp = 8080"
    and m: "Getenv env EnvModeWebhookType = [] \<longrightarrow> m = ModeWebhookTypeWorkflowJob"
    and pb: "Getenv env EnvMaxConnectionsToBackend = [] \<longrightarrow> pb = 50"
    and cd: "Getenv env EnvMaxConcurrencyDeleting = [] \<longrightarrow> cd = 1"
    and u: "Getenv env EnvGitHubURL = [] \<longrightarrow> u = ''https://github.com''"
    and v: "if Getenv env EnvRunnerVersion = [] \<or> Getenv env EnvRunnerVersion = ''latest''
      then v = ''latest''
      else v = Getenv env EnvRunnerVersion \<and>
           version_NewVersion L (Getenv env EnvRunnerVersion) = None"
    by blast
  { assume "env EnvPort = None"
    then have "Getenv env EnvPort = []" by (rule Getenv_unset)
    with pp show "Port c = 8080" by (simp add: c) }
  { assume "env EnvRunnerUser = None"
    then have "Getenv env EnvRunnerUser = []" by (rule Getenv_unset)
    then show "RunnerUser c = ''runner''" by (simp add: c) }
  { assume "env EnvDebug = None"
    then have "Getenv env EnvDebug = []" by (rule Getenv_unset)
    then show "Debug c = False" by (simp add: c) }
  { assume "env EnvStrict = None"
    then have "Getenv env EnvStrict = []" by (rule Getenv_unset)
    then show "Strict c = True" by (simp add: c) }
  { assume "env EnvModeWebhookType = None"
    then have "Getenv env EnvModeWebhookType = []" by (rule Getenv_unset)
    with m show "ModeWebhookType c = ModeWebhookTypeWorkflowJob" by (simp add: c) }
  { assume "env EnvProvideDockerHubMetrics = None"
    then have "Getenv env EnvProvideDockerHubMetrics = []" by (rule Getenv_unset)
    then show "ProvideDockerHubMetrics c = False" by (simp add: c) }
  { assume "env EnvMaxConnectionsToBackend = None"
    then have "Getenv env EnvMaxConnectionsToBackend = []" by (rule Getenv_unset)
    with pb show "MaxConnectionsToBackend c = 50" by (simp add: c) }
  { assume "env EnvMaxConcurrencyDeleting = None"
    then have "Getenv env EnvMaxConcurrencyDeleting = []" by (rule Getenv_unset)
    with cd show "MaxConcurrencyDeleting c = 1" by (simp add: c) }
  { assume "env EnvGitHubURL = None"
    then have "Getenv env EnvGitHubURL = []" by (rule Getenv_unset)
    with u show "GitHubURL c = ''https://github.com''" by (simp add: c) }
  { assume "env EnvRunnerVersion = None"
    then have "Getenv env EnvRunnerVersion = []" by (rule Getenv_unset)
    with v show "RunnerVersion c = ''latest''" by (simp add: c) }
  { assume "env EnvShoesPluginOutputPath = None"
    then have "Getenv env EnvShoesPluginOutputPath = []" by (rule Getenv_unset)
    then show "ShoesPluginOutputPath c = ''.''" by (simp add: c) }
  { assume "env EnvEnableRescueWorkflow = None"
    then have "Getenv env EnvEnableRescueWorkflow = []" by (rule Getenv_unset)
    then show "EnableRescueWorkflow c = False" by (simp add: c) }
qed

theorem LoadWithDefault_defaults_witness:
  "LoadWithDefault demo_library Map.empty = Return default_Conf \<and>
   LoadWithDefault demo_library [EnvPort \<mapsto> ''9000'', EnvDebug \<mapsto> ''true''] =
     Return (default_Conf\<lparr>Port := 9000, Debug := True\<rparr>) \<and>
   RunnerUser (default_Conf\<lparr>Port := 9000, Debug := True\<rparr>) = ''runner'' \<and>
   MaxConnectionsToBackend (default_Conf\<lparr>Port := 9000, Debug := True\<rparr>) = 50"
proof -
  let ?env = "[EnvPort \<mapsto> ''9000'', EnvDebug \<mapsto> ''true'']"
  let ?c = "default_Conf\<lparr>Port := 9000, Debug := True\<rparr>"
  note T = LoadWithDefault_defaults
  have 1: "LoadWithDefault demo_library Map.empty = Return default_Conf"
    using T [THEN conjunct1, of demo_library] by (simp add: default_Conf_def)
  have a: "Atoi ''9000'' = Inr 9000"
    by (simp add: Atoi_def ParseInt_named_def ParseUint_def digit_def)
  have 2: "LoadWithDefault demo_library ?env = Return ?c"
    by (simp add: LoadWithDefault_def and_then_def load_Port_def Getenv_def a
      load_RunnerUser_def load_Debug_def load_Strict_def load_ModeWebhookType_def
      load_DockerHub_def load_MaxConnectionsToBackend_def load_MaxConcurrencyDeleting_def
      load_GitHubURL_def load_RunnerVersion_def load_ShoesPluginOutputPath_def
      load_EnableRescueWorkflow_def zero_Conf_def default_Conf_def)
  from T [THEN conjunct2, rule_format, OF 2]
  have 3: "RunnerUser ?c = ''runner''" and 4: "MaxConnectionsToBackend ?c = 50"
    by simp_all
  from 1 2 3 4 show ?thesis by simp
qed

lemma Getenv_upd_other: "k \<noteq> k' \<Longrightarrow> Getenv (env(k' := x)) k = Getenv env k"
  by (simp add: Getenv_def)

lemma load_before_RunnerVersion:
  "load_Port (env(EnvRunnerVersion := x)) = load_Port env"
  "load_RunnerUser (env(EnvRunnerVersion := x)) = load_RunnerUser env"
  "load_Debug (env(EnvRunnerVersion := x)) = load_Debug env"
  "load_Strict (env(EnvRunnerVersion := x)) = load_Strict env"
  "load_ModeWebhookType L (env(EnvRunnerVersion := x)) = load_ModeWebhookType L env"
  "load_DockerHub (env(EnvRunnerVersion := x)) = load_DockerHub env"
  "load_MaxConnectionsToBackend (env(EnvRunnerVersion := x)) = load_MaxConnectionsToBackend env"
  "load_MaxConcurrencyDeleting (env(EnvRunnerVersion := x)) = load_MaxConcurrencyDeleting env"
  "load_GitHubURL L (env(EnvRunnerVersion := x)) = load_GitHubURL L env"
  "load_ShoesPluginOutputPath (env(EnvRunnerVersion := x)) = load_ShoesPluginOutputPath env"
  "load_EnableRescueWorkflow (env(EnvRunnerVersion := x)) = load_EnableRescueWorkflow env"
  unfolding load_Port_def load_RunnerUser_def load_Debug_def load_Strict_def
      load_ModeWebhookType_def load_DockerHub_def load_MaxConnectionsToBackend_def
      load_MaxConcurrencyDeleting_def load_GitHubURL_def load_ShoesPluginOutputPath_def
      load_EnableRescueWorkflow_def
      Getenv_upd_other [of EnvPort EnvRunnerVersion, simplified]
      Getenv_upd_other [of EnvRunnerUser EnvRunnerVersion, simplified]
      Getenv_upd_other [of EnvDebug EnvRunnerVersion, simplified]
      Getenv_upd_other [of EnvStrict EnvRunnerVersion, simplified]
      Getenv_upd_other [of EnvModeWebhookType EnvRunnerVersion, simplified]
      Getenv_upd_other [of EnvProvideDockerHubMetrics EnvRunnerVersion, simplified]
      Getenv_upd_other [of EnvDockerHubUsername EnvRunnerVersion, simplified]
      Getenv_upd_other [of EnvDockerHubPassword EnvRunnerVersion, simplified]
      Getenv_upd_other [of EnvMaxConnectionsToBackend EnvRunnerVersion, simplified]
      Getenv_upd_other [of EnvMaxConcurrencyDeleting EnvRunnerVersion, simplified]
      Getenv_upd_other [of EnvGitHubURL EnvRunnerVersion, simplified]
      Getenv_upd_other [of EnvShoesPluginOutputPath EnvRunnerVersion, simplified]
      Getenv_upd_other [of EnvEnableRescueWorkflow EnvRunnerVersion, simplified]
  by (rule refl)+

lemma load_after_RunnerVersion:
  "load_EnableRescueWorkflow env (load_ShoesPluginOutputPath env (c\<lparr>RunnerVersion := v\<rparr>)) =
   (load_EnableRescueWorkflow env (load_ShoesPluginOutputPath env c))\<lparr>RunnerVersion := v\<rparr>"
  by (simp add: load_EnableRescueWorkflow_def load_ShoesPluginOutputPath_def Let_def)

lemma RunnerVersion_unset_split:
  "LoadWithDefault L (env(EnvRunnerVersion := None)) = Return c' \<Longrightarrow>
   \<exists>c5. (\<forall>x. LoadWithDefault L (env(EnvRunnerVersion := x)) =
            and_then (load_RunnerVersion L (env(EnvRunnerVersion := x)) c5) (\<lambda>c.
              Return (load_EnableRescueWorkflow env (load_ShoesPluginOutputPath env c)))) \<and>
        c' = (load_EnableRescueWorkflow env (load_ShoesPluginOutputPath env c5))
               \<lparr>RunnerVersion := ''latest''\<rparr>"
proof -
  assume a: "LoadWithDefault L (env(EnvRunnerVersion := None)) = Return c'"
  then obtain c1 c2 c3 c4 c5 c6 where
    1: "load_Port env zero_Conf = Return c1" and
    2: "load_ModeWebhookType L env (load_Strict env (load_Debug env (load_RunnerUser env c1))) =
        Return c2" and
    3: "load_MaxConnectionsToBackend env (load_DockerHub env c2) = Return c3" and
    4: "load_MaxConcurrencyDeleting env c3 = Return c4" and
    5: "load_GitHubURL L env c4 = Return c5" and
    6: "load_RunnerVersion L (env(EnvRunnerVersion := None)) c5 = Return c6" and
    7: "c' = load_EnableRescueWorkflow env (load_ShoesPluginOutputPath env c6)"
    unfolding LoadWithDefault_def and_then_Return load_before_RunnerVersion by auto
  from 6 have c6: "c6 = c5\<lparr>RunnerVersion := ''latest''\<rparr>"
    by (simp add: load_RunnerVersion_def Getenv_def)
  have "LoadWithDefault L (env(EnvRunnerVersion := x)) =
            and_then (load_RunnerVersion L (env(EnvRunnerVersion := x)) c5) (\<lambda>c.
              Return (load_EnableRescueWorkflow env (load_ShoesPluginOutputPath env c)))" for x
    unfolding LoadWithDefault_def load_before_RunnerVersion
    by (simp add: 1 2 3 4 5 and_then_def)
  moreover have "c' = (load_EnableRescueWorkflow env (load_ShoesPluginOutputPath env c5))
               \<lparr>RunnerVersion := ''latest''\<rparr>"
    unfolding 7 c6 by (rule load_after_RunnerVersion)
  ultimately show ?thesis by blast
qed

lemma RunnerVersion_empty_unset:
  "LoadWithDefault L (env(EnvRunnerVersion := Some [])) =
   LoadWithDefault L (env(EnvRunnerVersion := None))"
proof -
  have "load_RunnerVersion L (env(EnvRunnerVersion := Some [])) =
        load_RunnerVersion L (env(EnvRunnerVersion := None))"
    by (intro ext) (simp add: load_RunnerVersion_def Getenv_def)
  then show ?thesis
    unfolding LoadWithDefault_def load_before_RunnerVersion by simp
qed

text \<open>
  Claim C6, as stated, fails for a variable that is set to the empty string: the value is
  neither \<open>latest\<close> nor a version, and the loading returns, with the runner version
  \<open>latest\<close>.
\<close>

theorem LoadWithDefault_RunnerVersion_counterexample:
  "[EnvRunnerVersion \<mapsto> []] EnvRunnerVersion = Some [] \<and> [] \<noteq> ''latest'' \<and>
   version_NewVersion demo_library [] \<noteq> None \<and>
   LoadWithDefault demo_library [EnvRunnerVersion \<mapsto> []] = Return default_Conf"
proof -
  have "LoadWithDefault demo_library [EnvRunnerVersion \<mapsto> []] =
        LoadWithDefault demo_library Map.empty"
    using RunnerVersion_empty_unset [of demo_library Map.empty] by simp
  then show ?thesis by (simp add: LoadWithDefault_empty demo_library_def)
qed

text \<open>
  Claim C6, amended. If the runner version variable is set to a value that is not empty,
  the loading accepts it only when it is exactly \<open>latest\<close> or \<open>version.NewVersion\<close>
  accepts it, and the runner version of the configuration is then this value. For every
  other value that is not empty the loading panics; when the rest of the environment
  loads, the panic is the one of the runner version. A variable set to the empty string
  is treated as unset.
\<close>

theorem LoadWithDefault_RunnerVersion:
  "(LoadWithDefault L env = Return c \<and> env EnvRunnerVersion = Some v \<and> v \<noteq> [] \<longrightarrow>
      RunnerVersion c = v \<and> (v = ''latest'' \<or> version_NewVersion L v = None)) \<and>
   (env EnvRunnerVersion = Some v \<and> v \<noteq> [] \<and> v \<noteq> ''latest'' \<and>
    version_NewVersion L v = Some err \<longrightarrow>
      (\<exists>p. LoadWithDefault L env = Panic p) \<and>
      (\<forall>c'. LoadWithDefault L (env(EnvRunnerVersion := None)) = Return c' \<longrightarrow>
         LoadWithDefault L env =
           Panic (Panicf ''failed to parse input runner version: %+v'' [ArgW err]))) \<and>
   (env EnvRunnerVersion = Some v \<and> v \<noteq> [] \<and> (v = ''latest'' \<or> version_NewVersion L v = None) \<and>
    LoadWithDefault L (env(EnvRunnerVersion := None)) = Return c' \<longrightarrow>
      LoadWithDefault L env = Return (c'\<lparr>RunnerVersion := v\<rparr>)) \<and>
   (env EnvRunnerVersion = Some [] \<longrightarrow>
      LoadWithDefault L env = LoadWithDefault L (env(EnvRunnerVersion := None)))"
proof (intro conjI impI allI)
  assume a: "LoadWithDefault L env = Return c \<and> env EnvRunnerVersion = Some v \<and> v \<noteq> []"
  then have g: "Getenv env EnvRunnerVersion = v" by (simp add: Getenv_def)
  from a have r: "LoadWithDefault L env = Return c" by simp
  from LoadWithDefault_Return [OF r] obtain w where
    w: "RunnerVersion c = w" and
    c: "if Getenv env EnvRunnerVersion = [] \<or> Getenv env EnvRunnerVersion = ''latest''
      then w = ''latest''
      else w = Getenv env EnvRunnerVersion \<and>
           version_NewVersion L (Getenv env EnvRunnerVersion) = None"
    by auto
  from a g w c show "RunnerVersion c = v" by (auto split: if_splits)
  from a g w c show "v = ''latest'' \<or> version_NewVersion L v = None" by (auto split: if_splits)
next
  assume a: "env EnvRunnerVersion = Some v \<and> v \<noteq> [] \<and> v \<noteq> ''latest'' \<and>
    version_NewVersion L v = Some err"
  then have g: "Getenv env EnvRunnerVersion = v" by (simp add: Getenv_def)
  show "\<exists>p. LoadWithDefault L env = Panic p"
  proof (cases "LoadWithDefault L env")
    case (Return c)
    from LoadWithDefault_Return [OF Return] a g have False by auto
    then show ?thesis ..
  next
    case (Panic p)
    then show ?thesis by blast
  qed
next
  fix c'
  assume a: "env EnvRunnerVersion = Some v \<and> v \<noteq> [] \<and> v \<noteq> ''latest'' \<and>
    version_NewVersion L v = Some err"
    and u: "LoadWithDefault L (env(EnvRunnerVersion := None)) = Return c'"
  from a have e: "env(EnvRunnerVersion := Some v) = env" by auto
  from RunnerVersion_unset_split [OF u] obtain c5 where
    s: "\<And>x. LoadWithDefault L (env(EnvRunnerVersion := x)) =
            and_then (load_RunnerVersion L (env(EnvRunnerVersion := x)) c5) (\<lambda>c.
              Return (load_EnableRescueWorkflow env (load_ShoesPluginOutputPath env c)))"
    by blast
  from s [of "Some v"] a
  show "LoadWithDefault L env =
           Panic (Panicf ''failed to parse input runner version: %+v'' [ArgW err])"
    unfolding e by (simp add: load_RunnerVersion_def Getenv_def and_then_def)
next
  assume a: "env EnvRunnerVersion = Some v \<and> v \<noteq> [] \<and>
    (v = ''latest'' \<or> version_NewVersion L v = None) \<and>
    LoadWithDefault L (env(EnvRunnerVersion := None)) = Return c'"
  then have u: "LoadWithDefault L (env(EnvRunnerVersion := None)) = Return c'" by simp
  from a have e: "env(EnvRunnerVersion := Some v) = env" by auto
  from RunnerVersion_unset_split [OF u] obtain c5 where
    s: "\<And>x. LoadWithDefault L (env(EnvRunnerVersion := x)) =
            and_then (load_RunnerVersion L (env(EnvRunnerVersion := x)) c5) (\<lambda>c.
              Return (load_EnableRescueWorkflow env (load_ShoesPluginOutputPath env c)))"
    and c': "c' = (load_EnableRescueWorkflow env (load_ShoesPluginOutputPath env c5))
               \<lparr>RunnerVersion := ''latest''\<rparr>"
    by blast
  from a have "load_RunnerVersion L (env(EnvRunnerVersion := Some v)) c5 =
    Return (c5\<lparr>RunnerVersion := v\<rparr>)"
    by (auto simp: load_RunnerVersion_def Getenv_def)
  with s [of "Some v"] show "LoadWithDefault L env = Return (c'\<lparr>RunnerVersion := v\<rparr>)"
    unfolding e c' by (simp add: and_then_def load_after_RunnerVersion)
next
  assume "env EnvRunnerVersion = Some []"
  then have e: "env(EnvRunnerVersion := Some []) = env" by auto
  from RunnerVersion_empty_unset [of L env]
  show "LoadWithDefault L env = LoadWithDefault L (env(EnvRunnerVersion := None))"
    unfolding e .
qed

theorem LoadWithDefault_RunnerVersion_witness:
  "LoadWithDefault demo_library [EnvRunnerVersion \<mapsto> ''2.311.0''] =
     Return (default_Conf\<lparr>RunnerVersion := ''2.311.0''\<rparr>) \<and>
   LoadWithDefault demo_library [EnvRunnerVersion \<mapsto> ''next''] =
     Panic (Panicf ''failed to parse input runner version: %+v''
              [ArgW (Errorf ''Malformed version: %s'' [ArgS ''next''])]) \<and>
   LoadWithDefault demo_library [EnvRunnerVersion \<mapsto> []] = Return default_Conf"
proof -
  note T = LoadWithDefault_RunnerVersion
  note T2 = T [THEN conjunct2, THEN conjunct1, rule_format]
  note T3 = T [THEN conjunct2, THEN conjunct2, THEN conjunct1, rule_format]
  note T4 = T [THEN conjunct2, THEN conjunct2, THEN conjunct2, rule_format]
  have v1: "version_NewVersion demo_library ''2.311.0'' = None"
    and v2: "version_NewVersion demo_library ''next'' =
             Some (Errorf ''Malformed version: %s'' [ArgS ''next''])"
    by (simp_all add: demo_library_def)
  have 1: "LoadWithDefault demo_library [EnvRunnerVersion \<mapsto> ''2.311.0''] =
     Return (default_Conf\<lparr>RunnerVersion := ''2.311.0''\<rparr>)"
    by (rule T3 [of _ "''2.311.0''"]) (simp add: LoadWithDefault_empty v1)
  have 2: "LoadWithDefault demo_library [EnvRunnerVersion \<mapsto> ''next''] =
     Panic (Panicf ''failed to parse input runner version: %+v''
              [ArgW (Errorf ''Malformed version: %s'' [ArgS ''next''])])"
    using T2 [of "[EnvRunnerVersion \<mapsto> ''next'']" "''next''" demo_library
        "Errorf ''Malformed version: %s'' [ArgS ''next'']", THEN conjunct2, rule_format,
        of default_Conf] v2
    by (simp add: LoadWithDefault_empty)
  have 3: "LoadWithDefault demo_library [EnvRunnerVersion \<mapsto> []] = Return default_Conf"
    using T4 [of "[EnvRunnerVersion \<mapsto> []]" demo_library]
    by (simp add: LoadWithDefault_empty)
  from 1 2 3 show ?thesis by simp
qed




















section \<open>Properties of the enqueue-notify channel\<close>

lemma post_full: "c < length h \<Longrightarrow> len (h ! c) = cap (h ! c) \<Longrightarrow> post c h = h"
  by (simp add: post_def)

lemma posts_one:
  "c < length h \<Longrightarrow> h ! c = \<lparr>cap = 1, len = 0\<rparr> \<Longrightarrow> 0 < n \<Longrightarrow>
   (post c ^^ n) h = h[c := \<lparr>cap = 1, len = 1\<rparr>]"
proof (induction n)
  case 0
  then show ?case by simp
next
  case (Suc n)
  show ?case
  proof (cases "n = 0")
    case True
    with Suc.prems show ?thesis by (simp add: post_def)
  next
    case False
    with Suc have i: "(post c ^^ n) h = h[c := \<lparr>cap = 1, len = 1\<rparr>]" by simp
    have "(post c ^^ Suc n) h = post c ((post c ^^ n) h)" by simp
    also have "\<dots> = post c (h[c := \<lparr>cap = 1, len = 1\<rparr>])" by (simp only: i)
    also have "\<dots> = h[c := \<lparr>cap = 1, len = 1\<rparr>]"
      using Suc.prems(1) by (intro post_full) simp_all
    finally show ?thesis .
  qed
qed

text \<open>
  Claim C8. \<open>newShoes\<close> makes one channel of capacity 1, empty, and gives this same
  channel to the datastore and to the starter. A post on the channel while it holds an
  undrained post leaves it as it is. After any number \<open>n > 0\<close> of posts by the
  datastore on the new channel the starter observes one value, and then none.
\<close>

theorem newShoes_notify_coalesces:
  "(newShoes connect dsn cfg h = (Inr m, h1) \<longrightarrow>
      my_notifyEnqueueCh (sh_ds m) = st_notifyEnqueueCh (sh_start m) \<and>
      st_notifyEnqueueCh (sh_start m) < length h1 \<and>
      h1 ! st_notifyEnqueueCh (sh_start m) = \<lparr>cap = 1, len = 0\<rparr> \<and>
      length h1 = Suc (length h)) \<and>
   (c < length g \<and> cap (g ! c) = 1 \<and> len (g ! c) = 1 \<longrightarrow> post c g = g) \<and>
   (newShoes connect dsn cfg h = (Inr m, h1) \<and> 0 < n \<and>
    (post (my_notifyEnqueueCh (sh_ds m)) ^^ n) h1 = h2 \<longrightarrow>
      (\<exists>h3. observe (st_notifyEnqueueCh (sh_start m)) h2 = (True, h3) \<and>
            observe (st_notifyEnqueueCh (sh_start m)) h3 = (False, h3)))"
proof (intro conjI impI)
  assume a: "newShoes connect dsn cfg h = (Inr m, h1)"
  then have m: "my_notifyEnqueueCh (sh_ds m) = length h \<and> st_notifyEnqueueCh (sh_start m) = length h"
    and h1: "h1 = h @ [\<lparr>cap = 1, len = 0\<rparr>]"
    by (auto simp: newShoes_def make_chan_def mysql_New_def starter_New_def Let_def
        split: option.splits)
  from m show "my_notifyEnqueueCh (sh_ds m) = st_notifyEnqueueCh (sh_start m)" by simp
  from m h1 show "st_notifyEnqueueCh (sh_start m) < length h1" by simp
  from m h1 show "h1 ! st_notifyEnqueueCh (sh_start m) = \<lparr>cap = 1, len = 0\<rparr>" by simp
  from h1 show "length h1 = Suc (length h)" by simp
next
  assume "c < length g \<and> cap (g ! c) = 1 \<and> len (g ! c) = 1"
  then show "post c g = g" by (simp add: post_full)
next
  assume a: "newShoes connect dsn cfg h = (Inr m, h1) \<and> 0 < n \<and>
    (post (my_notifyEnqueueCh (sh_ds m)) ^^ n) h1 = h2"
  then have m: "my_notifyEnqueueCh (sh_ds m) = length h" "st_notifyEnqueueCh (sh_start m) = length h"
    and h1: "h1 = h @ [\<lparr>cap = 1, len = 0\<rparr>]"
    by (auto simp: newShoes_def make_chan_def mysql_New_def starter_New_def Let_def
        split: option.splits)
  have "(post (length h) ^^ n) h1 = h1[length h := \<lparr>cap = 1, len = 1\<rparr>]"
    using a by (intro posts_one) (simp_all add: h1)
  with a m have h2: "h2 = h @ [\<lparr>cap = 1, len = 1\<rparr>]" by (simp add: h1)
  have "observe (length h) h2 = (True, h @ [\<lparr>cap = 1, len = 0\<rparr>])"
    by (simp add: observe_def h2)
  moreover have "observe (length h) (h @ [\<lparr>cap = 1, len = 0\<rparr>]) =
    (False, h @ [\<lparr>cap = 1, len = 0\<rparr>])"
    by (simp add: observe_def)
  ultimately show "\<exists>h3. observe (st_notifyEnqueueCh (sh_start m)) h2 = (True, h3) \<and>
            observe (st_notifyEnqueueCh (sh_start m)) h3 = (False, h3)"
    using m by simp
qed

theorem newShoes_notify_coalesces_witness:
  "newShoes (\<lambda>dsn. None) ''user:pw@tcp(db:3306)/myshoes'' default_Conf [] =
     (Inr \<lparr>sh_ds = \<lparr>my_dsn = ''user:pw@tcp(db:3306)/myshoes'', my_notifyEnqueueCh = 0\<rparr>,
           sh_start = \<lparr>st_ds = \<lparr>my_dsn = ''user:pw@tcp(db:3306)/myshoes'', my_notifyEnqueueCh = 0\<rparr>,
                    st_runnerVersion = ''latest'', st_enableRescueWorkflow = False,
                    st_notifyEnqueueCh = 0\<rparr>,
           sh_run = \<lparr>mg_ds = \<lparr>my_dsn = ''user:pw@tcp(db:3306)/myshoes'', my_notifyEnqueueCh = 0\<rparr>,
                  mg_runnerVersion = ''latest''\<rparr>\<rparr>,
      [\<lparr>cap = 1, len = 0\<rparr>]) \<and>
   post 0 [\<lparr>cap = 1, len = 1\<rparr>] = [\<lparr>cap = 1, len = 1\<rparr>] \<and>
   (\<exists>h3. observe 0 ((post 0 ^^ 3) [\<lparr>cap = 1, len = 0\<rparr>]) = (True, h3) \<and>
         observe 0 h3 = (False, h3))"
proof -
  let ?dsn = "''user:pw@tcp(db:3306)/myshoes''"
  let ?my = "\<lparr>my_dsn = ?dsn, my_notifyEnqueueCh = 0\<rparr>"
  let ?m = "\<lparr>sh_ds = ?my,
           sh_start = \<lparr>st_ds = ?my, st_runnerVersion = ''latest'', st_enableRescueWorkflow = False,
                    st_notifyEnqueueCh = 0\<rparr>,
           sh_run = \<lparr>mg_ds = ?my, mg_runnerVersion = ''latest''\<rparr>\<rparr>"
  note T = newShoes_notify_coalesces
  note T2 = T [THEN conjunct2, THEN conjunct1, rule_format]
  note T3 = T [THEN conjunct2, THEN conjunct2, rule_format]
  have 1: "newShoes (\<lambda>dsn. None) ?dsn default_Conf [] = (Inr ?m, [\<lparr>cap = 1, len = 0\<rparr>])"
    by (simp add: newShoes_def make_chan_def mysql_New_def starter_New_def runner_New_def
        default_Conf_def)
  have 2: "post 0 [\<lparr>cap = 1, len = 1\<rparr>] = [\<lparr>cap = 1, len = 1\<rparr>]"
    by (rule T2) simp
  from T3 [of "\<lambda>dsn. None" ?dsn default_Conf "[]" ?m "[\<lparr>cap = 1, len = 0\<rparr>]" 3
      "(post 0 ^^ 3) [\<lparr>cap = 1, len = 0\<rparr>]"] 1
  have 3: "\<exists>h3. observe 0 ((post 0 ^^ 3) [\<lparr>cap = 1, len = 0\<rparr>]) = (True, h3) \<and>
         observe 0 h3 = (False, h3)"
    by simp
  from 1 2 3 show ?thesis by simp
qed


end
